theory Spec2Isabelle
  imports Main "HOL-Library.Word" "HOL-Library.Multiset" "HOL-Library.Char_ord"
    "HOL-Library.List_Lexorder" "HOL-Library.Product_Lexorder"
begin

unbundle bit_operations_syntax

section \<open>Go strings\<close>

text \<open>
  A Go string is a sequence of bytes; \<open>string\<close> (a list of 8-bit characters) is the same
  thing. The functions of the packages \<open>strings\<close>, \<open>unicode\<close> and \<open>unicode/utf8\<close> that the
  linters call are written out here.
\<close>

fun HasPrefix :: "string \<Rightarrow> string \<Rightarrow> bool" where
  "HasPrefix s [] = True"
| "HasPrefix [] (p # ps) = False"
| "HasPrefix (c # cs) (p # ps) = (c = p \<and> HasPrefix cs ps)"

definition HasSuffix :: "string \<Rightarrow> string \<Rightarrow> bool" where
  "HasSuffix s suf = HasPrefix (rev s) (rev suf)"

fun Contains :: "string \<Rightarrow> string \<Rightarrow> bool" where
  "Contains [] sub = (sub = [])"
| "Contains (c # cs) sub = (HasPrefix (c # cs) sub \<or> Contains cs sub)"

subsection \<open>Runes and UTF-8\<close>

text \<open>
  A rune is a Unicode code point, an \<open>int32\<close> in Go. \<open>utf8.DecodeRuneInString\<close> reads the
  first rune of a string and the number of bytes it takes. The first byte gives that
  number and the range of the second byte (the table \<open>first\<close> of the package); the other
  bytes lie between \<open>0x80\<close> and \<open>0xBF\<close>. Anything else is \<open>RuneError\<close> of width 1: a byte
  that starts no encoding, a string that ends too early, an encoding longer than needed,
  a surrogate, a value above \<open>U+10FFFF\<close>.
\<close>

type_synonym rune = int

definition RuneError :: rune where
  "RuneError = 0xFFFD"

definition byte :: "char \<Rightarrow> nat" where
  "byte c = of_char c"

fun DecodeRuneInString :: "string \<Rightarrow> rune \<times> nat" where
  "DecodeRuneInString [] = (RuneError, 0)"
| "DecodeRuneInString (c # cs) =
     (let s0 = byte c
      in if s0 < 0x80 then (int s0, 1)
         else if s0 < 0xC2 \<or> 0xF4 < s0 then (RuneError, 1)
         else
           (let sz = (if s0 < 0xE0 then 2 else if s0 < 0xF0 then 3 else 4) :: nat;
                lo = (if s0 = 0xE0 then 0xA0 else if s0 = 0xF0 then 0x90 else 0x80) :: nat;
                hi = (if s0 = 0xED then 0x9F else if s0 = 0xF4 then 0x8F else 0xBF) :: nat
            in if length (c # cs) < sz then (RuneError, 1)
               else
                 (let s1 = byte (cs ! 0)
                  in if s1 < lo \<or> hi < s1 then (RuneError, 1)
                     else if sz \<le> 2 then (int (s0 mod 32 * 64 + s1 mod 64), 2)
                     else
                       (let s2 = byte (cs ! 1)
                        in if s2 < 0x80 \<or> 0xBF < s2 then (RuneError, 1)
                           else if sz \<le> 3
                           then (int (s0 mod 16 * 4096 + s1 mod 64 * 64 + s2 mod 64), 3)
                           else
                             (let s3 = byte (cs ! 2)
                              in if s3 < 0x80 \<or> 0xBF < s3 then (RuneError, 1)
                                 else (int (s0 mod 8 * 262144 + s1 mod 64 * 4096 +
                                            s2 mod 64 * 64 + s3 mod 64), 4))))))"

text \<open>
  \<open>utf8.RuneStart\<close>: the byte is not a continuation byte (\<open>b&0xC0 != 0x80\<close>).
\<close>

definition RuneStart :: "char \<Rightarrow> bool" where
  "RuneStart b = (\<not> (0x80 \<le> byte b \<and> byte b < 0xC0))"

text \<open>
  \<open>utf8.DecodeLastRuneInString\<close> reads the last rune of a string. It steps back from
  the byte before the last to a byte that starts a rune, at most \<open>UTFMax = 4\<close> bytes from
  the end (the loop \<open>lastStart\<close>), decodes from there, and answers \<open>RuneError\<close> of width 1
  unless the rune read ends where the string ends.
\<close>

function lastStart :: "string \<Rightarrow> int \<Rightarrow> int \<Rightarrow> int" where
  "lastStart s start lim =
     (if start < lim then start
      else if RuneStart (s ! nat start) then start
      else lastStart s (start - 1) lim)"
  by pat_completeness auto
termination
  by (relation "measure (\<lambda>(s, start, lim). nat (start - lim + 1))") auto

declare lastStart.simps [simp del]

definition DecodeLastRuneInString :: "string \<Rightarrow> rune \<times> nat" where
  "DecodeLastRuneInString s =
     (let n = length s
      in if n = 0 then (RuneError, 0)
         else
           (let r = byte (s ! (n - 1))
            in if r < 0x80 then (int r, 1)
               else
                 (let lim = (if int n - 4 < 0 then 0 else int n - 4);
                      start = lastStart s (int n - 2) lim;
                      start = (if start < 0 then 0 else start)
                  in case DecodeRuneInString (drop (nat start) s) of
                       (r, width) \<Rightarrow> if nat start + width \<noteq> n then (RuneError, 1) else (r, width))))"

text \<open>
  \<open>utf8.AppendRune\<close>, which \<open>strings.Builder.WriteRune\<close> calls: the UTF-8 encoding of a
  rune, and that of \<open>RuneError\<close> for a surrogate or a value out of range.
\<close>

definition EncodeRune :: "rune \<Rightarrow> string" where
  "EncodeRune r =
     (let i = nat r
      in if r < 0 \<or> 0x10FFFF < r \<or> (0xD800 \<le> r \<and> r \<le> 0xDFFF)
         then [CHR 0xEF, CHR 0xBF, CHR 0xBD]
         else if i \<le> 0x7F then [char_of i]
         else if i \<le> 0x7FF then [char_of (0xC0 + i div 64), char_of (0x80 + i mod 64)]
         else if i \<le> 0xFFFF
         then [char_of (0xE0 + i div 4096), char_of (0x80 + i div 64 mod 64), char_of (0x80 + i mod 64)]
         else [char_of (0xF0 + i div 262144), char_of (0x80 + i div 4096 mod 64),
               char_of (0x80 + i div 64 mod 64), char_of (0x80 + i mod 64)])"

text \<open>
  The runes of a string, as a \<open>range\<close> loop over the string yields them: a byte that
  does not decode is \<open>RuneError\<close>, and the loop goes on with the next byte.
\<close>

lemma DecodeRuneInString_width: "s \<noteq> [] \<Longrightarrow> 0 < snd (DecodeRuneInString s)"
  by (cases s) (simp_all add: Let_def)

function runes :: "string \<Rightarrow> rune list" where
  "runes s =
     (if s = [] then []
      else case DecodeRuneInString s of (r, width) \<Rightarrow> r # runes (drop width s))"
  by pat_completeness auto
termination
proof (relation "measure length")
  fix s :: string and r :: rune and width :: nat
  assume s: "s \<noteq> []" and r: "(r, width) = DecodeRuneInString s"
  have "snd (DecodeRuneInString s) = width"
    using r by (metis snd_conv)
  then have "0 < width"
    using DecodeRuneInString_width [OF s] by simp
  then show "(drop width s, s) \<in> measure length"
    using s by simp
qed simp

declare runes.simps [simp del]

subsection \<open>White space and letter case\<close>

text \<open>
  \<open>unicode.IsSpace\<close>: in Latin-1 the characters \<open>\t\<close>, \<open>\n\<close>, \<open>\v\<close>, \<open>\f\<close>, \<open>\r\<close>, the
  space, U+0085 and U+00A0; beyond it the characters of the Unicode property
  \<open>White_Space\<close>.
\<close>

definition IsSpace :: "rune \<Rightarrow> bool" where
  "IsSpace r =
     (if 0 \<le> r \<and> r \<le> 0xFF
      then r = 0x09 \<or> r = 0x0A \<or> r = 0x0B \<or> r = 0x0C \<or> r = 0x0D \<or> r = 0x20 \<or> r = 0x85 \<or> r = 0xA0
      else r = 0x1680 \<or> (0x2000 \<le> r \<and> r \<le> 0x200A) \<or> r = 0x2028 \<or> r = 0x2029 \<or>
           r = 0x202F \<or> r = 0x205F \<or> r = 0x3000)"

text \<open>
  \<open>unicode.ToLower\<close> is the simple lower-case mapping of the Unicode Character Database
  (version 15.0.0 in Go 1.21 to 1.24), which the table \<open>unicode.CaseRanges\<close> holds. Outside
  ASCII it is the table \<open>lowerRanges\<close>: a range of code points with the number to add to
  each, or, with no number, a range where upper-case and lower-case letters alternate,
  the first being upper-case, and an upper-case letter maps to the next code point. A
  code point in no range maps to itself.
\<close>

definition lowerRanges :: "(rune \<times> rune \<times> int option) list" where
  "lowerRanges =
    [(0x00C0, 0x00D6, Some 32), (0x00D8, 0x00DE, Some 32), (0x0100, 0x012F, None),
     (0x0130, 0x0130, Some (- 199)), (0x0132, 0x0137, None), (0x0139, 0x0148, None),
     (0x014A, 0x0177, None), (0x0178, 0x0178, Some (- 121)), (0x0179, 0x017E, None),
     (0x0181, 0x0181, Some 210), (0x0182, 0x0185, None), (0x0186, 0x0186, Some 206),
     (0x0187, 0x0187, Some 1), (0x0189, 0x018A, Some 205), (0x018B, 0x018B, Some 1),
     (0x018E, 0x018E, Some 79), (0x018F, 0x018F, Some 202), (0x0190, 0x0190, Some 203),
     (0x0191, 0x0191, Some 1), (0x0193, 0x0193, Some 205), (0x0194, 0x0194, Some 207),
     (0x0196, 0x0196, Some 211), (0x0197, 0x0197, Some 209), (0x0198, 0x0198, Some 1),
     (0x019C, 0x019C, Some 211), (0x019D, 0x019D, Some 213), (0x019F, 0x019F, Some 214),
     (0x01A0, 0x01A5, None), (0x01A6, 0x01A6, Some 218), (0x01A7, 0x01A7, Some 1),
     (0x01A9, 0x01A9, Some 218), (0x01AC, 0x01AC, Some 1), (0x01AE, 0x01AE, Some 218),
     (0x01AF, 0x01AF, Some 1), (0x01B1, 0x01B2, Some 217), (0x01B3, 0x01B6, None),
     (0x01B7, 0x01B7, Some 219), (0x01B8, 0x01B8, Some 1), (0x01BC, 0x01BC, Some 1),
     (0x01C4, 0x01C4, Some 2), (0x01C5, 0x01C5, Some 1), (0x01C7, 0x01C7, Some 2),
     (0x01C8, 0x01C8, Some 1), (0x01CA, 0x01CA, Some 2), (0x01CB, 0x01DC, None),
     (0x01DE, 0x01EF, None), (0x01F1, 0x01F1, Some 2), (0x01F2, 0x01F5, None),
     (0x01F6, 0x01F6, Some (- 97)), (0x01F7, 0x01F7, Some (- 56)), (0x01F8, 0x021F, None),
     (0x0220, 0x0220, Some (- 130)), (0x0222, 0x0233, None), (0x023A, 0x023A, Some 10795),
     (0x023B, 0x023B, Some 1), (0x023D, 0x023D, Some (- 163)), (0x023E, 0x023E, Some 10792),
     (0x0241, 0x0241, Some 1), (0x0243, 0x0243, Some (- 195)), (0x0244, 0x0244, Some 69),
     (0x0245, 0x0245, Some 71), (0x0246, 0x024F, None), (0x0370, 0x0373, None),
     (0x0376, 0x0376, Some 1), (0x037F, 0x037F, Some 116), (0x0386, 0x0386, Some 38),
     (0x0388, 0x038A, Some 37), (0x038C, 0x038C, Some 64), (0x038E, 0x038F, Some 63),
     (0x0391, 0x03A1, Some 32), (0x03A3, 0x03AB, Some 32), (0x03CF, 0x03CF, Some 8),
     (0x03D8, 0x03EF, None), (0x03F4, 0x03F4, Some (- 60)), (0x03F7, 0x03F7, Some 1),
     (0x03F9, 0x03F9, Some (- 7)), (0x03FA, 0x03FA, Some 1), (0x03FD, 0x03FF, Some (- 130)),
     (0x0400, 0x040F, Some 80), (0x0410, 0x042F, Some 32), (0x0460, 0x0481, None),
     (0x048A, 0x04BF, None), (0x04C0, 0x04C0, Some 15), (0x04C1, 0x04CE, None),
     (0x04D0, 0x052F, None), (0x0531, 0x0556, Some 48), (0x10A0, 0x10C5, Some 7264),
     (0x10C7, 0x10C7, Some 7264), (0x10CD, 0x10CD, Some 7264), (0x13A0, 0x13EF, Some 38864),
     (0x13F0, 0x13F5, Some 8), (0x1C90, 0x1CBA, Some (- 3008)), (0x1CBD, 0x1CBF, Some (- 3008)),
     (0x1E00, 0x1E95, None), (0x1E9E, 0x1E9E, Some (- 7615)), (0x1EA0, 0x1EFF, None),
     (0x1F08, 0x1F0F, Some (- 8)), (0x1F18, 0x1F1D, Some (- 8)), (0x1F28, 0x1F2F, Some (- 8)),
     (0x1F38, 0x1F3F, Some (- 8)), (0x1F48, 0x1F4D, Some (- 8)), (0x1F59, 0x1F59, Some (- 8)),
     (0x1F5B, 0x1F5B, Some (- 8)), (0x1F5D, 0x1F5D, Some (- 8)), (0x1F5F, 0x1F5F, Some (- 8)),
     (0x1F68, 0x1F6F, Some (- 8)), (0x1F88, 0x1F8F, Some (- 8)), (0x1F98, 0x1F9F, Some (- 8)),
     (0x1FA8, 0x1FAF, Some (- 8)), (0x1FB8, 0x1FB9, Some (- 8)), (0x1FBA, 0x1FBB, Some (- 74)),
     (0x1FBC, 0x1FBC, Some (- 9)), (0x1FC8, 0x1FCB, Some (- 86)), (0x1FCC, 0x1FCC, Some (- 9)),
     (0x1FD8, 0x1FD9, Some (- 8)), (0x1FDA, 0x1FDB, Some (- 100)), (0x1FE8, 0x1FE9, Some (- 8)),
     (0x1FEA, 0x1FEB, Some (- 112)), (0x1FEC, 0x1FEC, Some (- 7)),
     (0x1FF8, 0x1FF9, Some (- 128)), (0x1FFA, 0x1FFB, Some (- 126)),
     (0x1FFC, 0x1FFC, Some (- 9)), (0x2126, 0x2126, Some (- 7517)),
     (0x212A, 0x212A, Some (- 8383)), (0x212B, 0x212B, Some (- 8262)), (0x2132, 0x2132, Some 28),
     (0x2160, 0x216F, Some 16), (0x2183, 0x2183, Some 1), (0x24B6, 0x24CF, Some 26),
     (0x2C00, 0x2C2F, Some 48), (0x2C60, 0x2C60, Some 1), (0x2C62, 0x2C62, Some (- 10743)),
     (0x2C63, 0x2C63, Some (- 3814)), (0x2C64, 0x2C64, Some (- 10727)), (0x2C67, 0x2C6C, None),
     (0x2C6D, 0x2C6D, Some (- 10780)), (0x2C6E, 0x2C6E, Some (- 10749)),
     (0x2C6F, 0x2C6F, Some (- 10783)), (0x2C70, 0x2C70, Some (- 10782)),
     (0x2C72, 0x2C72, Some 1), (0x2C75, 0x2C75, Some 1), (0x2C7E, 0x2C7F, Some (- 10815)),
     (0x2C80, 0x2CE3, None), (0x2CEB, 0x2CEE, None), (0x2CF2, 0x2CF2, Some 1),
     (0xA640, 0xA66D, None), (0xA680, 0xA69B, None), (0xA722, 0xA72F, None),
     (0xA732, 0xA76F, None), (0xA779, 0xA77C, None), (0xA77D, 0xA77D, Some (- 35332)),
     (0xA77E, 0xA787, None), (0xA78B, 0xA78B, Some 1), (0xA78D, 0xA78D, Some (- 42280)),
     (0xA790, 0xA793, None), (0xA796, 0xA7A9, None), (0xA7AA, 0xA7AA, Some (- 42308)),
     (0xA7AB, 0xA7AB, Some (- 42319)), (0xA7AC, 0xA7AC, Some (- 42315)),
     (0xA7AD, 0xA7AD, Some (- 42305)), (0xA7AE, 0xA7AE, Some (- 42308)),
     (0xA7B0, 0xA7B0, Some (- 42258)), (0xA7B1, 0xA7B1, Some (- 42282)),
     (0xA7B2, 0xA7B2, Some (- 42261)), (0xA7B3, 0xA7B3, Some 928), (0xA7B4, 0xA7C3, None),
     (0xA7C4, 0xA7C4, Some (- 48)), (0xA7C5, 0xA7C5, Some (- 42307)),
     (0xA7C6, 0xA7C6, Some (- 35384)), (0xA7C7, 0xA7CA, None), (0xA7D0, 0xA7D0, Some 1),
     (0xA7D6, 0xA7D9, None), (0xA7F5, 0xA7F5, Some 1), (0xFF21, 0xFF3A, Some 32),
     (0x10400, 0x10427, Some 40), (0x104B0, 0x104D3, Some 40), (0x10570, 0x1057A, Some 39),
     (0x1057C, 0x1058A, Some 39), (0x1058C, 0x10592, Some 39), (0x10594, 0x10595, Some 39),
     (0x10C80, 0x10CB2, Some 64), (0x118A0, 0x118BF, Some 32), (0x16E40, 0x16E5F, Some 32),
     (0x1E900, 0x1E921, Some 34)]"

definition unicode_ToLower :: "rune \<Rightarrow> rune" where
  "unicode_ToLower r =
     (if r \<le> 0x7F then (if 0x41 \<le> r \<and> r \<le> 0x5A then r + 32 else r)
      else case find (\<lambda>(lo, hi, delta). lo \<le> r \<and> r \<le> hi) lowerRanges of
        None \<Rightarrow> r
      | Some (lo, hi, None) \<Rightarrow> (if even (r - lo) then r + 1 else r)
      | Some (lo, hi, Some delta) \<Rightarrow> r + delta)"

text \<open>
  \<open>strings.Map\<close> applies a mapping to the runes of a string and encodes the results; a
  negative result is dropped. (When no rune changes and every byte decodes, Go returns
  the string it was given, which is what encoding the runes again gives.)
\<close>

definition Map :: "(rune \<Rightarrow> rune) \<Rightarrow> string \<Rightarrow> string" where
  "Map mapping s =
     concat (map (\<lambda>c. let r = mapping c in if r \<ge> 0 then EncodeRune r else []) (runes s))"

text \<open>
  \<open>strings.ToLower\<close>: a string of ASCII bytes has its letters \<open>A\<close> to \<open>Z\<close> replaced by
  \<open>a\<close> to \<open>z\<close>; any other string goes through \<open>Map\<close> with \<open>unicode.ToLower\<close>.
\<close>

definition lowerTable :: "(char \<times> char) list" where
  "lowerTable = zip ''ABCDEFGHIJKLMNOPQRSTUVWXYZ'' ''abcdefghijklmnopqrstuvwxyz''"

definition toLowerByte :: "char \<Rightarrow> char" where
  "toLowerByte c = (case map_of lowerTable c of Some d \<Rightarrow> d | None \<Rightarrow> c)"

definition ToLower :: "string \<Rightarrow> string" where
  "ToLower s =
     (let isASCII = (\<forall>c \<in> set s. byte c < 0x80);
          hasUpper = (\<exists>c \<in> set s. CHR ''A'' \<le> c \<and> c \<le> CHR ''Z'')
      in if isASCII then (if \<not> hasUpper then s else map toLowerByte s)
         else Map unicode_ToLower s)"

text \<open>
  \<open>strings.TrimSpace\<close> removes the white space at the two ends of a string:
  \<open>TrimFunc(s, unicode.IsSpace)\<close>, which drops runes from the front as long as the first
  rune is white space, then from the end as long as the last rune is. (The loops over
  ASCII bytes that Go runs first remove the same bytes.) \<open>dropSpace\<close> and \<open>dropSpaceEnd\<close>
  remove one rune; a string has no more runes than bytes.
\<close>

definition dropSpace :: "string \<Rightarrow> string option" where
  "dropSpace s =
     (if s = [] then None
      else case DecodeRuneInString s of
        (r, width) \<Rightarrow> if IsSpace r then Some (drop width s) else None)"

definition dropSpaceEnd :: "string \<Rightarrow> string option" where
  "dropSpaceEnd s =
     (if s = [] then None
      else case DecodeLastRuneInString s of
        (r, width) \<Rightarrow> if IsSpace r then Some (take (length s - width) s) else None)"

fun trimRunes :: "(string \<Rightarrow> string option) \<Rightarrow> nat \<Rightarrow> string \<Rightarrow> string" where
  "trimRunes d 0 s = s"
| "trimRunes d (Suc n) s = (case d s of Some r \<Rightarrow> trimRunes d n r | None \<Rightarrow> s)"

definition TrimSpace :: "string \<Rightarrow> string" where
  "TrimSpace s =
     (let l = trimRunes dropSpace (length s) s
      in trimRunes dropSpaceEnd (length l) l)"

text \<open>
  \<open>strings.Split(s, ",")\<close>, for the one-byte separator the linter passes: the pieces
  between the separators, in order; a string with no separator is its own single piece.
\<close>

fun Split :: "string \<Rightarrow> char \<Rightarrow> string list" where
  "Split [] sep = [[]]"
| "Split (c # cs) sep =
     (if c = sep then [] # Split cs sep
      else (case Split cs sep of p # ps \<Rightarrow> (c # p) # ps | [] \<Rightarrow> [[c]]))"

fun Join :: "string list \<Rightarrow> string \<Rightarrow> string" where
  "Join [] sep = []"
| "Join [x] sep = x"
| "Join (x # y # ys) sep = x @ sep @ Join (y # ys) sep"

section \<open>Package rules: the violation and the bundle\<close>

text \<open>
  \<open>Severity\<close> and \<open>Category\<close> are named string types in the source, with the
  constants below; a violation holds them as strings.
\<close>

type_synonym Severity = string
type_synonym Category = string

definition SeverityError :: Severity where "SeverityError = ''error''"
definition SeverityWarning :: Severity where "SeverityWarning = ''warning''"
definition SeverityInfo :: Severity where "SeverityInfo = ''info''"

definition CategoryOLMRequirement :: Category where "CategoryOLMRequirement = ''OLM-Requirement''"
definition CategoryOLMBestPractice :: Category where "CategoryOLMBestPractice = ''OLM-Best-Practice''"
definition CategorySecurity :: Category where "CategorySecurity = ''OLM-Security''"
definition CategoryUpgrade :: Category where "CategoryUpgrade = ''OLM-Upgrade''"

record Violation =
  RuleID :: string
  RuleName :: string
  Category :: Category
  Severity :: Severity
  Message :: string
  File :: string
  Line :: int
  Description :: string
  Fixable :: bool

text \<open>
  A value decoded from YAML into Go's empty interface: the dynamic types the decoder
  produces. A \<open>float64\<close> is kept as its 64 bits (IEEE 754), since the rules only compare
  it with a constant.
\<close>

datatype yvalue =
  VNil
| VBool bool
| VInt int
| VInt64 int
| VUint64 nat
| VFloat64 "64 word"
| VString string
| VSlice "yvalue list"
| VMap "(string \<times> yvalue) list"

record Metadata =
  md_Name :: string
  md_Namespace :: string
  md_Annotations :: "string \<rightharpoonup> string"
  md_Labels :: "string \<rightharpoonup> string"

record CRDReference =
  ref_Name :: string
  ref_Version :: string
  ref_Kind :: string

record CSVCustomResourceDefinitions =
  Owned :: "CRDReference list"
  Required :: "CRDReference list"

record Container =
  ctr_Name :: string
  ctr_Image :: string
  ctr_Command :: "string list"
  ctr_Args :: "string list"

record PodSpec =
  Containers :: "Container list"

record PodTemplateSpec =
  pts_Spec :: PodSpec

record DeploymentSpec =
  Template :: PodTemplateSpec

record Deployment =
  dep_Name :: string
  dep_Spec :: DeploymentSpec

record InstallSpec =
  Deployments :: "Deployment list"

record CSVInstall =
  Strategy :: string
  inst_Spec :: InstallSpec

record InstallMode =
  im_Type :: string
  Supported :: bool

record WebhookRule =
  APIGroups :: "string list"
  APIVersions :: "string list"
  Operations :: "string list"
  Resources :: "string list"

record WebhookDefinition =
  wd_Type :: string
  AdmissionReviewVersions :: "string list"
  DeploymentName :: string
  FailurePolicy :: string
  GenerateName :: string
  Rules :: "WebhookRule list"
  SideEffects :: string
  WebhookPath :: string
  ConversionCRDs :: "string list"

record CSVSpec =
  MinKubeVersion :: string
  InstallModes :: "InstallMode list"
  WebhookDefinitions :: "WebhookDefinition list"
  CustomResourceDefinitions :: CSVCustomResourceDefinitions
  Install :: CSVInstall

record ClusterServiceVersion =
  csv_FilePath :: string
  csv_APIVersion :: string
  csv_Kind :: string
  csv_Metadata :: Metadata
  csv_Spec :: CSVSpec

record CRDNames =
  names_Kind :: string
  Plural :: string
  Singular :: string

record CRDVersion =
  ver_Name :: string
  Served :: bool
  Storage :: bool

record ServiceReference =
  svc_Name :: string
  svc_Namespace :: string
  svc_Path :: string

record WebhookClientConfig =
  Service :: "ServiceReference option"

record CRDConversionWebhook =
  ClientConfig :: "WebhookClientConfig option"

record CRDConversion =
  conv_Strategy :: string
  Webhook :: "CRDConversionWebhook option"

record CRDSpec =
  Group :: string
  Names :: CRDNames
  Versions :: "CRDVersion list"
  PreserveUnknownFields :: "bool option"
  Conversion :: "CRDConversion option"

record CustomResourceDefinition =
  crd_FilePath :: string
  crd_APIVersion :: string
  crd_Kind :: string
  crd_Metadata :: Metadata
  crd_Spec :: CRDSpec

record Resource =
  res_FilePath :: string
  res_APIVersion :: string
  res_Kind :: string
  res_Metadata :: Metadata
  res_Spec :: "string \<rightharpoonup> yvalue"

record BundleAnnotations =
  ann_FilePath :: string
  MediaType :: string
  Manifests :: string
  ann_Metadata :: string
  Package :: string
  Channels :: "string list"
  DefaultChannel :: string

text \<open>
  The bundle. A Go pointer that may be nil is an \<open>option\<close>; the slices hold pointers to
  records the loader has just allocated, so their elements are the records themselves.
\<close>

record Bundle =
  Path :: string
  ManifestsPath :: string
  MetadataPath :: string
  CSV :: "ClusterServiceVersion option"
  CRDs :: "CustomResourceDefinition list"
  OtherResources :: "Resource list"
  Annotations :: "BundleAnnotations option"

text \<open>
  Reading a field through a nil pointer panics in Go. \<open>deref\<close> is that read, with the
  panic as a value, so that a rule which reads an absent resource fails in the model
  as it would in the program.
\<close>

datatype panic = NilPointerDereference | IndexOutOfRange

fun deref :: "'a option \<Rightarrow> panic + 'a" where
  "deref None = Inl NilPointerDereference"
| "deref (Some x) = Inr x"

section \<open>The bundle rules\<close>

text \<open>
  Each rule is an empty struct that implements the interface \<open>Rule\<close>. \<open>Validate\<close> returns
  the violations, or the panic of a nil dereference. The loops that append to
  \<open>violations\<close> are folds over the slice they range over; the loops that leave at the
  first match are recursive functions.
\<close>

definition sq :: string where
  "sq = [CHR 0x27]"

subsection \<open>ODH-OLM-001: missing minKubeVersion\<close>

definition MinKubeVersionRule_Description :: string where
  "MinKubeVersionRule_Description = ''ClusterServiceVersion should specify spec.minKubeVersion to indicate the minimum Kubernetes version supported by the operator. Without this, the operator may be installed on incompatible clusters.''"

definition MinKubeVersionRule_Validate :: "Bundle \<Rightarrow> panic + Violation list" where
  "MinKubeVersionRule_Validate b =
     (if CSV b = None then Inr []
      else case deref (CSV b) of
        Inl p \<Rightarrow> Inl p
      | Inr csv \<Rightarrow>
          if MinKubeVersion (csv_Spec csv) = []
          then Inr [\<lparr>RuleID = ''ODH-OLM-001'', RuleName = ''missing-minkubeversion'',
                     Category = CategoryOLMBestPractice, Severity = SeverityWarning,
                     Message = ''ClusterServiceVersion is missing spec.minKubeVersion field'',
                     File = csv_FilePath csv, Line = 0,
                     Description = ''It is recommended to specify the minimum Kubernetes version your operator supports. This prevents installation on incompatible clusters.'',
                     Fixable = False\<rparr>]
          else Inr [])"

subsection \<open>ODH-OLM-002: webhook rules that intercept operator resources\<close>

definition WebhookOperatorResourcesRule_Description :: string where
  "WebhookOperatorResourcesRule_Description = ''OLM will place the CSV in failed phase if webhook rules intercept: (1) all groups (apiGroups: ['' @ sq @ ''*'' @ sq @ '']), (2) the operators.coreos.com group, or (3) ValidatingWebhookConfigurations or MutatingWebhookConfigurations resources. This prevents operators from breaking OLM'' @ sq @ ''s ability to manage other operators.''"

fun containsWildcard :: "string list \<Rightarrow> bool" where
  "containsWildcard [] = False"
| "containsWildcard (g # gs) = (if g = ''*'' then True else containsWildcard gs)"

fun containsOperatorGroup :: "string list \<Rightarrow> bool" where
  "containsOperatorGroup [] = False"
| "containsOperatorGroup (g # gs) =
     (if g = ''operators.coreos.com'' then True else containsOperatorGroup gs)"

fun containsWebhookConfigResources :: "string list \<Rightarrow> bool" where
  "containsWebhookConfigResources [] = False"
| "containsWebhookConfigResources (r # rs) =
     (let rLower = ToLower r
      in if rLower = ''validatingwebhookconfigurations'' \<or> rLower = ''mutatingwebhookconfigurations''
         then True
         else containsWebhookConfigResources rs)"

definition olm002Violation :: "string \<Rightarrow> string \<Rightarrow> string \<Rightarrow> Violation" where
  "olm002Violation msg file descr =
     \<lparr>RuleID = ''ODH-OLM-002'', RuleName = ''webhook-intercepts-operator-resources'',
      Category = CategoryOLMRequirement, Severity = SeverityError,
      Message = msg, File = file, Line = 0, Description = descr, Fixable = False\<rparr>"

definition olm002Rule :: "ClusterServiceVersion \<Rightarrow> WebhookDefinition \<Rightarrow> Violation list \<Rightarrow> WebhookRule \<Rightarrow> Violation list" where
  "olm002Rule csv webhook violations rule =
     (let v1 = (if containsWildcard (APIGroups rule)
                then violations @ [olm002Violation
                  (''Webhook '' @ sq @ GenerateName webhook @ sq @ '' intercepts all API groups (apiGroups: ['' @ sq @ ''*'' @ sq @ '']). OLM will fail the CSV.'')
                  (csv_FilePath csv)
                  ''Webhooks cannot intercept all API groups. This would prevent OLM from managing other operators.'']
                else violations);
          v2 = (if containsOperatorGroup (APIGroups rule)
                then v1 @ [olm002Violation
                  (''Webhook '' @ sq @ GenerateName webhook @ sq @ '' intercepts the '' @ sq @ ''operators.coreos.com'' @ sq @ '' API group. OLM will fail the CSV.'')
                  (csv_FilePath csv)
                  (''Webhooks cannot intercept the operators.coreos.com group. This would break OLM'' @ sq @ ''s ability to manage operators.'')]
                else v1)
      in if containsWebhookConfigResources (Resources rule)
         then v2 @ [olm002Violation
           (''Webhook '' @ sq @ GenerateName webhook @ sq @ '' intercepts ValidatingWebhookConfigurations or MutatingWebhookConfigurations resources. OLM will fail the CSV.'')
           (csv_FilePath csv)
           (''Webhooks cannot intercept webhook configuration resources. This would break OLM'' @ sq @ ''s ability to configure webhooks.'')]
         else v2)"

definition olm002Webhook :: "ClusterServiceVersion \<Rightarrow> Violation list \<Rightarrow> WebhookDefinition \<Rightarrow> Violation list" where
  "olm002Webhook csv violations webhook =
     (if wd_Type webhook = ''ConversionWebhook'' then violations
      else foldl (olm002Rule csv webhook) violations (Rules webhook))"

definition WebhookOperatorResourcesRule_Validate :: "Bundle \<Rightarrow> panic + Violation list" where
  "WebhookOperatorResourcesRule_Validate b =
     (if CSV b = None then Inr []
      else case deref (CSV b) of
        Inl p \<Rightarrow> Inl p
      | Inr csv \<Rightarrow> Inr (foldl (olm002Webhook csv) [] (WebhookDefinitions (csv_Spec csv))))"

subsection \<open>ODH-OLM-003: conversion webhook without the AllNamespaces install mode\<close>

definition ConversionWebhookAllNamespacesRule_Description :: string where
  "ConversionWebhookAllNamespacesRule_Description = ''CSVs featuring a conversion webhook may only support the AllNamespaces install mode. OLM requires this because conversion webhooks need to be accessible cluster-wide.''"

fun hasConversionWebhook :: "WebhookDefinition list \<Rightarrow> bool" where
  "hasConversionWebhook [] = False"
| "hasConversionWebhook (webhook # ws) =
     (if wd_Type webhook = ''ConversionWebhook'' then True else hasConversionWebhook ws)"

fun allNamespacesSupported :: "InstallMode list \<Rightarrow> bool" where
  "allNamespacesSupported [] = False"
| "allNamespacesSupported (mode # ms) =
     (if im_Type mode = ''AllNamespaces'' \<and> Supported mode then True
      else allNamespacesSupported ms)"

definition ConversionWebhookAllNamespacesRule_Validate :: "Bundle \<Rightarrow> panic + Violation list" where
  "ConversionWebhookAllNamespacesRule_Validate b =
     (if CSV b = None then Inr []
      else case deref (CSV b) of
        Inl p \<Rightarrow> Inl p
      | Inr csv \<Rightarrow>
          if \<not> hasConversionWebhook (WebhookDefinitions (csv_Spec csv)) then Inr []
          else if \<not> allNamespacesSupported (InstallModes (csv_Spec csv))
          then Inr [\<lparr>RuleID = ''ODH-OLM-003'',
                     RuleName = ''conversion-webhook-requires-allnamespaces'',
                     Category = CategoryOLMRequirement, Severity = SeverityError,
                     Message = ''CSV defines conversion webhook but AllNamespaces install mode is not supported'',
                     File = csv_FilePath csv, Line = 0,
                     Description = ''OLM requires AllNamespaces install mode for operators with conversion webhooks. Set installModes[type=AllNamespaces].supported = true'',
                     Fixable = True\<rparr>]
          else Inr [])"

subsection \<open>ODH-OLM-004: PodDisruptionBudget with maxUnavailable of zero\<close>

definition PDBMaxUnavailableRule_Description :: string where
  "PDBMaxUnavailableRule_Description = ''PodDisruptionBudget maxUnavailable field cannot be set to 0 or 0%. This can make a node impossible to drain and block important lifecycle actions like operator upgrades or even cluster upgrades.''"

text \<open>
  \<open>isZeroValue\<close> is a type switch on the decoded value. A \<open>float64\<close> equals zero when
  all its bits but the sign are zero (plus and minus zero).
\<close>

definition float64IsZero :: "64 word \<Rightarrow> bool" where
  "float64IsZero w = (w AND 0x7FFFFFFFFFFFFFFF = 0)"

fun isZeroValue :: "yvalue \<Rightarrow> bool" where
  "isZeroValue (VInt v) = (v = 0)"
| "isZeroValue (VInt64 v) = (v = 0)"
| "isZeroValue (VFloat64 v) = float64IsZero v"
| "isZeroValue (VString v) = (let trimmed = TrimSpace v in trimmed = ''0'' \<or> trimmed = ''0%'')"
| "isZeroValue _ = False"

definition olm004Violation :: "Resource \<Rightarrow> Violation" where
  "olm004Violation resource =
     \<lparr>RuleID = ''ODH-OLM-004'', RuleName = ''pdb-maxunavailable-zero'',
      Category = CategoryUpgrade, Severity = SeverityError,
      Message = ''PodDisruptionBudget '' @ sq @ md_Name (res_Metadata resource) @ sq @ '' has maxUnavailable set to 0 or 0%'',
      File = res_FilePath resource, Line = 0,
      Description = ''Setting maxUnavailable to 0 or 0% prevents node drains and can block cluster lifecycle operations. Use a value >= 1.'',
      Fixable = False\<rparr>"

definition olm004Resource :: "Violation list \<Rightarrow> Resource \<Rightarrow> Violation list" where
  "olm004Resource violations resource =
     (if res_Kind resource \<noteq> ''PodDisruptionBudget'' then violations
      else case res_Spec resource ''maxUnavailable'' of
        Some maxUnav \<Rightarrow>
          if isZeroValue maxUnav then violations @ [olm004Violation resource] else violations
      | None \<Rightarrow> violations)"

definition PDBMaxUnavailableRule_Validate :: "Bundle \<Rightarrow> panic + Violation list" where
  "PDBMaxUnavailableRule_Validate b = Inr (foldl olm004Resource [] (OtherResources b))"

subsection \<open>ODH-OLM-005: PodDisruptionBudget with minAvailable of 100%\<close>

definition PDBMinAvailableRule_Description :: string where
  "PDBMinAvailableRule_Description = ''PodDisruptionBudget minAvailable field cannot be set to 100%. This can make a node impossible to drain and block important lifecycle actions like operator upgrades or even cluster upgrades.''"

text \<open>The bits of the \<open>float64\<close> 100.0 are \<open>0x4059000000000000\<close>.\<close>

fun isHundredPercent :: "yvalue \<Rightarrow> bool" where
  "isHundredPercent (VString v) =
     (let trimmed = TrimSpace v in trimmed = ''100%'' \<or> trimmed = ''100'')"
| "isHundredPercent (VInt v) = (v = 100)"
| "isHundredPercent (VInt64 v) = (v = 100)"
| "isHundredPercent (VFloat64 v) = (v = 0x4059000000000000)"
| "isHundredPercent _ = False"

definition olm005Violation :: "Resource \<Rightarrow> Violation" where
  "olm005Violation resource =
     \<lparr>RuleID = ''ODH-OLM-005'', RuleName = ''pdb-minavailable-hundred-percent'',
      Category = CategoryUpgrade, Severity = SeverityError,
      Message = ''PodDisruptionBudget '' @ sq @ md_Name (res_Metadata resource) @ sq @ '' has minAvailable set to 100%'',
      File = res_FilePath resource, Line = 0,
      Description = ''Setting minAvailable to 100% prevents node drains and can block cluster lifecycle operations. Use a lower percentage.'',
      Fixable = False\<rparr>"

definition olm005Resource :: "Violation list \<Rightarrow> Resource \<Rightarrow> Violation list" where
  "olm005Resource violations resource =
     (if res_Kind resource \<noteq> ''PodDisruptionBudget'' then violations
      else case res_Spec resource ''minAvailable'' of
        Some minAvail \<Rightarrow>
          if isHundredPercent minAvail then violations @ [olm005Violation resource]
          else violations
      | None \<Rightarrow> violations)"

definition PDBMinAvailableRule_Validate :: "Bundle \<Rightarrow> panic + Violation list" where
  "PDBMinAvailableRule_Validate b = Inr (foldl olm005Resource [] (OtherResources b))"

subsection \<open>ODH-OLM-006: PriorityClass with globalDefault set\<close>

definition PriorityClassGlobalDefaultRule_Description :: string where
  "PriorityClassGlobalDefaultRule_Description = ''PriorityClass globalDefault should always be false in operator bundles. Setting globalDefault means all pods in the cluster without an explicit priority class will use this default, which can unintentionally affect other workloads.''"

fun isTrueValue :: "yvalue \<Rightarrow> bool" where
  "isTrueValue (VBool v) = v"
| "isTrueValue (VString v) = (v = ''true'' \<or> v = ''True'' \<or> v = ''TRUE'')"
| "isTrueValue _ = False"

definition olm006Violation :: "Resource \<Rightarrow> Violation" where
  "olm006Violation resource =
     \<lparr>RuleID = ''ODH-OLM-006'', RuleName = ''priorityclass-globaldefault-true'',
      Category = CategorySecurity, Severity = SeverityError,
      Message = ''PriorityClass '' @ sq @ md_Name (res_Metadata resource) @ sq @ '' has globalDefault set to true'',
      File = res_FilePath resource, Line = 0,
      Description = ''PriorityClass globalDefault should be false in operator bundles. Setting it to true affects all pods cluster-wide.'',
      Fixable = True\<rparr>"

definition olm006Resource :: "Violation list \<Rightarrow> Resource \<Rightarrow> Violation list" where
  "olm006Resource violations resource =
     (if res_Kind resource \<noteq> ''PriorityClass'' then violations
      else case res_Spec resource ''globalDefault'' of
        Some globalDefault \<Rightarrow>
          if isTrueValue globalDefault then violations @ [olm006Violation resource]
          else violations
      | None \<Rightarrow> violations)"

definition PriorityClassGlobalDefaultRule_Validate :: "Bundle \<Rightarrow> panic + Violation list" where
  "PriorityClassGlobalDefaultRule_Validate b = Inr (foldl olm006Resource [] (OtherResources b))"

subsection \<open>ODH-OLM-007: channel naming\<close>

definition ChannelNamingRule_Description :: string where
  "ChannelNamingRule_Description = ''Channel names should follow recommended conventions using prefixes like '' @ sq @ ''stable'' @ sq @ '', '' @ sq @ ''fast'' @ sq @ '', or '' @ sq @ ''candidate'' @ sq @ '' to indicate the support level and maturity. This provides a consistent user experience across operators.''"

definition recommendedPrefixes :: "string list" where
  "recommendedPrefixes = [''stable'', ''fast'', ''candidate'', ''preview'', ''alpha'', ''beta'']"

fun hasRecommendedPrefix :: "string \<Rightarrow> string list \<Rightarrow> bool" where
  "hasRecommendedPrefix channel [] = False"
| "hasRecommendedPrefix channel (pre # ps) =
     (if HasPrefix (ToLower channel) pre then True else hasRecommendedPrefix channel ps)"

definition olm007Channel :: "BundleAnnotations \<Rightarrow> Violation list \<Rightarrow> string \<Rightarrow> Violation list" where
  "olm007Channel ann violations channel =
     (if \<not> hasRecommendedPrefix channel recommendedPrefixes
      then violations @
        [\<lparr>RuleID = ''ODH-OLM-007'', RuleName = ''channel-naming-convention'',
          Category = CategoryOLMBestPractice, Severity = SeverityWarning,
          Message = ''Channel '' @ sq @ channel @ sq @ '' does not follow recommended naming conventions'',
          File = ann_FilePath ann, Line = 0,
          Description = ''Consider using a channel name starting with: '' @ Join recommendedPrefixes '', '' @ ''. This helps users understand the support level and maturity.'',
          Fixable = False\<rparr>]
      else violations)"

definition ChannelNamingRule_Validate :: "Bundle \<Rightarrow> panic + Violation list" where
  "ChannelNamingRule_Validate b =
     (if Annotations b = None then Inr []
      else case deref (Annotations b) of
        Inl p \<Rightarrow> Inl p
      | Inr ann \<Rightarrow> Inr (foldl (olm007Channel ann) [] (Channels ann)))"

subsection \<open>ODH-OLM-010: conversion webhook CRD with preserveUnknownFields\<close>

definition ConversionPreserveUnknownFieldsRule_Description :: string where
  "ConversionPreserveUnknownFieldsRule_Description = ''CRDs targeted by conversion webhooks must have spec.preserveUnknownFields set to false or nil. This is required for proper conversion webhook functionality.''"

text \<open>
  \<open>conversionCRDs\<close> is a map from names to \<open>true\<close>; it is kept as the list of the names
  stored, so its length is zero when the list is empty and a lookup is membership.
\<close>

definition olm010Collect :: "string list \<Rightarrow> WebhookDefinition \<Rightarrow> string list" where
  "olm010Collect conversionCRDs webhook =
     (if wd_Type webhook = ''ConversionWebhook''
      then foldl (\<lambda>m crdName. m @ [crdName]) conversionCRDs (ConversionCRDs webhook)
      else conversionCRDs)"

definition olm010Violation :: "string \<Rightarrow> CustomResourceDefinition \<Rightarrow> Violation" where
  "olm010Violation crdFullName crd =
     \<lparr>RuleID = ''ODH-OLM-010'', RuleName = ''conversion-webhook-preserve-unknown-fields'',
      Category = CategoryOLMRequirement, Severity = SeverityError,
      Message = ''CRD '' @ sq @ crdFullName @ sq @ '' is targeted by conversion webhook but has preserveUnknownFields=true'',
      File = crd_FilePath crd, Line = 0,
      Description = ''CRDs used with conversion webhooks must have spec.preserveUnknownFields set to false or nil. Set it to false.'',
      Fixable = True\<rparr>"

fun olm010CRDs :: "string list \<Rightarrow> Violation list \<Rightarrow> CustomResourceDefinition list \<Rightarrow> panic + Violation list" where
  "olm010CRDs conversionCRDs violations [] = Inr violations"
| "olm010CRDs conversionCRDs violations (crd # crds) =
     (let crdFullName = Plural (Names (crd_Spec crd)) @ ''.'' @ Group (crd_Spec crd)
      in if crdFullName \<notin> set conversionCRDs then olm010CRDs conversionCRDs violations crds
         else if PreserveUnknownFields (crd_Spec crd) \<noteq> None
         then (case deref (PreserveUnknownFields (crd_Spec crd)) of
                 Inl p \<Rightarrow> Inl p
               | Inr preserve \<Rightarrow>
                   if preserve
                   then olm010CRDs conversionCRDs
                     (violations @ [olm010Violation crdFullName crd]) crds
                   else olm010CRDs conversionCRDs violations crds)
         else olm010CRDs conversionCRDs violations crds)"

definition ConversionPreserveUnknownFieldsRule_Validate :: "Bundle \<Rightarrow> panic + Violation list" where
  "ConversionPreserveUnknownFieldsRule_Validate b =
     (if CSV b = None then Inr []
      else case deref (CSV b) of
        Inl p \<Rightarrow> Inl p
      | Inr csv \<Rightarrow>
          (let conversionCRDs = foldl olm010Collect [] (WebhookDefinitions (csv_Spec csv))
           in if length conversionCRDs = 0 then Inr []
              else olm010CRDs conversionCRDs [] (CRDs b)))"

subsection \<open>The registry\<close>

datatype Rule =
  MinKubeVersionRule
| WebhookOperatorResourcesRule
| ConversionWebhookAllNamespacesRule
| PDBMaxUnavailableRule
| PDBMinAvailableRule
| PriorityClassGlobalDefaultRule
| ChannelNamingRule
| ConversionPreserveUnknownFieldsRule

fun Rule_ID :: "Rule \<Rightarrow> string" where
  "Rule_ID MinKubeVersionRule = ''ODH-OLM-001''"
| "Rule_ID WebhookOperatorResourcesRule = ''ODH-OLM-002''"
| "Rule_ID ConversionWebhookAllNamespacesRule = ''ODH-OLM-003''"
| "Rule_ID PDBMaxUnavailableRule = ''ODH-OLM-004''"
| "Rule_ID PDBMinAvailableRule = ''ODH-OLM-005''"
| "Rule_ID PriorityClassGlobalDefaultRule = ''ODH-OLM-006''"
| "Rule_ID ChannelNamingRule = ''ODH-OLM-007''"
| "Rule_ID ConversionPreserveUnknownFieldsRule = ''ODH-OLM-010''"

fun Rule_Name :: "Rule \<Rightarrow> string" where
  "Rule_Name MinKubeVersionRule = ''missing-minkubeversion''"
| "Rule_Name WebhookOperatorResourcesRule = ''webhook-intercepts-operator-resources''"
| "Rule_Name ConversionWebhookAllNamespacesRule = ''conversion-webhook-requires-allnamespaces''"
| "Rule_Name PDBMaxUnavailableRule = ''pdb-maxunavailable-zero''"
| "Rule_Name PDBMinAvailableRule = ''pdb-minavailable-hundred-percent''"
| "Rule_Name PriorityClassGlobalDefaultRule = ''priorityclass-globaldefault-true''"
| "Rule_Name ChannelNamingRule = ''channel-naming-convention''"
| "Rule_Name ConversionPreserveUnknownFieldsRule = ''conversion-webhook-preserve-unknown-fields''"

fun Rule_Category :: "Rule \<Rightarrow> Category" where
  "Rule_Category MinKubeVersionRule = CategoryOLMBestPractice"
| "Rule_Category WebhookOperatorResourcesRule = CategoryOLMRequirement"
| "Rule_Category ConversionWebhookAllNamespacesRule = CategoryOLMRequirement"
| "Rule_Category PDBMaxUnavailableRule = CategoryUpgrade"
| "Rule_Category PDBMinAvailableRule = CategoryUpgrade"
| "Rule_Category PriorityClassGlobalDefaultRule = CategorySecurity"
| "Rule_Category ChannelNamingRule = CategoryOLMBestPractice"
| "Rule_Category ConversionPreserveUnknownFieldsRule = CategoryOLMRequirement"

fun Rule_Severity :: "Rule \<Rightarrow> Severity" where
  "Rule_Severity MinKubeVersionRule = SeverityWarning"
| "Rule_Severity WebhookOperatorResourcesRule = SeverityError"
| "Rule_Severity ConversionWebhookAllNamespacesRule = SeverityError"
| "Rule_Severity PDBMaxUnavailableRule = SeverityError"
| "Rule_Severity PDBMinAvailableRule = SeverityError"
| "Rule_Severity PriorityClassGlobalDefaultRule = SeverityError"
| "Rule_Severity ChannelNamingRule = SeverityWarning"
| "Rule_Severity ConversionPreserveUnknownFieldsRule = SeverityError"

fun Rule_Description :: "Rule \<Rightarrow> string" where
  "Rule_Description MinKubeVersionRule = MinKubeVersionRule_Description"
| "Rule_Description WebhookOperatorResourcesRule = WebhookOperatorResourcesRule_Description"
| "Rule_Description ConversionWebhookAllNamespacesRule = ConversionWebhookAllNamespacesRule_Description"
| "Rule_Description PDBMaxUnavailableRule = PDBMaxUnavailableRule_Description"
| "Rule_Description PDBMinAvailableRule = PDBMinAvailableRule_Description"
| "Rule_Description PriorityClassGlobalDefaultRule = PriorityClassGlobalDefaultRule_Description"
| "Rule_Description ChannelNamingRule = ChannelNamingRule_Description"
| "Rule_Description ConversionPreserveUnknownFieldsRule = ConversionPreserveUnknownFieldsRule_Description"

fun Rule_Fixable :: "Rule \<Rightarrow> bool" where
  "Rule_Fixable MinKubeVersionRule = False"
| "Rule_Fixable WebhookOperatorResourcesRule = False"
| "Rule_Fixable ConversionWebhookAllNamespacesRule = True"
| "Rule_Fixable PDBMaxUnavailableRule = False"
| "Rule_Fixable PDBMinAvailableRule = False"
| "Rule_Fixable PriorityClassGlobalDefaultRule = True"
| "Rule_Fixable ChannelNamingRule = False"
| "Rule_Fixable ConversionPreserveUnknownFieldsRule = True"

fun Rule_Validate :: "Rule \<Rightarrow> Bundle \<Rightarrow> panic + Violation list" where
  "Rule_Validate MinKubeVersionRule = MinKubeVersionRule_Validate"
| "Rule_Validate WebhookOperatorResourcesRule = WebhookOperatorResourcesRule_Validate"
| "Rule_Validate ConversionWebhookAllNamespacesRule = ConversionWebhookAllNamespacesRule_Validate"
| "Rule_Validate PDBMaxUnavailableRule = PDBMaxUnavailableRule_Validate"
| "Rule_Validate PDBMinAvailableRule = PDBMinAvailableRule_Validate"
| "Rule_Validate PriorityClassGlobalDefaultRule = PriorityClassGlobalDefaultRule_Validate"
| "Rule_Validate ChannelNamingRule = ChannelNamingRule_Validate"
| "Rule_Validate ConversionPreserveUnknownFieldsRule = ConversionPreserveUnknownFieldsRule_Validate"

definition GetAllRules :: "Rule list" where
  "GetAllRules =
     [MinKubeVersionRule, WebhookOperatorResourcesRule, ConversionWebhookAllNamespacesRule,
      PDBMaxUnavailableRule, PDBMinAvailableRule, PriorityClassGlobalDefaultRule,
      ChannelNamingRule, ConversionPreserveUnknownFieldsRule]"

definition GetRuleByID :: "string \<Rightarrow> Rule option" where
  "GetRuleByID ident = find (\<lambda>rule. Rule_ID rule = ident) GetAllRules"

text \<open>
  \<open>ValidateBundle\<close> runs the rules in order and appends what each returns; a panic in a
  rule ends the run.
\<close>

fun ValidateBundleFrom :: "Violation list \<Rightarrow> Bundle \<Rightarrow> Rule list \<Rightarrow> panic + Violation list" where
  "ValidateBundleFrom allViolations b [] = Inr allViolations"
| "ValidateBundleFrom allViolations b (rule # rs) =
     (case Rule_Validate rule b of
        Inl p \<Rightarrow> Inl p
      | Inr violations \<Rightarrow> ValidateBundleFrom (allViolations @ violations) b rs)"

definition ValidateBundle :: "Bundle \<Rightarrow> Rule list \<Rightarrow> panic + Violation list" where
  "ValidateBundle b rs = ValidateBundleFrom [] b rs"

section \<open>Package reporter\<close>

subsection \<open>The sort of the violations\<close>

fun severityWeight :: "Severity \<Rightarrow> int" where
  "severityWeight severity =
     (if severity = SeverityError then 3
      else if severity = SeverityWarning then 2
      else if severity = SeverityInfo then 1
      else 0)"

text \<open>
  The comparator that \<open>Report\<close> hands to \<open>sort.Slice\<close>. Go compares strings byte by
  byte, a proper prefix first: the lexicographic order of \<open>string\<close>.
\<close>

definition violationLess :: "Violation \<Rightarrow> Violation \<Rightarrow> bool" where
  "violationLess vi vj =
     (if Severity vi \<noteq> Severity vj
      then severityWeight (Severity vi) > severityWeight (Severity vj)
      else if File vi \<noteq> File vj then File vi < File vj
      else RuleID vi < RuleID vj)"

text \<open>
  \<open>sort.Slice\<close> belongs to Go's library. It sorts in place with calls of the comparator
  and swaps of two elements. A slice of at most twelve elements is sorted by the insertion
  sort below (\<open>insertionSortLessFunc\<close> of package \<open>sort\<close>, with \<open>a = 0\<close> and \<open>b\<close> the length);
  a longer one by a pattern-defeating quicksort, which is not stable and is a parameter
  \<open>pdq\<close> of the model.
\<close>

definition Swap :: "'a list \<Rightarrow> nat \<Rightarrow> nat \<Rightarrow> 'a list" where
  "Swap data i j = data[i := data ! j, j := data ! i]"

fun insertionInner :: "('a \<Rightarrow> 'a \<Rightarrow> bool) \<Rightarrow> 'a list \<Rightarrow> nat \<Rightarrow> 'a list" where
  "insertionInner lt data 0 = data"
| "insertionInner lt data (Suc j) =
     (if lt (data ! Suc j) (data ! j) then insertionInner lt (Swap data (Suc j) j) j
      else data)"

definition insertionSort :: "('a \<Rightarrow> 'a \<Rightarrow> bool) \<Rightarrow> 'a list \<Rightarrow> 'a list" where
  "insertionSort lt data = foldl (insertionInner lt) data [1..<length data]"

definition sort_Slice ::
  "(('a \<Rightarrow> 'a \<Rightarrow> bool) \<Rightarrow> 'a list \<Rightarrow> 'a list) \<Rightarrow> ('a \<Rightarrow> 'a \<Rightarrow> bool) \<Rightarrow> 'a list \<Rightarrow> 'a list" where
  "sort_Slice pdq lt data =
     (if length data \<le> 12 then insertionSort lt data else pdq lt data)"

subsection \<open>The writer and the text\<close>

text \<open>
  The reporter writes to an \<open>io.Writer\<close> (standard output in \<open>main\<close>). The writer keeps
  what was written; a broken writer takes nothing and returns an error on every write.
\<close>

datatype error = Err string

record Writer =
  written :: string
  broken :: bool

definition Fprint :: "Writer \<Rightarrow> string \<Rightarrow> Writer \<times> error option" where
  "Fprint w s =
     (if broken w then (w, Some (Err ''write failed''))
      else (w\<lparr>written := written w @ s\<rparr>, None))"

definition nl :: string where
  "nl = [CHR 0x0A]"

definition Fprintln :: "Writer \<Rightarrow> string \<Rightarrow> Writer \<times> error option" where
  "Fprintln w s = Fprint w (s @ nl)"

text \<open>The verb \<open>%d\<close> on a number that is not negative.\<close>

fun showNat :: "nat \<Rightarrow> string" where
  "showNat n =
     (if n < 10 then [char_of (48 + n)]
      else showNat (n div 10) @ [char_of (48 + n mod 10)])"

definition showInt :: "int \<Rightarrow> string" where
  "showInt i = (if i < 0 then ''-'' @ showNat (nat (- i)) else showNat (nat i))"

definition getSeverityIcon :: "Severity \<Rightarrow> string" where
  "getSeverityIcon severity =
     (if severity = SeverityError then [CHR 0xE2, CHR 0x9D, CHR 0x8C]
      else if severity = SeverityWarning
      then [CHR 0xE2, CHR 0x9A, CHR 0xA0, CHR 0xEF, CHR 0xB8, CHR 0x8F, CHR 0x20]
      else if severity = SeverityInfo
      then [CHR 0xE2, CHR 0x84, CHR 0xB9, CHR 0xEF, CHR 0xB8, CHR 0x8F, CHR 0x20]
      else ''  '')"

definition formatViolation :: "Violation \<Rightarrow> string" where
  "formatViolation v =
     (let sb = getSeverityIcon (Severity v) @ '' ['' @ RuleID v @ ''] '' @ Message v @ nl;
          sb = (if File v \<noteq> []
                then (if Line v > 0
                      then sb @ ''   File: '' @ File v @ '':'' @ showInt (Line v) @ nl
                      else sb @ ''   File: '' @ File v @ nl)
                else sb);
          sb = sb @ ''   Category: '' @ Category v @ nl;
          sb = (if Description v \<noteq> [] then sb @ ''   '' @ Description v @ nl else sb)
      in if Fixable v
         then sb @ ''   '' @ [CHR 0xE2, CHR 0x84, CHR 0xB9, CHR 0xEF, CHR 0xB8, CHR 0x8F] @
              ''  This issue is potentially auto-fixable'' @ nl
         else sb)"

subsection \<open>Report and ReportSummary\<close>

text \<open>
  The counting loops of \<open>Report\<close> and \<open>ReportSummary\<close>: a switch on the severity that
  adds one to the counter of the constant it equals.
\<close>

definition countSeverity :: "Severity \<Rightarrow> Violation list \<Rightarrow> nat" where
  "countSeverity s violations = foldl (\<lambda>n v. if Severity v = s then n + 1 else n) 0 violations"

definition printViolation :: "Writer \<Rightarrow> Violation \<Rightarrow> Writer" where
  "printViolation w v = fst (Fprintln (fst (Fprintln w (formatViolation v))) [])"

text \<open>
  \<open>Report\<close> sorts the slice it is given in place: the caller's slice holds the sorted
  violations afterwards. The result is that slice, the writer and the error returned.
\<close>

definition Report ::
  "((Violation \<Rightarrow> Violation \<Rightarrow> bool) \<Rightarrow> Violation list \<Rightarrow> Violation list) \<Rightarrow> Writer \<Rightarrow> Violation list
     \<Rightarrow> Violation list \<times> Writer \<times> error option" where
  "Report pdq w violations =
     (if length violations = 0
      then (let (w1, err) = Fprintln w ([CHR 0xE2, CHR 0x9C, CHR 0x93] @ '' No issues found'')
            in (violations, w1, err))
      else
        (let sortedVs = sort_Slice pdq violationLess violations;
             errorCount = countSeverity SeverityError sortedVs;
             warningCount = countSeverity SeverityWarning sortedVs;
             infoCount = countSeverity SeverityInfo sortedVs;
             w1 = fst (Fprint w (nl @ ''Found '' @ showNat (length sortedVs) @ '' issue(s):'' @ nl));
             w2 = (if errorCount > 0
                   then fst (Fprint w1 (''  - '' @ showNat errorCount @ '' error(s)'' @ nl))
                   else w1);
             w3 = (if warningCount > 0
                   then fst (Fprint w2 (''  - '' @ showNat warningCount @ '' warning(s)'' @ nl))
                   else w2);
             w4 = (if infoCount > 0
                   then fst (Fprint w3 (''  - '' @ showNat infoCount @ '' info'' @ nl))
                   else w3);
             w5 = fst (Fprintln w4 []);
             w6 = foldl printViolation w5 sortedVs
         in (sortedVs, w6, None)))"

definition ReportSummary :: "Writer \<Rightarrow> Violation list \<Rightarrow> Writer \<times> error option" where
  "ReportSummary w violations =
     (let errorCount = countSeverity SeverityError violations;
          warningCount = countSeverity SeverityWarning violations
      in if errorCount > 0
         then (fst (Fprint w (nl @ [CHR 0xE2, CHR 0x9D, CHR 0x8C] @ '' Validation failed: '' @
                 showNat errorCount @ '' error(s), '' @ showNat warningCount @ '' warning(s)'' @ nl)),
               Some (Err (''validation failed with '' @ showNat errorCount @ '' error(s)'')))
         else if warningCount > 0
         then (fst (Fprint w (nl @ [CHR 0xE2, CHR 0x9A, CHR 0xA0, CHR 0xEF, CHR 0xB8, CHR 0x8F] @
                 ''  Validation passed with '' @ showNat warningCount @ '' warning(s)'' @ nl)), None)
         else (fst (Fprintln w (nl @ [CHR 0xE2, CHR 0x9C, CHR 0x93] @ '' All checks passed!'')), None))"

section \<open>Package loader\<close>

text \<open>
  The loader reads the file system and decodes YAML through Go's library and
  \<open>yaml.v3\<close>. Their answers are the environment \<open>Env\<close> of the model: what \<open>filepath.Abs\<close>,
  \<open>os.Stat\<close>, \<open>os.ReadFile\<close> and \<open>os.ReadDir\<close> return for a path, and what
  \<open>yaml.Unmarshal\<close> returns for the bytes of a file and each of the five structs the
  loader decodes into. The struct \<open>raw\<close> of \<open>parseCSV\<close>, \<open>parseCRD\<close> and \<open>parseResource\<close>
  has the fields of the record it is copied to, but the file path; the decoder's result
  is that record, and the parser sets the path.
\<close>

datatype StatResult = StatOk | StatNotExist | StatError string

record DirEntry =
  de_Name :: string
  de_IsDir :: bool

record Env =
  Abs :: "string \<Rightarrow> error + string"
  Stat :: "string \<Rightarrow> StatResult"
  ReadFile :: "string \<Rightarrow> error + string"
  ReadDir :: "string \<Rightarrow> error + DirEntry list"
  UnmarshalAnnotations :: "string \<Rightarrow> error + (string \<rightharpoonup> string)"
  UnmarshalBasic :: "string \<Rightarrow> error + string \<times> string"
  UnmarshalCSV :: "string \<Rightarrow> error + ClusterServiceVersion"
  UnmarshalCRD :: "string \<Rightarrow> error + CustomResourceDefinition"
  UnmarshalResource :: "string \<Rightarrow> error + Resource"

text \<open>\<open>os.IsNotExist\<close> on the error of \<open>os.Stat\<close>.\<close>

fun IsNotExist :: "StatResult \<Rightarrow> bool" where
  "IsNotExist StatNotExist = True"
| "IsNotExist _ = False"

text \<open>
  \<open>filepath.Join\<close> of a cleaned path and a file name (slash-separated paths).
\<close>

definition filepath_Join :: "string \<Rightarrow> string \<Rightarrow> string" where
  "filepath_Join dir name = (if dir = ''/'' then dir @ name else dir @ ''/'' @ name)"

text \<open>\<open>fmt.Errorf\<close> with the verb \<open>%w\<close>: the message of the error, after a prefix.\<close>

fun wrap :: "string \<Rightarrow> error \<Rightarrow> error" where
  "wrap pre (Err msg) = Err (pre @ msg)"

text \<open>Reading a key of a Go map of strings: the empty string when the key is absent.\<close>

definition getString :: "(string \<rightharpoonup> string) \<Rightarrow> string \<Rightarrow> string" where
  "getString m k = (case m k of Some v \<Rightarrow> v | None \<Rightarrow> [])"

text \<open>
  The functions below take the bundle and return it as they leave it, with the error:
  the source passes a pointer and updates the bundle in place.
\<close>

definition loadAnnotations :: "Env \<Rightarrow> Bundle \<Rightarrow> Bundle \<times> error option" where
  "loadAnnotations env b =
     (let annotationsPath = filepath_Join (MetadataPath b) ''annotations.yaml''
      in if IsNotExist (Stat env annotationsPath) then (b, None)
         else case ReadFile env annotationsPath of
           Inl err \<Rightarrow> (b, Some (wrap ''failed to read annotations file: '' err))
         | Inr data \<Rightarrow>
             (case UnmarshalAnnotations env data of
                Inl err \<Rightarrow> (b, Some (wrap ''failed to parse annotations YAML: '' err))
              | Inr raw \<Rightarrow>
                  (let ann = \<lparr>ann_FilePath = annotationsPath,
                         MediaType = getString raw ''operators.operatorframework.io.bundle.mediatype.v1'',
                         Manifests = getString raw ''operators.operatorframework.io.bundle.manifests.v1'',
                         ann_Metadata = getString raw ''operators.operatorframework.io.bundle.metadata.v1'',
                         Package = getString raw ''operators.operatorframework.io.bundle.package.v1'',
                         Channels = [],
                         DefaultChannel = getString raw ''operators.operatorframework.io.bundle.channel.default.v1''\<rparr>;
                       channelsStr = getString raw ''operators.operatorframework.io.bundle.channels.v1'';
                       ann = (if channelsStr \<noteq> []
                              then ann\<lparr>Channels := map TrimSpace (Split channelsStr CHR '','')\<rparr>
                              else ann)
                   in (b\<lparr>Annotations := Some ann\<rparr>, None))))"

definition parseCSV :: "Env \<Rightarrow> string \<Rightarrow> string \<Rightarrow> ClusterServiceVersion option \<times> error option" where
  "parseCSV env filePath data =
     (case UnmarshalCSV env data of
        Inl err \<Rightarrow> (None, Some err)
      | Inr raw \<Rightarrow> (Some (raw\<lparr>csv_FilePath := filePath\<rparr>), None))"

definition parseCRD :: "Env \<Rightarrow> string \<Rightarrow> string \<Rightarrow> CustomResourceDefinition option \<times> error option" where
  "parseCRD env filePath data =
     (case UnmarshalCRD env data of
        Inl err \<Rightarrow> (None, Some err)
      | Inr raw \<Rightarrow> (Some (raw\<lparr>crd_FilePath := filePath\<rparr>), None))"

definition parseResource :: "Env \<Rightarrow> string \<Rightarrow> string \<Rightarrow> Resource option \<times> error option" where
  "parseResource env filePath data =
     (case UnmarshalResource env data of
        Inl err \<Rightarrow> (None, Some err)
      | Inr raw \<Rightarrow> (Some (raw\<lparr>res_FilePath := filePath\<rparr>), None))"

definition loadManifestFile :: "Env \<Rightarrow> Bundle \<Rightarrow> string \<Rightarrow> Bundle \<times> error option" where
  "loadManifestFile env b filePath =
     (case ReadFile env filePath of
        Inl err \<Rightarrow> (b, Some (wrap ''failed to read file: '' err))
      | Inr data \<Rightarrow>
          (case UnmarshalBasic env data of
             Inl err \<Rightarrow> (b, Some (wrap ''failed to parse YAML: '' err))
           | Inr (apiVersion, kind) \<Rightarrow>
               if kind = ''ClusterServiceVersion''
               then (case parseCSV env filePath data of
                       (_, Some err) \<Rightarrow> (b, Some (wrap ''failed to parse CSV: '' err))
                     | (csv, None) \<Rightarrow> (b\<lparr>CSV := csv\<rparr>, None))
               else if kind = ''CustomResourceDefinition''
               then (case parseCRD env filePath data of
                       (_, Some err) \<Rightarrow> (b, Some (wrap ''failed to parse CRD: '' err))
                     | (Some crd, None) \<Rightarrow> (b\<lparr>CRDs := CRDs b @ [crd]\<rparr>, None)
                     | (None, None) \<Rightarrow> (b, None))
               else (case parseResource env filePath data of
                       (_, Some err) \<Rightarrow> (b, Some (wrap ''failed to parse resource: '' err))
                     | (Some resource, None) \<Rightarrow>
                         (b\<lparr>OtherResources := OtherResources b @ [resource]\<rparr>, None)
                     | (None, None) \<Rightarrow> (b, None))))"

fun loadManifestFiles :: "Env \<Rightarrow> Bundle \<Rightarrow> DirEntry list \<Rightarrow> Bundle \<times> error option" where
  "loadManifestFiles env b [] = (b, None)"
| "loadManifestFiles env b (file # files) =
     (if de_IsDir file then loadManifestFiles env b files
      else if \<not> HasSuffix (de_Name file) ''.yaml'' \<and> \<not> HasSuffix (de_Name file) ''.yml''
      then loadManifestFiles env b files
      else
        (let filePath = filepath_Join (ManifestsPath b) (de_Name file)
         in case loadManifestFile env b filePath of
           (b1, Some err) \<Rightarrow>
             (b1, Some (wrap (''failed to load manifest '' @ de_Name file @ '': '') err))
         | (b1, None) \<Rightarrow> loadManifestFiles env b1 files))"

definition loadManifests :: "Env \<Rightarrow> Bundle \<Rightarrow> Bundle \<times> error option" where
  "loadManifests env b =
     (if IsNotExist (Stat env (ManifestsPath b))
      then (b, Some (Err (''manifests directory not found: '' @ ManifestsPath b)))
      else case ReadDir env (ManifestsPath b) of
        Inl err \<Rightarrow> (b, Some (wrap ''failed to read manifests directory: '' err))
      | Inr files \<Rightarrow> loadManifestFiles env b files)"

text \<open>
  \<open>LoadBundle\<close> returns a pointer to the bundle and an error, as the source does: the
  pair of an optional bundle and an optional error.
\<close>

definition LoadBundle :: "Env \<Rightarrow> string \<Rightarrow> Bundle option \<times> error option" where
  "LoadBundle env bundlePath =
     (case Abs env bundlePath of
        Inl err \<Rightarrow> (None, Some (wrap ''failed to resolve bundle path: '' err))
      | Inr absPath \<Rightarrow>
          if IsNotExist (Stat env absPath)
          then (None, Some (Err (''bundle path does not exist: '' @ absPath)))
          else
            (let b = \<lparr>Path = absPath,
                      ManifestsPath = filepath_Join absPath ''manifests'',
                      MetadataPath = filepath_Join absPath ''metadata'',
                      CSV = None, CRDs = [], OtherResources = [], Annotations = None\<rparr>
             in case loadAnnotations env b of
               (_, Some err) \<Rightarrow> (None, Some (wrap ''failed to load annotations: '' err))
             | (b1, None) \<Rightarrow>
                 (case loadManifests env b1 of
                    (_, Some err) \<Rightarrow> (None, Some (wrap ''failed to load manifests: '' err))
                  | (b2, None) \<Rightarrow> (Some b2, None))))"

section \<open>The command odhlint-bundle\<close>

text \<open>
  \<open>parseRuleList\<close> builds a Go map from rule identifiers to \<open>true\<close>; \<open>selectRules\<close>
  only asks whether a key is present.
\<close>

definition parseRuleList :: "string \<Rightarrow> (string \<rightharpoonup> bool)" where
  "parseRuleList list =
     (if list = [] then Map.empty
      else foldl (\<lambda>result part.
                    let trimmed = TrimSpace part
                    in if trimmed \<noteq> [] then result(trimmed \<mapsto> True) else result)
             Map.empty (Split list CHR '',''))"

definition selectRules :: "string \<Rightarrow> string \<Rightarrow> Rule list" where
  "selectRules enable disable =
     (let allRules = GetAllRules
      in if enable \<noteq> []
         then (let enabledIDs = parseRuleList enable
               in foldl (\<lambda>selected rule.
                           if enabledIDs (Rule_ID rule) \<noteq> None then selected @ [rule]
                           else selected)
                    [] allRules)
         else (let selected = allRules
               in if disable \<noteq> []
                  then (let disabledIDs = parseRuleList disable
                        in foldl (\<lambda>filtered rule.
                                    if disabledIDs (Rule_ID rule) = None then filtered @ [rule]
                                    else filtered)
                             [] selected)
                  else selected))"

fun hasErrors :: "Violation list \<Rightarrow> bool" where
  "hasErrors [] = False"
| "hasErrors (v # vs) = (if Severity v = SeverityError then True else hasErrors vs)"

fun hasWarnings :: "Violation list \<Rightarrow> bool" where
  "hasWarnings [] = False"
| "hasWarnings (v # vs) = (if Severity v = SeverityWarning then True else hasWarnings vs)"

text \<open>
  The end of \<open>main\<close>, from the report to \<open>os.Exit\<close>: the exit code and what standard
  output holds. \<open>Report\<close> has sorted the slice that \<open>hasErrors\<close>, \<open>hasWarnings\<close> and
  \<open>ReportSummary\<close> then read.
\<close>

definition reportAndExit ::
  "((Violation \<Rightarrow> Violation \<Rightarrow> bool) \<Rightarrow> Violation list \<Rightarrow> Violation list) \<Rightarrow> Writer \<Rightarrow> bool
     \<Rightarrow> Violation list \<Rightarrow> int \<times> Writer" where
  "reportAndExit pdq stdout noWarnings violations0 =
     (case Report pdq stdout violations0 of
        (violations, w1, Some err) \<Rightarrow> (1, w1)
      | (violations, w1, None) \<Rightarrow>
          (let exitCode = (if hasErrors violations then 1
                           else if \<not> noWarnings \<and> hasWarnings violations then 0
                           else 0)
           in case ReportSummary w1 violations of
             (w2, Some err) \<Rightarrow> (if exitCode = 0 then 1 else exitCode, w2)
           | (w2, None) \<Rightarrow> (exitCode, w2)))"

text \<open>
  \<open>main\<close> once the flags are parsed and a bundle path is given: the flags \<open>enable\<close>,
  \<open>disable\<close> and \<open>no-warnings\<close>, and the path. A load error ends the process with
  status 1 before any rule runs. A panic of a rule would end the process too.
\<close>

definition main ::
  "Env \<Rightarrow> ((Violation \<Rightarrow> Violation \<Rightarrow> bool) \<Rightarrow> Violation list \<Rightarrow> Violation list) \<Rightarrow> Writer
     \<Rightarrow> string \<Rightarrow> string \<Rightarrow> bool \<Rightarrow> string \<Rightarrow> panic + int \<times> Writer" where
  "main env pdq stdout enableRules disableRules noWarnings bundlePath =
     (let w0 = fst (Fprint stdout (''Loading bundle from: '' @ bundlePath @ nl))
      in case LoadBundle env bundlePath of
        (_, Some err) \<Rightarrow> Inr (1, w0)
      | (None, None) \<Rightarrow> Inl NilPointerDereference
      | (Some b, None) \<Rightarrow>
          (let rulesToRun = selectRules enableRules disableRules;
               w1 = fst (Fprint w0 (''Running '' @ showNat (length rulesToRun) @
                      '' validation rule(s)...'' @ nl @ nl))
           in case ValidateBundle b rulesToRun of
             Inl p \<Rightarrow> Inl p
           | Inr violations \<Rightarrow> Inr (reportAndExit pdq w1 noWarnings violations)))"

section \<open>The analyzer errordemote\<close>

subsection \<open>Positions, comments and the syntax tree\<close>

text \<open>
  The syntax tree, its positions and its comments come from Go's packages \<open>go/token\<close> and
  \<open>go/ast\<close>. A position stands for the file of the file set it lies in (numbered in the
  order the files were added) and its line there. \<open>File.Line\<close> answers for any position:
  for one outside the file it takes the nearest offset of the file, which is on line 1
  when the position lies in an earlier file and on the file's last line when it lies in
  a later one. \<open>lastLine\<close> of the file set gives the last line of each file.
\<close>

datatype Pos = NoPos | At nat int

record FileSet =
  lastLine :: "nat \<Rightarrow> int"

fun Fset_File :: "FileSet \<Rightarrow> Pos \<Rightarrow> nat option" where
  "Fset_File fset NoPos = None"
| "Fset_File fset (At f l) = Some f"

fun File_Line :: "FileSet \<Rightarrow> nat \<Rightarrow> Pos \<Rightarrow> int" where
  "File_Line fset file NoPos = 0"
| "File_Line fset file (At f l) =
     (if f = file then l else if f < file then 1 else lastLine fset file)"

datatype token = EQL | NEQ | DEFINE | ASSIGN | OtherToken string

text \<open>
  The nodes of the tree, as values of the interface \<open>ast.Node\<close>: the node kinds the
  analyzer looks at, with the fields of each, and \<open>Other\<close> for every other kind of node,
  with its kind and its children in the order \<open>ast.Walk\<close> visits them. The selector of
  a \<open>SelectorExpr\<close> is the name of its identifier \<open>Sel\<close>. An \<open>IfStmt\<close> holds the position
  of its keyword, \<open>Init\<close>, \<open>Cond\<close>, \<open>Body\<close> and \<open>Else\<close>. A \<open>FuncDecl\<close> holds its name and
  its body and a \<open>FuncLit\<close> its body: their receivers and types hold no statement and
  no call.
\<close>

datatype node =
  Ident string
| BasicLit string
| BinaryExpr node token node
| CallExpr node "node list"
| SelectorExpr node string
| ParenExpr node
| FuncLit node
| ExprStmt node
| AssignStmt "node list" token "node list"
| ReturnStmt "node list"
| BlockStmt "node list"
| IfStmt Pos "node option" node node "node option"
| FuncDecl string "node option"
| Other string "node list"

record Comment =
  Slash :: Pos
  Text :: string

type_synonym CommentGroup = "Comment list"

record ast_File =
  Comments :: "CommentGroup list"
  Decls :: "node list"

record Pass =
  Fset :: FileSet
  Files :: "ast_File list"

subsection \<open>Walking the tree\<close>

fun children :: "node \<Rightarrow> node list" where
  "children (Ident name) = []"
| "children (BasicLit v) = []"
| "children (BinaryExpr x op y) = [x, y]"
| "children (CallExpr fn args) = fn # args"
| "children (SelectorExpr x sel) = [x, Ident sel]"
| "children (ParenExpr x) = [x]"
| "children (FuncLit body) = [body]"
| "children (ExprStmt x) = [x]"
| "children (AssignStmt lhs tok rhs) = lhs @ rhs"
| "children (ReturnStmt results) = results"
| "children (BlockStmt list) = list"
| "children (IfStmt p init cond body els) =
     (case init of None \<Rightarrow> [] | Some i \<Rightarrow> [i]) @ [cond, body] @
     (case els of None \<Rightarrow> [] | Some e \<Rightarrow> [e])"
| "children (FuncDecl name body) =
     Ident name # (case body of None \<Rightarrow> [] | Some b \<Rightarrow> [b])"
| "children (Other kind cs) = cs"

lemma size_in_list: "c \<in> set cs \<Longrightarrow> size c \<le> size_list size cs"
  by (induction cs) auto

lemma children_smaller: "c \<in> set (children n) \<Longrightarrow> size c < size n"
  by (cases n) (auto split: option.splits dest: size_in_list)

text \<open>
  \<open>ast.Inspect\<close> calls the function on a node and, when it answers true, goes on to the
  node's children in order. The functions the analyzer passes change a variable of the
  enclosing function; that variable is the state \<open>s\<close>. (\<open>Inspect\<close> also calls the function
  with nil after the children; both functions below answer true to nil and do nothing.)
\<close>

function Inspect :: "node \<Rightarrow> (node \<Rightarrow> 's \<Rightarrow> bool \<times> 's) \<Rightarrow> 's \<Rightarrow> 's" where
  "Inspect n f s =
     (case f n s of
        (True, s1) \<Rightarrow> fold (\<lambda>c. Inspect c f) (children n) s1
      | (False, s1) \<Rightarrow> s1)"
  by pat_completeness auto
termination
  by (relation "measure (\<lambda>(n, f, s). size n)") (auto dest: children_smaller)

text \<open>The nodes of a subtree in depth-first order, the root first.\<close>

function nodes :: "node \<Rightarrow> node list" where
  "nodes n = n # concat (map nodes (children n))"
  by pat_completeness auto
termination
  by (relation "measure size") (auto dest: children_smaller)

declare Inspect.simps [simp del] nodes.simps [simp del]

subsection \<open>The pattern\<close>

fun isNilIdent :: "node \<Rightarrow> bool" where
  "isNilIdent (Ident name) = (name = ''nil'')"
| "isNilIdent _ = False"

text \<open>The test \<open>ident, ok := e.(*ast.Ident); ok && strings.Contains(ident.Name, "err")\<close>.\<close>

fun isErrIdent :: "node \<Rightarrow> bool" where
  "isErrIdent (Ident name) = Contains name ''err''"
| "isErrIdent _ = False"

fun isErrCondition :: "node \<Rightarrow> bool" where
  "isErrCondition (BinaryExpr x op y) =
     (if (op = EQL \<or> op = NEQ) \<and> (isNilIdent y \<or> isNilIdent x)
      then (if isErrIdent x then True else if isErrIdent y then True else False)
      else False)"
| "isErrCondition _ = False"

definition logMethods :: "string list" where
  "logMethods = [''Info'', ''Debug'', ''Warn'', ''Warning'', ''Trace'', ''V'']"

text \<open>
  The function literal of \<open>containsLogCall\<close>: the state is the variable \<open>hasLog\<close>, the
  first component of the result is what the literal returns.
\<close>

fun logVisitor :: "node \<Rightarrow> bool \<Rightarrow> bool \<times> bool" where
  "logVisitor (CallExpr (SelectorExpr x sel) args) hasLog =
     (if sel \<in> set logMethods then (False, True) else (True, hasLog))"
| "logVisitor n hasLog = (True, hasLog)"

definition containsLogCall :: "node \<Rightarrow> bool" where
  "containsLogCall stmt = Inspect stmt logVisitor False"

fun anyErrResult :: "node list \<Rightarrow> bool" where
  "anyErrResult [] = False"
| "anyErrResult (result # rs) = (if isErrIdent result then True else anyErrResult rs)"

fun returnVisitor :: "node \<Rightarrow> bool \<Rightarrow> bool \<times> bool" where
  "returnVisitor (ReturnStmt results) hasReturn =
     (if anyErrResult results then (False, True) else (True, hasReturn))"
| "returnVisitor n hasReturn = (True, hasReturn)"

definition containsErrorReturn :: "node \<Rightarrow> bool" where
  "containsErrorReturn stmt = Inspect stmt returnVisitor False"

text \<open>
  \<open>isErrorDemotionPattern\<close> takes an \<open>*ast.IfStmt\<close>; the analyzer calls it on the
  if-statements only.
\<close>

fun isErrorDemotionPattern :: "node \<Rightarrow> bool" where
  "isErrorDemotionPattern (IfStmt p init cond body els) =
     (case init of
        None \<Rightarrow> False
      | Some (AssignStmt lhs tok rhs) \<Rightarrow>
          if tok \<noteq> DEFINE then False
          else if length lhs < 2 then False
          else (case lhs ! (length lhs - 1) of
                  Ident lastVar \<Rightarrow>
                    if \<not> Contains lastVar ''err'' \<and> lastVar \<noteq> ''_'' then False
                    else if \<not> isErrCondition cond then False
                    else (case els of
                            None \<Rightarrow> False
                          | Some e \<Rightarrow>
                              (let hasLog = containsLogCall e;
                                   returnsError = containsErrorReturn e
                               in hasLog \<and> \<not> returnsError))
                | _ \<Rightarrow> False)
      | Some _ \<Rightarrow> False)"
| "isErrorDemotionPattern _ = False"

subsection \<open>The suppression comments\<close>

fun nolintInGroup :: "FileSet \<Rightarrow> nat \<Rightarrow> int \<Rightarrow> Comment list \<Rightarrow> bool" where
  "nolintInGroup fset file line [] = False"
| "nolintInGroup fset file line (comment # cs) =
     (let commentLine = File_Line fset file (Slash comment)
      in if (commentLine = line \<or> commentLine = line - 1) \<and>
            (Contains (Text comment) ''nolint:errordemote'' \<or>
             (Contains (Text comment) ''nolint'' \<and> \<not> Contains (Text comment) ''nolint:''))
         then True
         else nolintInGroup fset file line cs)"

fun nolintInGroups :: "FileSet \<Rightarrow> nat \<Rightarrow> int \<Rightarrow> CommentGroup list \<Rightarrow> bool" where
  "nolintInGroups fset file line [] = False"
| "nolintInGroups fset file line (commentGroup # gs) =
     (if nolintInGroup fset file line commentGroup then True
      else nolintInGroups fset file line gs)"

definition hasNolintComment :: "Pass \<Rightarrow> Pos \<Rightarrow> panic + bool" where
  "hasNolintComment pass pos =
     (case Fset_File (Fset pass) pos of
        None \<Rightarrow> Inr False
      | Some file \<Rightarrow>
          (let line = File_Line (Fset pass) file pos
           in case Files pass of
             [] \<Rightarrow> Inl IndexOutOfRange
           | file0 # _ \<Rightarrow> Inr (nolintInGroups (Fset pass) file line (Comments file0))))"

definition keywordList :: "string list" where
  "keywordList = [''resilience:'', ''resilient:'', ''non-critical'', ''optional'',
     ''safe to ignore'', ''safe to continue'', ''safe default'', ''may not exist'']"

fun anyKeyword :: "string \<Rightarrow> string list \<Rightarrow> bool" where
  "anyKeyword txt [] = False"
| "anyKeyword txt (keyword # ks) = (if Contains txt keyword then True else anyKeyword txt ks)"

fun resilienceInGroup :: "FileSet \<Rightarrow> nat \<Rightarrow> int \<Rightarrow> Comment list \<Rightarrow> bool" where
  "resilienceInGroup fset file line [] = False"
| "resilienceInGroup fset file line (comment # cs) =
     (let commentLine = File_Line fset file (Slash comment)
      in if commentLine \<ge> line - 3 \<and> commentLine < line \<and>
            anyKeyword (ToLower (Text comment)) keywordList
         then True
         else resilienceInGroup fset file line cs)"

fun resilienceInGroups :: "FileSet \<Rightarrow> nat \<Rightarrow> int \<Rightarrow> CommentGroup list \<Rightarrow> bool" where
  "resilienceInGroups fset file line [] = False"
| "resilienceInGroups fset file line (commentGroup # gs) =
     (if resilienceInGroup fset file line commentGroup then True
      else resilienceInGroups fset file line gs)"

definition hasResilienceDoc :: "Pass \<Rightarrow> Pos \<Rightarrow> panic + bool" where
  "hasResilienceDoc pass pos =
     (case Fset_File (Fset pass) pos of
        None \<Rightarrow> Inr False
      | Some file \<Rightarrow>
          (let line = File_Line (Fset pass) file pos
           in case Files pass of
             [] \<Rightarrow> Inl IndexOutOfRange
           | file0 # _ \<Rightarrow> Inr (resilienceInGroups (Fset pass) file line (Comments file0))))"

subsection \<open>The run of the analyzer\<close>

fun isIfStmt :: "node \<Rightarrow> bool" where
  "isIfStmt (IfStmt p init cond body els) = True"
| "isIfStmt _ = False"

fun node_Pos :: "node \<Rightarrow> Pos" where
  "node_Pos (IfStmt p init cond body els) = p"
| "node_Pos _ = NoPos"

definition message :: string where
  "message = ''error demoted to log statement instead of being returned; add //nolint:errordemote with justification or return the error''"

text \<open>
  The function that \<open>run\<close> passes to \<open>Preorder\<close>, on one if-statement: the diagnostics it
  reports (none or one), or the panic.
\<close>

definition visitIf :: "Pass \<Rightarrow> node \<Rightarrow> panic + (Pos \<times> string) list" where
  "visitIf pass ifStmt =
     (if isErrorDemotionPattern ifStmt
      then (case hasNolintComment pass (node_Pos ifStmt) of
              Inl p \<Rightarrow> Inl p
            | Inr True \<Rightarrow> Inr []
            | Inr False \<Rightarrow>
                (case hasResilienceDoc pass (node_Pos ifStmt) of
                   Inl p \<Rightarrow> Inl p
                 | Inr True \<Rightarrow> Inr []
                 | Inr False \<Rightarrow> Inr [(node_Pos ifStmt, message)]))
      else Inr [])"

text \<open>
  \<open>Preorder\<close> with the filter for \<open>*ast.IfStmt\<close> visits the if-statements of all the
  files of the pass, in the order of the files and depth first in each.
\<close>

definition ifStmts :: "Pass \<Rightarrow> node list" where
  "ifStmts pass = filter isIfStmt (concat (map (\<lambda>f. concat (map nodes (Decls f))) (Files pass)))"

fun visitAll :: "Pass \<Rightarrow> (Pos \<times> string) list \<Rightarrow> node list \<Rightarrow> panic + (Pos \<times> string) list" where
  "visitAll pass reported [] = Inr reported"
| "visitAll pass reported (n # ns) =
     (case visitIf pass n of
        Inl p \<Rightarrow> Inl p
      | Inr ds \<Rightarrow> visitAll pass (reported @ ds) ns)"

definition run :: "Pass \<Rightarrow> panic + (Pos \<times> string) list" where
  "run pass = visitAll pass [] (ifStmts pass)"

section \<open>Vocabulary of the statements\<close>

text \<open>
  The definitions of this section are not code of the repository: they name the notions
  that the properties below are stated with.
\<close>

text \<open>
  The part of the contract of \<open>sort.Slice\<close> that holds for any comparator: the sorted
  slice holds the elements it held before (the sort only swaps elements).
\<close>

definition permutes :: "(('a \<Rightarrow> 'a \<Rightarrow> bool) \<Rightarrow> 'a list \<Rightarrow> 'a list) \<Rightarrow> ('a \<Rightarrow> 'a \<Rightarrow> bool) \<Rightarrow> bool" where
  "permutes pdq lt = (\<forall>xs. mset (pdq lt xs) = mset xs)"

text \<open>
  The order of the report as the specification words it: severity descending, then file
  path ascending, then rule identifier ascending. \<open>sortKey\<close> is the same order as a key
  (pairs are ordered lexicographically). A known severity is one of the three constants.
  \<open>sortsViolations\<close> is the other part of the contract of \<open>sort.Slice\<close>, for the comparator
  of the report: the slice is in order afterwards.
\<close>

definition knownSeverity :: "Severity \<Rightarrow> bool" where
  "knownSeverity s = (s = SeverityError \<or> s = SeverityWarning \<or> s = SeverityInfo)"

definition orderedBefore :: "Violation \<Rightarrow> Violation \<Rightarrow> bool" where
  "orderedBefore a b =
     (severityWeight (Severity a) > severityWeight (Severity b) \<or>
      (severityWeight (Severity a) = severityWeight (Severity b) \<and>
       (File a < File b \<or> (File a = File b \<and> RuleID a \<le> RuleID b))))"

definition sortKey :: "Violation \<Rightarrow> int \<times> string \<times> string" where
  "sortKey v = (- severityWeight (Severity v), File v, RuleID v)"

definition sortsViolations :: "((Violation \<Rightarrow> Violation \<Rightarrow> bool) \<Rightarrow> Violation list \<Rightarrow> Violation list) \<Rightarrow> bool" where
  "sortsViolations pdq =
     (\<forall>xs. (\<forall>v \<in> set xs. knownSeverity (Severity v)) \<longrightarrow>
        sorted_wrt orderedBefore (pdq violationLess xs))"

text \<open>
  The insertion of one element into the sorted part of the slice, on the reversed
  sorted part: what the inner loop of the insertion sort computes.
\<close>

fun insr :: "('a \<Rightarrow> 'a \<Rightarrow> bool) \<Rightarrow> 'a \<Rightarrow> 'a list \<Rightarrow> 'a list" where
  "insr lt x [] = [x]"
| "insr lt x (y # r) = (if lt x y then y # insr lt x r else x # y # r)"

text \<open>
  A manifest is a directory entry that \<open>loadManifests\<close> does not skip. \<open>kindOf\<close> is the
  kind read from a manifest; \<open>manifestError\<close> says that a manifest cannot be read or
  decoded, \<open>annotationsError\<close> that the annotations file exists and cannot be read or
  decoded. \<open>lastCSV\<close> is the path of the last manifest of kind ClusterServiceVersion.
\<close>

definition isManifest :: "DirEntry \<Rightarrow> bool" where
  "isManifest entry =
     (\<not> de_IsDir entry \<and> (HasSuffix (de_Name entry) ''.yaml'' \<or> HasSuffix (de_Name entry) ''.yml''))"

definition manifestPaths :: "string \<Rightarrow> DirEntry list \<Rightarrow> string list" where
  "manifestPaths dir files = map (\<lambda>f. filepath_Join dir (de_Name f)) (filter isManifest files)"

definition kindOf :: "Env \<Rightarrow> string \<Rightarrow> string option" where
  "kindOf env path =
     (case ReadFile env path of
        Inl err \<Rightarrow> None
      | Inr data \<Rightarrow>
          (case UnmarshalBasic env data of
             Inl err \<Rightarrow> None
           | Inr (apiVersion, kind) \<Rightarrow> Some kind))"

definition manifestError :: "Env \<Rightarrow> string \<Rightarrow> bool" where
  "manifestError env path =
     (case ReadFile env path of
        Inl err \<Rightarrow> True
      | Inr data \<Rightarrow>
          (case UnmarshalBasic env data of
             Inl err \<Rightarrow> True
           | Inr (apiVersion, kind) \<Rightarrow>
               if kind = ''ClusterServiceVersion'' then isl (UnmarshalCSV env data)
               else if kind = ''CustomResourceDefinition'' then isl (UnmarshalCRD env data)
               else isl (UnmarshalResource env data)))"

definition annotationsError :: "Env \<Rightarrow> string \<Rightarrow> bool" where
  "annotationsError env metadataPath =
     (let annotationsPath = filepath_Join metadataPath ''annotations.yaml''
      in \<not> IsNotExist (Stat env annotationsPath) \<and>
         (case ReadFile env annotationsPath of
            Inl err \<Rightarrow> True
          | Inr data \<Rightarrow> isl (UnmarshalAnnotations env data)))"

fun lastCSV :: "Env \<Rightarrow> string option \<Rightarrow> string list \<Rightarrow> string option" where
  "lastCSV env cur [] = cur"
| "lastCSV env cur (p # ps) =
     lastCSV env (if kindOf env p = Some ''ClusterServiceVersion'' then Some p else cur) ps"

definition initialBundle :: "string \<Rightarrow> Bundle" where
  "initialBundle absPath =
     \<lparr>Path = absPath, ManifestsPath = filepath_Join absPath ''manifests'',
      MetadataPath = filepath_Join absPath ''metadata'',
      CSV = None, CRDs = [], OtherResources = [], Annotations = None\<rparr>"

text \<open>
  What a loaded bundle holds, from the answers of the environment alone. The
  annotations are absent when the annotations file does not exist; else they are the
  values that the decoded map has at the six keys of the bundle format, an absent key
  being the empty string, with the channels split at the commas and trimmed. A manifest
  is the record that the decoder returns for the bytes of its file, with the path of the
  file as its \<open>FilePath\<close>. Each is \<open>None\<close> when the file cannot be read or decoded.
\<close>

definition decodedAnnotations :: "Env \<Rightarrow> string \<Rightarrow> BundleAnnotations option" where
  "decodedAnnotations env metadataPath =
     (let annotationsPath = filepath_Join metadataPath ''annotations.yaml''
      in if IsNotExist (Stat env annotationsPath) then None
         else case ReadFile env annotationsPath of
           Inl err \<Rightarrow> None
         | Inr data \<Rightarrow>
             (case UnmarshalAnnotations env data of
                Inl err \<Rightarrow> None
              | Inr raw \<Rightarrow>
                  Some \<lparr>ann_FilePath = annotationsPath,
                        MediaType = getString raw ''operators.operatorframework.io.bundle.mediatype.v1'',
                        Manifests = getString raw ''operators.operatorframework.io.bundle.manifests.v1'',
                        ann_Metadata = getString raw ''operators.operatorframework.io.bundle.metadata.v1'',
                        Package = getString raw ''operators.operatorframework.io.bundle.package.v1'',
                        Channels =
                          (if getString raw ''operators.operatorframework.io.bundle.channels.v1'' = [] then []
                           else map TrimSpace
                             (Split (getString raw ''operators.operatorframework.io.bundle.channels.v1'')
                                CHR '','')),
                        DefaultChannel =
                          getString raw ''operators.operatorframework.io.bundle.channel.default.v1''\<rparr>))"

definition decodedCSV :: "Env \<Rightarrow> string \<Rightarrow> ClusterServiceVersion option" where
  "decodedCSV env path =
     (case ReadFile env path of
        Inl err \<Rightarrow> None
      | Inr data \<Rightarrow>
          (case UnmarshalCSV env data of
             Inl err \<Rightarrow> None
           | Inr raw \<Rightarrow> Some (raw\<lparr>csv_FilePath := path\<rparr>)))"

definition decodedCRD :: "Env \<Rightarrow> string \<Rightarrow> CustomResourceDefinition option" where
  "decodedCRD env path =
     (case ReadFile env path of
        Inl err \<Rightarrow> None
      | Inr data \<Rightarrow>
          (case UnmarshalCRD env data of
             Inl err \<Rightarrow> None
           | Inr raw \<Rightarrow> Some (raw\<lparr>crd_FilePath := path\<rparr>)))"

definition decodedResource :: "Env \<Rightarrow> string \<Rightarrow> Resource option" where
  "decodedResource env path =
     (case ReadFile env path of
        Inl err \<Rightarrow> None
      | Inr data \<Rightarrow>
          (case UnmarshalResource env data of
             Inl err \<Rightarrow> None
           | Inr raw \<Rightarrow> Some (raw\<lparr>res_FilePath := path\<rparr>)))"



text \<open>
  The comments that the suppression scan reads and the line it computes for each, for
  a candidate in the file \<open>fl\<close> of the file set; a suppression directive and a
  justification, as texts of comments.
\<close>

definition scannedComments :: "Pass \<Rightarrow> Comment list" where
  "scannedComments pass = (case Files pass of [] \<Rightarrow> [] | file0 # rest \<Rightarrow> concat (Comments file0))"

definition commentLine :: "Pass \<Rightarrow> nat \<Rightarrow> Comment \<Rightarrow> int" where
  "commentLine pass fl c = File_Line (Fset pass) fl (Slash c)"

definition isDirective :: "string \<Rightarrow> bool" where
  "isDirective t = (Contains t ''nolint:errordemote'' \<or> (Contains t ''nolint'' \<and> \<not> Contains t ''nolint:''))"

definition isJustification :: "string \<Rightarrow> bool" where
  "isJustification t = (\<exists>k \<in> set keywordList. Contains (ToLower t) k)"

section \<open>Example inputs\<close>

definition pdbResource :: "string \<Rightarrow> yvalue \<Rightarrow> Resource" where
  "pdbResource kind v =
     \<lparr>res_FilePath = ''/b/manifests/pdb.yaml'', res_APIVersion = ''policy/v1'', res_Kind = kind,
      res_Metadata = \<lparr>md_Name = ''pdb'', md_Namespace = [], md_Annotations = Map.empty,
                      md_Labels = Map.empty\<rparr>,
      res_Spec = [''maxUnavailable'' \<mapsto> v]\<rparr>"

definition bundleOf :: "Resource list \<Rightarrow> Bundle" where
  "bundleOf rs =
     \<lparr>Path = ''/b'', ManifestsPath = ''/b/manifests'', MetadataPath = ''/b/metadata'',
      CSV = None, CRDs = [], OtherResources = rs, Annotations = None\<rparr>"

definition stdout0 :: Writer where
  "stdout0 = \<lparr>written = [], broken = False\<rparr>"

text \<open>
  A file system with the bundle \<open>/b\<close>: a manifests directory with one manifest (a
  PodDisruptionBudget), a file that is no manifest and a sub-directory; no metadata.
\<close>

definition exampleEnv :: Env where
  "exampleEnv =
     \<lparr>Abs = (\<lambda>p. Inr p),
      Stat = (\<lambda>p. if p = ''/b'' \<or> p = ''/b/manifests'' then StatOk else StatNotExist),
      ReadFile = (\<lambda>p. if p = ''/b/manifests/pdb.yaml'' then Inr ''kind: PodDisruptionBudget''
                       else Inl (Err ''no such file'')),
      ReadDir = (\<lambda>p. if p = ''/b/manifests''
                      then Inr [\<lparr>de_Name = ''pdb.yaml'', de_IsDir = False\<rparr>,
                                \<lparr>de_Name = ''README.md'', de_IsDir = False\<rparr>,
                                \<lparr>de_Name = ''extra'', de_IsDir = True\<rparr>]
                      else Inl (Err ''not a directory'')),
      UnmarshalAnnotations = (\<lambda>d. Inl (Err ''yaml: cannot decode'')),
      UnmarshalBasic = (\<lambda>d. if d = ''kind: PodDisruptionBudget''
                             then Inr (''policy/v1'', ''PodDisruptionBudget'')
                             else Inl (Err ''yaml: cannot decode'')),
      UnmarshalCSV = (\<lambda>d. Inl (Err ''yaml: cannot decode'')),
      UnmarshalCRD = (\<lambda>d. Inl (Err ''yaml: cannot decode'')),
      UnmarshalResource = (\<lambda>d. Inr (pdbResource ''PodDisruptionBudget'' (VString ''0%'')))\<rparr>"

text \<open>The same file system without the manifests directory.\<close>

definition noManifestsEnv :: Env where
  "noManifestsEnv = exampleEnv\<lparr>Stat := (\<lambda>p. if p = ''/b'' then StatOk else StatNotExist)\<rparr>"

text \<open>The same file system where the manifest is not YAML.\<close>

definition badManifestEnv :: Env where
  "badManifestEnv = exampleEnv\<lparr>UnmarshalBasic := (\<lambda>d. Inl (Err ''yaml: cannot decode''))\<rparr>"

text \<open>The same file system where the manifest violates no rule.\<close>

definition quietEnv :: Env where
  "quietEnv =
     exampleEnv\<lparr>UnmarshalResource := (\<lambda>d. Inr (pdbResource ''PodDisruptionBudget'' (VString ''1'')))\<rparr>"

text \<open>A standard output that takes no write, such as a full device.\<close>

definition brokenStdout :: Writer where
  "brokenStdout = \<lparr>written = [], broken = True\<rparr>"

text \<open>
  A CSV with one admission webhook whose only rule names the API groups \<open>*\<close> and
  \<open>operators.coreos.com\<close>, and the two violations that ODH-OLM-002 returns for it.
\<close>

definition webhookCSV :: ClusterServiceVersion where
  "webhookCSV =
     \<lparr>csv_FilePath = ''/b/manifests/op.clusterserviceversion.yaml'',
      csv_APIVersion = ''operators.coreos.com/v1alpha1'', csv_Kind = ''ClusterServiceVersion'',
      csv_Metadata = \<lparr>md_Name = ''op.v1'', md_Namespace = [], md_Annotations = Map.empty,
                      md_Labels = Map.empty\<rparr>,
      csv_Spec =
        \<lparr>MinKubeVersion = ''1.25.0'', InstallModes = [],
         WebhookDefinitions =
           [\<lparr>wd_Type = ''ValidatingAdmissionWebhook'', AdmissionReviewVersions = [''v1''],
             DeploymentName = ''op'', FailurePolicy = ''Fail'', GenerateName = ''vhook'',
             Rules = [\<lparr>APIGroups = [''*'', ''operators.coreos.com''], APIVersions = [''v1''],
                       Operations = [''CREATE''], Resources = [''pods'']\<rparr>],
             SideEffects = ''None'', WebhookPath = ''/validate'', ConversionCRDs = []\<rparr>],
         CustomResourceDefinitions = \<lparr>Owned = [], Required = []\<rparr>,
         Install = \<lparr>Strategy = ''deployment'', inst_Spec = \<lparr>Deployments = []\<rparr>\<rparr>\<rparr>\<rparr>"

definition webhookBundle :: Bundle where
  "webhookBundle = (bundleOf [])\<lparr>CSV := Some webhookCSV\<rparr>"

text \<open>
  A file system with a complete bundle \<open>/b\<close>: annotations that name the package and two
  channels, and three manifests, a CustomResourceDefinition, the CSV above and a
  PodDisruptionBudget; and the bundle that \<open>LoadBundle\<close> returns for it.
\<close>

definition exampleCRD :: CustomResourceDefinition where
  "exampleCRD =
     \<lparr>crd_FilePath = ''/b/manifests/crd.yaml'', crd_APIVersion = ''apiextensions.k8s.io/v1'',
      crd_Kind = ''CustomResourceDefinition'',
      crd_Metadata = \<lparr>md_Name = ''widgets.example.com'', md_Namespace = [],
                      md_Annotations = Map.empty, md_Labels = Map.empty\<rparr>,
      crd_Spec = \<lparr>Group = ''example.com'',
                  Names = \<lparr>names_Kind = ''Widget'', Plural = ''widgets'', Singular = ''widget''\<rparr>,
                  Versions = [\<lparr>ver_Name = ''v1'', Served = True, Storage = True\<rparr>],
                  PreserveUnknownFields = None, Conversion = None\<rparr>\<rparr>"

definition fullEnv :: Env where
  "fullEnv =
     \<lparr>Abs = (\<lambda>p. Inr p),
      Stat = (\<lambda>p. if p \<in> set [''/b'', ''/b/manifests'', ''/b/metadata/annotations.yaml'']
                    then StatOk else StatNotExist),
      ReadFile = (\<lambda>p. if p = ''/b/metadata/annotations.yaml'' then Inr ''annotations: ...''
                       else if p = ''/b/manifests/crd.yaml'' then Inr ''kind: CustomResourceDefinition''
                       else if p = ''/b/manifests/op.clusterserviceversion.yaml''
                       then Inr ''kind: ClusterServiceVersion''
                       else if p = ''/b/manifests/pdb.yaml'' then Inr ''kind: PodDisruptionBudget''
                       else Inl (Err ''no such file'')),
      ReadDir = (\<lambda>p. if p = ''/b/manifests''
                      then Inr [\<lparr>de_Name = ''crd.yaml'', de_IsDir = False\<rparr>,
                                \<lparr>de_Name = ''op.clusterserviceversion.yaml'', de_IsDir = False\<rparr>,
                                \<lparr>de_Name = ''pdb.yaml'', de_IsDir = False\<rparr>]
                      else Inl (Err ''not a directory'')),
      UnmarshalAnnotations =
        (\<lambda>d. Inr [''operators.operatorframework.io.bundle.package.v1'' \<mapsto> ''op'',
                   ''operators.operatorframework.io.bundle.channels.v1'' \<mapsto> ''alpha, stable'',
                   ''operators.operatorframework.io.bundle.channel.default.v1'' \<mapsto> ''stable'']),
      UnmarshalBasic =
        (\<lambda>d. if d = ''kind: CustomResourceDefinition''
              then Inr (''apiextensions.k8s.io/v1'', ''CustomResourceDefinition'')
              else if d = ''kind: ClusterServiceVersion''
              then Inr (''operators.coreos.com/v1alpha1'', ''ClusterServiceVersion'')
              else if d = ''kind: PodDisruptionBudget'' then Inr (''policy/v1'', ''PodDisruptionBudget'')
              else Inl (Err ''yaml: cannot decode'')),
      UnmarshalCSV = (\<lambda>d. Inr (webhookCSV\<lparr>csv_FilePath := []\<rparr>)),
      UnmarshalCRD = (\<lambda>d. Inr (exampleCRD\<lparr>crd_FilePath := []\<rparr>)),
      UnmarshalResource =
        (\<lambda>d. Inr ((pdbResource ''PodDisruptionBudget'' (VString ''0%''))\<lparr>res_FilePath := []\<rparr>))\<rparr>"

definition fullBundle :: Bundle where
  "fullBundle =
     \<lparr>Path = ''/b'', ManifestsPath = ''/b/manifests'', MetadataPath = ''/b/metadata'',
      CSV = Some webhookCSV, CRDs = [exampleCRD],
      OtherResources = [pdbResource ''PodDisruptionBudget'' (VString ''0%'')],
      Annotations =
        Some \<lparr>ann_FilePath = ''/b/metadata/annotations.yaml'', MediaType = [], Manifests = [],
              ann_Metadata = [], Package = ''op'', Channels = [''alpha'', ''stable''],
              DefaultChannel = ''stable''\<rparr>\<rparr>"

text \<open>
  The complete bundle with a CSV that has no \<open>minKubeVersion\<close>: ODH-OLM-001 returns one
  violation of severity Warning for it.
\<close>

definition warnCSV :: ClusterServiceVersion where
  "warnCSV = webhookCSV\<lparr>csv_Spec := (csv_Spec webhookCSV)\<lparr>MinKubeVersion := []\<rparr>\<rparr>"

definition warnEnv :: Env where
  "warnEnv = fullEnv\<lparr>UnmarshalCSV := (\<lambda>d. Inr warnCSV)\<rparr>"

text \<open>The two violations that ODH-OLM-002 returns for the CSV above.\<close>

definition wildcardViolation :: Violation where
  "wildcardViolation =
     \<lparr>RuleID = ''ODH-OLM-002'', RuleName = ''webhook-intercepts-operator-resources'',
      Category = ''OLM-Requirement'', Severity = ''error'',
      Message = ''Webhook '' @ sq @ ''vhook'' @ sq @ '' intercepts all API groups (apiGroups: ['' @ sq @ ''*'' @ sq @ '']). OLM will fail the CSV.'',
      File = ''/b/manifests/op.clusterserviceversion.yaml'', Line = 0,
      Description = ''Webhooks cannot intercept all API groups. This would prevent OLM from managing other operators.'',
      Fixable = False\<rparr>"

definition groupViolation :: Violation where
  "groupViolation =
     \<lparr>RuleID = ''ODH-OLM-002'', RuleName = ''webhook-intercepts-operator-resources'',
      Category = ''OLM-Requirement'', Severity = ''error'',
      Message = ''Webhook '' @ sq @ ''vhook'' @ sq @ '' intercepts the '' @ sq @ ''operators.coreos.com'' @ sq @ '' API group. OLM will fail the CSV.'',
      File = ''/b/manifests/op.clusterserviceversion.yaml'', Line = 0,
      Description = ''Webhooks cannot intercept the operators.coreos.com group. This would break OLM'' @ sq @ ''s ability to manage operators.'',
      Fixable = False\<rparr>"

text \<open>A violation of severity Warning, as ODH-OLM-001 returns it.\<close>

definition warningViolation :: Violation where
  "warningViolation =
     \<lparr>RuleID = ''ODH-OLM-001'', RuleName = ''missing-minkubeversion'',
      Category = ''OLM-Best-Practice'', Severity = ''warning'',
      Message = ''ClusterServiceVersion is missing spec.minKubeVersion field'',
      File = ''/b/manifests/op.clusterserviceversion.yaml'', Line = 0,
      Description = ''It is recommended to specify the minimum Kubernetes version your operator supports. This prevents installation on incompatible clusters.'',
      Fixable = False\<rparr>"

text \<open>
  The flagged statement of the analyzer's documentation,
  \<open>if value, err := getConfig(ctx, cli); err == nil { config.Value = value } else { log.Info(msg, err) }\<close>,
  the same with \<open>return err\<close> at the end of the else branch, and packages that hold
  the statement in a function: one file with one comment, one file with no comment, two
  files with a directive in the second, two files with a justification in the first.
\<close>

definition exInit :: node where
  "exInit = AssignStmt [Ident ''value'', Ident ''err''] DEFINE
     [CallExpr (Ident ''getConfig'') [Ident ''ctx'', Ident ''cli'']]"

definition exCond :: node where
  "exCond = BinaryExpr (Ident ''err'') EQL (Ident ''nil'')"

definition exBody :: node where
  "exBody = BlockStmt [AssignStmt [SelectorExpr (Ident ''config'') ''Value''] ASSIGN [Ident ''value'']]"

definition exLog :: node where
  "exLog = ExprStmt (CallExpr (SelectorExpr (Ident ''log'') ''Info'') [Ident ''msg'', Ident ''err''])"

definition demotingIf :: "Pos \<Rightarrow> node" where
  "demotingIf p = IfStmt p (Some exInit) exCond exBody (Some (BlockStmt [exLog]))"


definition funcWith :: "node \<Rightarrow> node" where
  "funcWith stmt = FuncDecl ''load'' (Some (BlockStmt [stmt]))"

definition fileSet :: FileSet where
  "fileSet = \<lparr>lastLine = (\<lambda>f. 100)\<rparr>"

definition oneFilePass :: Pass where
  "oneFilePass =
     \<lparr>Fset = fileSet,
      Files = [\<lparr>Comments = [[\<lparr>Slash = At 0 9, Text = ''//nolint:errordemote // ConfigMap may not exist''\<rparr>]],
                Decls = [funcWith (demotingIf (At 0 10))]\<rparr>]\<rparr>"

definition twoFilePass :: Pass where
  "twoFilePass =
     \<lparr>Fset = fileSet,
      Files = [\<lparr>Comments = [], Decls = [FuncDecl ''other'' (Some (BlockStmt []))]\<rparr>,
               \<lparr>Comments = [[\<lparr>Slash = At 1 9, Text = ''//nolint:errordemote // ConfigMap may not exist''\<rparr>]],
                Decls = [funcWith (demotingIf (At 1 10))]\<rparr>]\<rparr>"

definition crossFilePass :: Pass where
  "crossFilePass =
     \<lparr>Fset = fileSet,
      Files = [\<lparr>Comments = [[\<lparr>Slash = At 0 50, Text = ''// the cache is optional''\<rparr>]],
                Decls = [FuncDecl ''other'' (Some (BlockStmt []))]\<rparr>,
               \<lparr>Comments = [], Decls = [funcWith (demotingIf (At 1 4))]\<rparr>]\<rparr>"

definition plainPass :: "node \<Rightarrow> Pass" where
  "plainPass stmt = \<lparr>Fset = fileSet, Files = [\<lparr>Comments = [], Decls = [funcWith stmt]\<rparr>]\<rparr>"

definition commentPass :: "int \<Rightarrow> string \<Rightarrow> Pass" where
  "commentPass k t =
     \<lparr>Fset = fileSet,
      Files = [\<lparr>Comments = [[\<lparr>Slash = At 0 k, Text = t\<rparr>]],
                Decls = [funcWith (demotingIf (At 0 10))]\<rparr>]\<rparr>"

text \<open>
  A package of two files with the statement on line 10 of the second file and one
  comment in that file, on line \<open>k\<close>; the first file has no comment.
\<close>

definition secondFilePass :: "int \<Rightarrow> string \<Rightarrow> Pass" where
  "secondFilePass k t =
     \<lparr>Fset = fileSet,
      Files = [\<lparr>Comments = [], Decls = [FuncDecl ''other'' (Some (BlockStmt []))]\<rparr>,
               \<lparr>Comments = [[\<lparr>Slash = At 1 k, Text = t\<rparr>]],
                Decls = [funcWith (demotingIf (At 1 10))]\<rparr>]\<rparr>"

section \<open>Verified properties\<close>

subsection \<open>The PodDisruptionBudget rule\<close>




lemma TrimSpace_examples:
  "TrimSpace ''0%'' = ''0%''" "TrimSpace '' 0 '' = ''0''" "TrimSpace ''1'' = ''1''"
  by (simp_all add: TrimSpace_def dropSpace_def dropSpaceEnd_def DecodeLastRuneInString_def
      IsSpace_def byte_def Let_def)

text \<open>
  White space outside ASCII: a trailing U+2005 (four-per-em space) and a leading U+00A0
  with a trailing U+3000 are trimmed; U+200B (zero width space) is no white space.
\<close>

lemma TrimSpace_unicode:
  "TrimSpace (''0'' @ [CHR 0xE2, CHR 0x80, CHR 0x85]) = ''0''"
  "TrimSpace ([CHR 0xC2, CHR 0xA0] @ ''0%'' @ [CHR 0xE3, CHR 0x80, CHR 0x80, CHR 0x20]) = ''0%''"
  "TrimSpace (''0'' @ [CHR 0xE2, CHR 0x80, CHR 0x8B]) = ''0'' @ [CHR 0xE2, CHR 0x80, CHR 0x8B]"
  "TrimSpace (''ODH-OLM-001'' @ [CHR 0xE2, CHR 0x80, CHR 0x85]) = ''ODH-OLM-001''"
  "TrimSpace ''ODH-OLM-004'' = ''ODH-OLM-004''"
  "TrimSpace [] = []"
  by (simp_all add: TrimSpace_def dropSpace_def dropSpaceEnd_def DecodeLastRuneInString_def
      IsSpace_def byte_def Let_def lastStart.simps RuneStart_def)


subsection \<open>Rules on a bundle with parts absent\<close>

lemma olm010CRDs_total: "\<exists>vs. olm010CRDs c acc crds = Inr vs"
proof (induction crds arbitrary: acc)
  case Nil
  show ?case by simp
next
  case (Cons crd crds)
  show ?case
    by (cases "PreserveUnknownFields (crd_Spec crd)") (simp_all add: Let_def Cons.IH)
qed

lemma Rule_Validate_total: "\<exists>vs. Rule_Validate r b = Inr vs"
proof (cases "CSV b")
  case None
  then show ?thesis
    by (cases r; cases "Annotations b")
      (simp_all add: MinKubeVersionRule_Validate_def WebhookOperatorResourcesRule_Validate_def
        ConversionWebhookAllNamespacesRule_Validate_def PDBMaxUnavailableRule_Validate_def
        PDBMinAvailableRule_Validate_def PriorityClassGlobalDefaultRule_Validate_def
        ChannelNamingRule_Validate_def ConversionPreserveUnknownFieldsRule_Validate_def)
next
  case (Some csv)
  then show ?thesis
    by (cases r; cases "Annotations b")
      (simp_all add: MinKubeVersionRule_Validate_def WebhookOperatorResourcesRule_Validate_def
        ConversionWebhookAllNamespacesRule_Validate_def PDBMaxUnavailableRule_Validate_def
        PDBMinAvailableRule_Validate_def PriorityClassGlobalDefaultRule_Validate_def
        ChannelNamingRule_Validate_def ConversionPreserveUnknownFieldsRule_Validate_def
        Let_def olm010CRDs_total)
qed

lemma ValidateBundleFrom_total: "\<exists>vs. ValidateBundleFrom acc b rs = Inr vs"
proof (induction rs arbitrary: acc)
  case Nil
  show ?case by simp
next
  case (Cons r rs)
  obtain vs where "Rule_Validate r b = Inr vs"
    using Rule_Validate_total by blast
  then show ?case by (simp add: Cons.IH)
qed

text \<open>
  Claim C9. A bundle with no CSV is nothing to check for the rules that read the CSV
  (ODH-OLM-001, 002, 003 and 010): each returns no violation. No rule panics on any
  bundle, whatever is absent from it, and neither does a run of any list of rules.
\<close>

theorem absent_csv_nothing_to_check:
  "(CSV b = None \<longrightarrow>
      MinKubeVersionRule_Validate b = Inr [] \<and>
      WebhookOperatorResourcesRule_Validate b = Inr [] \<and>
      ConversionWebhookAllNamespacesRule_Validate b = Inr [] \<and>
      ConversionPreserveUnknownFieldsRule_Validate b = Inr [])
   \<and> (\<exists>vs. Rule_Validate r b = Inr vs)
   \<and> (\<exists>vs. ValidateBundle b rs = Inr vs)"
  by (simp add: MinKubeVersionRule_Validate_def WebhookOperatorResourcesRule_Validate_def
        ConversionWebhookAllNamespacesRule_Validate_def
        ConversionPreserveUnknownFieldsRule_Validate_def Rule_Validate_total
        ValidateBundle_def ValidateBundleFrom_total)

lemma other_rules_ignore_csv:
  "r \<in> {PDBMaxUnavailableRule, PDBMinAvailableRule, PriorityClassGlobalDefaultRule, ChannelNamingRule}
   \<Longrightarrow> Rule_Validate r (b\<lparr>CSV := c\<rparr>) = Rule_Validate r b"
  by (auto simp: PDBMaxUnavailableRule_Validate_def
        PDBMinAvailableRule_Validate_def PriorityClassGlobalDefaultRule_Validate_def
        ChannelNamingRule_Validate_def)

theorem absent_csv_empty_bundle:
  "CSV (bundleOf []) = None
   \<and> MinKubeVersionRule_Validate (bundleOf []) = Inr []
   \<and> WebhookOperatorResourcesRule_Validate (bundleOf []) = Inr []
   \<and> ConversionWebhookAllNamespacesRule_Validate (bundleOf []) = Inr []
   \<and> ConversionPreserveUnknownFieldsRule_Validate (bundleOf []) = Inr []
   \<and> ValidateBundle (bundleOf []) GetAllRules = Inr []"
  using absent_csv_nothing_to_check [of "bundleOf []" MinKubeVersionRule GetAllRules]
  by (simp add: bundleOf_def ValidateBundle_def GetAllRules_def
        MinKubeVersionRule_Validate_def WebhookOperatorResourcesRule_Validate_def
        ConversionWebhookAllNamespacesRule_Validate_def PDBMaxUnavailableRule_Validate_def
        PDBMinAvailableRule_Validate_def PriorityClassGlobalDefaultRule_Validate_def
        ChannelNamingRule_Validate_def ConversionPreserveUnknownFieldsRule_Validate_def)

subsection \<open>The selection of the rules\<close>

lemma parseRuleList_fold_dom:
  "dom (foldl (\<lambda>result part. let trimmed = TrimSpace part
                 in if trimmed \<noteq> [] then result(trimmed \<mapsto> True) else result) m parts) =
     dom m \<union> {t. t \<noteq> [] \<and> (\<exists>part \<in> set parts. t = TrimSpace part)}"
  by (induction parts arbitrary: m) (auto simp: Let_def)

lemma Split_nonempty: "Split s c \<noteq> []"
  by (induction s) (auto split: list.splits)

lemma dom_parseRuleList:
  "dom (parseRuleList list) =
     {t. t \<noteq> [] \<and> (\<exists>part \<in> set (Split list CHR '',''). t = TrimSpace part)}"
proof (cases "list = []")
  case True
  then show ?thesis by (auto simp: parseRuleList_def TrimSpace_def dropSpace_def)
next
  case False
  then show ?thesis by (simp add: parseRuleList_def parseRuleList_fold_dom)
qed

lemma select_fold:
  "foldl (\<lambda>selected rule. if P rule then selected @ [rule] else selected) acc rs = acc @ filter P rs"
  by (induction rs arbitrary: acc) auto

lemma selectRules_enable:
  "enable \<noteq> [] \<Longrightarrow>
   selectRules enable disable = filter (\<lambda>r. Rule_ID r \<in> dom (parseRuleList enable)) GetAllRules"
  by (simp add: selectRules_def Let_def select_fold dom_def)

lemma selectRules_disable:
  "selectRules [] disable = filter (\<lambda>r. Rule_ID r \<notin> dom (parseRuleList disable)) GetAllRules"
proof (cases "disable = []")
  case True
  then show ?thesis by (simp add: selectRules_def Let_def parseRuleList_def)
next
  case False
  then show ?thesis by (simp add: selectRules_def Let_def select_fold dom_def)
qed

text \<open>
  Claim C2, as the code has it. The enable and disable lists are the strings of the two
  flags; the set of a list holds its comma-separated pieces, trimmed, that are not empty
  (\<open>dom_parseRuleList\<close>). The test is on the string of the enable flag, not on its set:
  when the string is not empty, the rules selected are the rules of the registry whose
  identifier is in the enable set, in registry order, and the disable list changes
  nothing. When the string is empty, they are the rules of the registry whose identifier
  is not in the disable set. An identifier of a list that is no rule's identifier changes
  nothing: the selection is the same for two lists whose sets hold the same identifiers
  of the registry. \<open>selectRules\<close> returns a list of rules and has no error to return.
\<close>

theorem selection_by_enable_and_disable:
  "(enable \<noteq> [] \<longrightarrow>
      selectRules enable disable =
        filter (\<lambda>r. Rule_ID r \<in> dom (parseRuleList enable)) GetAllRules
      \<and> set (selectRules enable disable) =
        set GetAllRules \<inter> {r. Rule_ID r \<in> dom (parseRuleList enable)}
      \<and> selectRules enable disable = selectRules enable disable')
   \<and> (enable = [] \<longrightarrow>
      selectRules enable disable =
        filter (\<lambda>r. Rule_ID r \<notin> dom (parseRuleList disable)) GetAllRules
      \<and> set (selectRules enable disable) =
        set GetAllRules - {r. Rule_ID r \<in> dom (parseRuleList disable)})
   \<and> (enable \<noteq> [] \<and> enable' \<noteq> [] \<and>
       dom (parseRuleList enable) \<inter> Rule_ID ` set GetAllRules =
       dom (parseRuleList enable') \<inter> Rule_ID ` set GetAllRules \<longrightarrow>
         selectRules enable disable = selectRules enable' disable)
   \<and> (dom (parseRuleList disable) \<inter> Rule_ID ` set GetAllRules =
       dom (parseRuleList disable') \<inter> Rule_ID ` set GetAllRules \<longrightarrow>
         selectRules [] disable = selectRules [] disable')"
proof -
  have a: "enable \<noteq> [] \<Longrightarrow> enable' \<noteq> [] \<Longrightarrow>
       dom (parseRuleList enable) \<inter> Rule_ID ` set GetAllRules =
       dom (parseRuleList enable') \<inter> Rule_ID ` set GetAllRules \<Longrightarrow>
       selectRules enable disable = selectRules enable' disable"
    unfolding selectRules_enable by (rule filter_cong) auto
  have b: "dom (parseRuleList disable) \<inter> Rule_ID ` set GetAllRules =
       dom (parseRuleList disable') \<inter> Rule_ID ` set GetAllRules \<Longrightarrow>
         selectRules [] disable = selectRules [] disable'"
    unfolding selectRules_disable by (rule filter_cong) auto
  show ?thesis
    using a b by (auto simp: selectRules_enable selectRules_disable)
qed

lemma TrimSpace_rule_ids:
  "TrimSpace ''ODH-OLM-001'' = ''ODH-OLM-001''" "TrimSpace '' BOGUS-9'' = ''BOGUS-9''"
  "TrimSpace ''ODH-OLM-007'' = ''ODH-OLM-007''" "TrimSpace ''NOPE'' = ''NOPE''"
  by (simp_all add: TrimSpace_def dropSpace_def dropSpaceEnd_def DecodeLastRuneInString_def IsSpace_def byte_def Let_def)

theorem selection_examples:
  "''ODH-OLM-001, BOGUS-9'' \<noteq> []
   \<and> selectRules ''ODH-OLM-001, BOGUS-9'' ''ODH-OLM-001'' = [MinKubeVersionRule]
   \<and> selectRules ''ODH-OLM-001, BOGUS-9'' ''ODH-OLM-001'' = selectRules ''ODH-OLM-001, BOGUS-9'' []
   \<and> selectRules [] ''ODH-OLM-007,NOPE'' =
       [MinKubeVersionRule, WebhookOperatorResourcesRule, ConversionWebhookAllNamespacesRule,
        PDBMaxUnavailableRule, PDBMinAvailableRule, PriorityClassGlobalDefaultRule,
        ConversionPreserveUnknownFieldsRule]
   \<and> selectRules (''ODH-OLM-001'' @ [CHR 0xE2, CHR 0x80, CHR 0x85] @ '',ODH-OLM-004'') ''ODH-OLM-004'' =
       [MinKubeVersionRule, PDBMaxUnavailableRule]"
  using selection_by_enable_and_disable
    [of "''ODH-OLM-001, BOGUS-9''" "''ODH-OLM-001''" "[]" "''ODH-OLM-001''"]
    selection_by_enable_and_disable [of "[]" "''ODH-OLM-007,NOPE''" "[]" "[]"]
  by (auto simp: selectRules_def parseRuleList_def GetAllRules_def TrimSpace_rule_ids
      TrimSpace_unicode [simplified])

text \<open>
  Claim C2 as the specification words it, on the sets, fails: an enable flag that is not
  empty but holds no identifier, such as a single comma, has an empty enable set, and the
  claim then gives the full registry minus the disable set, the eight rules here. The
  code selects no rule.
\<close>

theorem enable_flag_without_identifier:
  "dom (parseRuleList '','') = {}
   \<and> selectRules '','' [] = []
   \<and> selectRules [] [] = GetAllRules
   \<and> length GetAllRules = 8"
  by (simp add: selectRules_def parseRuleList_def GetAllRules_def TrimSpace_unicode)

subsection \<open>The exit status\<close>

lemma hasErrors_iff: "hasErrors vs = (\<exists>v \<in> set vs. Severity v = SeverityError)"
  by (induction vs) auto

lemma countSeverity_fold:
  "foldl (\<lambda>n v. if Severity v = s then n + 1 else n) k vs = k + length (filter (\<lambda>v. Severity v = s) vs)"
  by (induction vs arbitrary: k) auto

lemma countSeverity_eq: "countSeverity s vs = length (filter (\<lambda>v. Severity v = s) vs)"
  by (simp add: countSeverity_def countSeverity_fold)

lemma countSeverity_pos: "(countSeverity s vs > 0) = (\<exists>v \<in> set vs. Severity v = s)"
  by (simp add: countSeverity_eq filter_empty_conv)

lemma ReportSummary_err: "(snd (ReportSummary w vs) \<noteq> None) = (\<exists>v \<in> set vs. Severity v = SeverityError)"
  using countSeverity_pos [of SeverityError vs] by (simp add: ReportSummary_def Let_def)

lemma Report_err: "snd (snd (Report pdq w vs)) = (if vs = [] \<and> broken w then Some (Err ''write failed'') else None)"
  by (simp add: Report_def Let_def Fprintln_def Fprint_def split: prod.splits)

lemma insertionInner_mset: "j < length xs \<Longrightarrow> mset (insertionInner lt xs j) = mset xs"
proof (induction j arbitrary: xs)
  case 0
  show ?case by simp
next
  case (Suc j)
  then show ?case by (simp add: Swap_def mset_swap)
qed

lemma insertionInner_length: "length (insertionInner lt xs j) = length xs"
  by (induction j arbitrary: xs) (simp_all add: Swap_def)

lemma insertion_fold_mset:
  "\<forall>i \<in> set is. i < length xs \<Longrightarrow> mset (foldl (insertionInner lt) xs is) = mset xs"
  by (induction "is" arbitrary: xs) (simp_all add: insertionInner_mset insertionInner_length)

lemma insertionSort_mset: "mset (insertionSort lt xs) = mset xs"
  by (simp add: insertionSort_def insertion_fold_mset)

lemma sort_Slice_mset: "permutes pdq lt \<Longrightarrow> mset (sort_Slice pdq lt xs) = mset xs"
  by (simp add: sort_Slice_def insertionSort_mset permutes_def)

lemma Report_mset: "permutes pdq violationLess \<Longrightarrow> mset (fst (Report pdq w vs)) = mset vs"
  by (simp add: Report_def Let_def sort_Slice_mset split: prod.splits)

lemma reportAndExit_code:
  assumes "permutes pdq violationLess"
  shows "(fst (reportAndExit pdq w nw vs) \<noteq> 0) =
     ((\<exists>v \<in> set vs. Severity v = SeverityError) \<or> (vs = [] \<and> broken w))"
proof -
  obtain vs' w1 e where r: "Report pdq w vs = (vs', w1, e)"
    by (cases "Report pdq w vs") auto
  have s: "set vs' = set vs"
    using Report_mset [OF assms, of w vs] r by (metis fst_conv mset_eq_setD)
  have e: "e = (if vs = [] \<and> broken w then Some (Err ''write failed'') else None)"
    using Report_err [of pdq w vs] r by simp
  obtain w2 e2 where rs: "ReportSummary w1 vs' = (w2, e2)"
    by (cases "ReportSummary w1 vs'") auto
  have e2: "(e2 \<noteq> None) = (\<exists>v \<in> set vs. Severity v = SeverityError)"
    using ReportSummary_err [of w1 vs'] rs s by simp
  show ?thesis
  proof (cases "vs = [] \<and> broken w")
    case True
    then show ?thesis using r e by (simp add: reportAndExit_def)
  next
    case False
    then have "e = None" using e by simp
    then show ?thesis
      using r rs e2 False s
      by (cases e2) (auto simp: reportAndExit_def hasErrors_iff)
  qed
qed

lemma Fprint_broken: "broken (fst (Fprint w s)) = broken w"
  by (simp add: Fprint_def)

lemma reportAndExit_range: "fst (reportAndExit pdq w nw vs) = 0 \<or> fst (reportAndExit pdq w nw vs) = 1"
  by (auto simp: reportAndExit_def Let_def split: prod.splits option.splits)

text \<open>
  Claim C3, as the code has it. A run whose load succeeded ends with the exit status
  that \<open>main\<close> derives from the violations the rules returned: 0 or 1, and not zero
  exactly when one of the violations has severity Error, or there is no violation and
  the report cannot be written (\<open>Report\<close> returns the error of writing its only line,
  and \<open>main\<close> then exits with status 1). So with a standard output that takes what is
  written the status is not zero exactly when a violation has severity Error, and
  violations of severity Warning or Info alone give status zero, with or without the flag
  \<open>no-warnings\<close>. (\<open>permutes\<close> is the library's guarantee that sorting keeps the elements
  of the slice.)
\<close>

theorem exit_status_nonzero_iff_error_or_failed_report:
  assumes "permutes pdq violationLess" and "LoadBundle env p = (Some b, None)"
  shows "\<exists>vs code w.
     ValidateBundle b (selectRules enable disable) = Inr vs
     \<and> main env pdq stdout enable disable noWarnings p = Inr (code, w)
     \<and> (code \<noteq> 0) = ((\<exists>v \<in> set vs. Severity v = SeverityError) \<or> (vs = [] \<and> broken stdout))
     \<and> (\<not> broken stdout \<longrightarrow> (code \<noteq> 0) = (\<exists>v \<in> set vs. Severity v = SeverityError))
     \<and> (vs \<noteq> [] \<and> (\<forall>v \<in> set vs. Severity v \<noteq> SeverityError) \<longrightarrow> code = 0)
     \<and> (code = 0 \<or> code = 1)"
proof -
  obtain vs where v: "ValidateBundle b (selectRules enable disable) = Inr vs"
    using ValidateBundleFrom_total [of "[]" b "selectRules enable disable"]
    by (auto simp: ValidateBundle_def)
  define w1 where "w1 = fst (Fprint (fst (Fprint stdout (''Loading bundle from: '' @ p @ nl)))
    (''Running '' @ showNat (length (selectRules enable disable)) @ '' validation rule(s)...'' @ nl @ nl))"
  have nb: "broken w1 = broken stdout"
    by (simp add: w1_def Fprint_broken)
  have m: "main env pdq stdout enable disable noWarnings p = Inr (reportAndExit pdq w1 noWarnings vs)"
    using assms(2) v by (simp add: main_def Let_def w1_def)
  have c: "(fst (reportAndExit pdq w1 noWarnings vs) \<noteq> 0) =
      ((\<exists>v \<in> set vs. Severity v = SeverityError) \<or> (vs = [] \<and> broken stdout))"
    using reportAndExit_code [OF assms(1), of w1 noWarnings vs] nb by simp
  obtain code w where r: "reportAndExit pdq w1 noWarnings vs = (code, w)"
    by (cases "reportAndExit pdq w1 noWarnings vs") auto
  have c': "(code \<noteq> 0) = ((\<exists>v \<in> set vs. Severity v = SeverityError) \<or> (vs = [] \<and> broken stdout))"
    using c r by simp
  have "ValidateBundle b (selectRules enable disable) = Inr vs
     \<and> main env pdq stdout enable disable noWarnings p = Inr (code, w)
     \<and> (code \<noteq> 0) = ((\<exists>v \<in> set vs. Severity v = SeverityError) \<or> (vs = [] \<and> broken stdout))
     \<and> (\<not> broken stdout \<longrightarrow> (code \<noteq> 0) = (\<exists>v \<in> set vs. Severity v = SeverityError))
     \<and> (vs \<noteq> [] \<and> (\<forall>v \<in> set vs. Severity v \<noteq> SeverityError) \<longrightarrow> code = 0)
     \<and> (code = 0 \<or> code = 1)"
    using v m r c' reportAndExit_range [of pdq w1 noWarnings vs] by auto
  then show ?thesis by blast
qed

lemma example_paths:
  "filepath_Join ''/b'' ''manifests'' = ''/b/manifests''"
  "filepath_Join ''/b'' ''metadata'' = ''/b/metadata''"
  "filepath_Join ''/b/metadata'' ''annotations.yaml'' = ''/b/metadata/annotations.yaml''"
  "filepath_Join ''/b/manifests'' ''pdb.yaml'' = ''/b/manifests/pdb.yaml''"
  by (simp_all add: filepath_Join_def)

lemma example_suffixes:
  "HasSuffix ''pdb.yaml'' ''.yaml''" "\<not> HasSuffix ''README.md'' ''.yaml''"
  "\<not> HasSuffix ''README.md'' ''.yml''"
  by (simp_all add: HasSuffix_def)

lemma full_paths:
  "filepath_Join ''/b/manifests'' ''crd.yaml'' = ''/b/manifests/crd.yaml''"
  "filepath_Join ''/b/manifests'' ''op.clusterserviceversion.yaml'' =
     ''/b/manifests/op.clusterserviceversion.yaml''"
  by (simp_all add: filepath_Join_def)

lemma full_suffixes:
  "HasSuffix ''crd.yaml'' ''.yaml''" "HasSuffix ''op.clusterserviceversion.yaml'' ''.yaml''"
  by (simp_all add: HasSuffix_def)

lemma channels_example: "TrimSpace ''alpha'' = ''alpha''" "TrimSpace '' stable'' = ''stable''"
  by (simp_all add: TrimSpace_def dropSpace_def dropSpaceEnd_def DecodeLastRuneInString_def IsSpace_def
      byte_def Let_def)

lemma LoadBundle_example:
  "LoadBundle exampleEnv ''/b'' =
     (Some (bundleOf [pdbResource ''PodDisruptionBudget'' (VString ''0%'')]), None)"
  by (simp add: LoadBundle_def exampleEnv_def Let_def example_paths loadAnnotations_def
      loadManifests_def example_suffixes loadManifestFile_def parseResource_def bundleOf_def
      pdbResource_def)

lemma LoadBundle_quiet:
  "LoadBundle quietEnv ''/b'' =
     (Some (bundleOf [pdbResource ''PodDisruptionBudget'' (VString ''1'')]), None)"
  by (simp add: LoadBundle_def quietEnv_def exampleEnv_def Let_def example_paths loadAnnotations_def
      loadManifests_def example_suffixes loadManifestFile_def loadManifestFiles.simps
      parseResource_def bundleOf_def pdbResource_def)

lemma Validate_quiet:
  "ValidateBundle (bundleOf [pdbResource ''PodDisruptionBudget'' (VString ''1'')]) (selectRules [] []) = Inr []"
  by (simp add: selectRules_def bundleOf_def pdbResource_def ValidateBundle_def GetAllRules_def
        MinKubeVersionRule_Validate_def WebhookOperatorResourcesRule_Validate_def
        ConversionWebhookAllNamespacesRule_Validate_def PDBMaxUnavailableRule_Validate_def
        PDBMinAvailableRule_Validate_def PriorityClassGlobalDefaultRule_Validate_def
        ChannelNamingRule_Validate_def ConversionPreserveUnknownFieldsRule_Validate_def
        olm004Resource_def olm005Resource_def olm006Resource_def TrimSpace_examples Let_def)

lemma Validate_example:
  "ValidateBundle (bundleOf [pdbResource ''PodDisruptionBudget'' (VString ''0%'')]) (selectRules [] []) =
     Inr [olm004Violation (pdbResource ''PodDisruptionBudget'' (VString ''0%''))]"
  by (simp add: selectRules_def bundleOf_def pdbResource_def ValidateBundle_def GetAllRules_def
        MinKubeVersionRule_Validate_def WebhookOperatorResourcesRule_Validate_def
        ConversionWebhookAllNamespacesRule_Validate_def PDBMaxUnavailableRule_Validate_def
        PDBMinAvailableRule_Validate_def PriorityClassGlobalDefaultRule_Validate_def
        ChannelNamingRule_Validate_def ConversionPreserveUnknownFieldsRule_Validate_def
        olm004Resource_def olm005Resource_def olm006Resource_def TrimSpace_examples Let_def)

lemma LoadBundle_warn: "LoadBundle warnEnv ''/b'' = (Some (fullBundle\<lparr>CSV := Some warnCSV\<rparr>), None)"
  by (simp add: LoadBundle_def warnEnv_def fullEnv_def Let_def example_paths full_paths loadAnnotations_def
      loadManifests_def example_suffixes full_suffixes loadManifestFile_def loadManifestFiles.simps
      parseCSV_def parseCRD_def parseResource_def fullBundle_def getString_def channels_example
      webhookCSV_def warnCSV_def exampleCRD_def pdbResource_def)

lemma Validate_warn:
  "ValidateBundle (fullBundle\<lparr>CSV := Some warnCSV\<rparr>) (selectRules ''ODH-OLM-001'' []) = Inr [warningViolation]"
  by (auto simp: selectRules_def parseRuleList_def GetAllRules_def TrimSpace_rule_ids ValidateBundle_def
      MinKubeVersionRule_Validate_def fullBundle_def warnCSV_def webhookCSV_def warningViolation_def
      CategoryOLMBestPractice_def SeverityWarning_def Let_def)

theorem exit_status_example:
  "permutes insertionSort violationLess
   \<and> LoadBundle exampleEnv ''/b'' =
       (Some (bundleOf [pdbResource ''PodDisruptionBudget'' (VString ''0%'')]), None)
   \<and> \<not> broken stdout0
   \<and> (\<exists>w. main exampleEnv insertionSort stdout0 [] [] False ''/b'' = Inr (1, w))
   \<and> LoadBundle quietEnv ''/b'' =
       (Some (bundleOf [pdbResource ''PodDisruptionBudget'' (VString ''1'')]), None)
   \<and> (\<exists>w. main quietEnv insertionSort stdout0 [] [] True ''/b'' = Inr (0, w))
   \<and> LoadBundle warnEnv ''/b'' = (Some (fullBundle\<lparr>CSV := Some warnCSV\<rparr>), None)
   \<and> ValidateBundle (fullBundle\<lparr>CSV := Some warnCSV\<rparr>) (selectRules ''ODH-OLM-001'' []) =
       Inr [warningViolation]
   \<and> Severity warningViolation = SeverityWarning
   \<and> (\<exists>w. main warnEnv insertionSort stdout0 ''ODH-OLM-001'' [] False ''/b'' = Inr (0, w))
   \<and> (\<exists>w. main warnEnv insertionSort brokenStdout ''ODH-OLM-001'' [] False ''/b'' = Inr (0, w))"
proof -
  have p: "permutes insertionSort violationLess"
    by (simp add: permutes_def insertionSort_mset)
  have b: "\<not> broken stdout0"
    by (simp add: stdout0_def)
  obtain vs code w where 1: "ValidateBundle (bundleOf [pdbResource ''PodDisruptionBudget'' (VString ''0%'')])
        (selectRules [] []) = Inr vs"
    "main exampleEnv insertionSort stdout0 [] [] False ''/b'' = Inr (code, w)"
    "(code \<noteq> 0) = ((\<exists>v \<in> set vs. Severity v = SeverityError) \<or> (vs = [] \<and> broken stdout0))"
    "code = 0 \<or> code = 1"
    using exit_status_nonzero_iff_error_or_failed_report [OF p LoadBundle_example, of "[]" "[]" stdout0 False] by blast
  obtain vs' code' w' where 2: "ValidateBundle (bundleOf [pdbResource ''PodDisruptionBudget'' (VString ''1'')])
        (selectRules [] []) = Inr vs'"
    "main quietEnv insertionSort stdout0 [] [] True ''/b'' = Inr (code', w')"
    "(code' \<noteq> 0) = ((\<exists>v \<in> set vs'. Severity v = SeverityError) \<or> (vs' = [] \<and> broken stdout0))"
    using exit_status_nonzero_iff_error_or_failed_report [OF p LoadBundle_quiet, of "[]" "[]" stdout0 True] by blast
  have c2: "code' = 0"
    using 2 b by (simp add: Validate_quiet)
  have vs: "vs = [olm004Violation (pdbResource ''PodDisruptionBudget'' (VString ''0%''))]"
    using 1(1) by (simp add: Validate_example)
  have c1: "code \<noteq> 0"
    using 1(3) unfolding vs by (simp add: olm004Violation_def SeverityError_def)
  have c1': "code = 1" using c1 1(4) by simp
  have sw: "Severity warningViolation = SeverityWarning"
    by (simp add: warningViolation_def SeverityWarning_def)
  have 3: "\<exists>w. main warnEnv insertionSort out ''ODH-OLM-001'' [] False ''/b'' = Inr (0, w)" for out
  proof -
    obtain vs3 code3 w3 where 4:
      "ValidateBundle (fullBundle\<lparr>CSV := Some warnCSV\<rparr>) (selectRules ''ODH-OLM-001'' []) = Inr vs3"
      "main warnEnv insertionSort out ''ODH-OLM-001'' [] False ''/b'' = Inr (code3, w3)"
      "vs3 \<noteq> [] \<and> (\<forall>v \<in> set vs3. Severity v \<noteq> SeverityError) \<longrightarrow> code3 = 0"
      using exit_status_nonzero_iff_error_or_failed_report
        [OF p LoadBundle_warn, of "''ODH-OLM-001''" "[]" out False]
      by blast
    have "vs3 = [warningViolation]"
      using 4(1) by (simp add: Validate_warn)
    then have "code3 = 0"
      using 4(3) sw by (simp add: SeverityWarning_def SeverityError_def)
    then show ?thesis using 4(2) by simp
  qed
  show ?thesis
    using p b LoadBundle_example LoadBundle_quiet 1(2) 2(2) c1' c2 LoadBundle_warn Validate_warn sw
      3 [of stdout0] 3 [of brokenStdout]
    by auto
qed

text \<open>
  Claim C3 as the specification words it fails on a run that finds nothing and cannot
  write: the load succeeds, the rules return no violation, none of severity Error then,
  and the process exits with status 1.
\<close>

theorem exit_status_of_failed_report:
  "LoadBundle quietEnv ''/b'' =
     (Some (bundleOf [pdbResource ''PodDisruptionBudget'' (VString ''1'')]), None)
   \<and> ValidateBundle (bundleOf [pdbResource ''PodDisruptionBudget'' (VString ''1'')]) (selectRules [] []) = Inr []
   \<and> main quietEnv insertionSort brokenStdout [] [] False ''/b'' = Inr (1, brokenStdout)"
  by (simp add: LoadBundle_quiet Validate_quiet main_def Let_def reportAndExit_def Report_def
      Fprint_def Fprintln_def brokenStdout_def)

subsection \<open>Loading a bundle\<close>

lemma loadManifestFile_error:
  "(snd (loadManifestFile env b path) \<noteq> None) = manifestError env path"
  by (auto simp: loadManifestFile_def manifestError_def parseCSV_def parseCRD_def parseResource_def
      split: sum.splits prod.splits option.splits)

lemma loadManifestFile_frame:
  "loadManifestFile env b path = (b1, e) \<Longrightarrow>
     Path b1 = Path b \<and> ManifestsPath b1 = ManifestsPath b \<and> MetadataPath b1 = MetadataPath b
     \<and> Annotations b1 = Annotations b"
  by (auto simp: loadManifestFile_def parseCSV_def parseCRD_def parseResource_def
      split: sum.splits prod.splits option.splits if_splits)

lemma loadManifestFile_ok:
  assumes "loadManifestFile env b path = (b1, None)"
  shows "map crd_FilePath (CRDs b1) =
           map crd_FilePath (CRDs b) @ (if kindOf env path = Some ''CustomResourceDefinition'' then [path] else [])"
    and "map res_FilePath (OtherResources b1) =
           map res_FilePath (OtherResources b) @
           (if kindOf env path \<notin> {Some ''ClusterServiceVersion'', Some ''CustomResourceDefinition''} then [path] else [])"
    and "map_option csv_FilePath (CSV b1) =
           (if kindOf env path = Some ''ClusterServiceVersion'' then Some path else map_option csv_FilePath (CSV b))"
  using assms
  by (auto simp: loadManifestFile_def kindOf_def parseCSV_def parseCRD_def parseResource_def
      split: sum.splits prod.splits option.splits if_splits)

lemma loadManifestFiles_skip:
  "\<not> isManifest entry \<Longrightarrow> loadManifestFiles env b (entry # files) = loadManifestFiles env b files"
  by (auto simp: isManifest_def)

lemma loadManifestFiles_step:
  "isManifest entry \<Longrightarrow> loadManifestFiles env b (entry # files) =
     (case loadManifestFile env b (filepath_Join (ManifestsPath b) (de_Name entry)) of
        (b1, Some err) \<Rightarrow> (b1, Some (wrap (''failed to load manifest '' @ de_Name entry @ '': '') err))
      | (b1, None) \<Rightarrow> loadManifestFiles env b1 files)"
  by (auto simp: isManifest_def Let_def)

declare loadManifestFiles.simps(2) [simp del]

lemma loadManifestFiles_error:
  "ManifestsPath b = dir \<Longrightarrow>
   (snd (loadManifestFiles env b files) \<noteq> None) =
     (\<exists>f \<in> set files. isManifest f \<and> manifestError env (filepath_Join dir (de_Name f)))"
proof (induction files arbitrary: b)
  case Nil
  show ?case by simp
next
  case (Cons entry files)
  show ?case
  proof (cases "isManifest entry")
    case False
    then show ?thesis using Cons by (simp add: loadManifestFiles_skip)
  next
    case True
    obtain b1 e where l: "loadManifestFile env b (filepath_Join dir (de_Name entry)) = (b1, e)"
      by (cases "loadManifestFile env b (filepath_Join dir (de_Name entry))") auto
    have m: "ManifestsPath b1 = dir"
      using loadManifestFile_frame [OF l] Cons.prems by simp
    have e: "(e \<noteq> None) = manifestError env (filepath_Join dir (de_Name entry))"
      using loadManifestFile_error [of env b "filepath_Join dir (de_Name entry)"] l by simp
    show ?thesis
    proof (cases e)
      case None
      then show ?thesis
        using True l e Cons.prems Cons.IH [OF m] by (simp add: loadManifestFiles_step)
    next
      case (Some err)
      then show ?thesis
        using True l e Cons.prems by (simp add: loadManifestFiles_step)
    qed
  qed
qed

lemma loadManifestFiles_ok:
  "ManifestsPath b = dir \<Longrightarrow> loadManifestFiles env b files = (b', None) \<Longrightarrow>
   Path b' = Path b \<and> ManifestsPath b' = dir \<and> MetadataPath b' = MetadataPath b
   \<and> Annotations b' = Annotations b
   \<and> map crd_FilePath (CRDs b') = map crd_FilePath (CRDs b) @
        filter (\<lambda>p. kindOf env p = Some ''CustomResourceDefinition'') (manifestPaths dir files)
   \<and> map res_FilePath (OtherResources b') = map res_FilePath (OtherResources b) @
        filter (\<lambda>p. kindOf env p \<notin> {Some ''ClusterServiceVersion'', Some ''CustomResourceDefinition''})
          (manifestPaths dir files)
   \<and> map_option csv_FilePath (CSV b') =
        lastCSV env (map_option csv_FilePath (CSV b)) (manifestPaths dir files)"
proof (induction files arbitrary: b)
  case Nil
  then show ?case by (simp add: manifestPaths_def)
next
  case (Cons entry files)
  show ?case
  proof (cases "isManifest entry")
    case False
    then have "loadManifestFiles env b files = (b', None)"
      using Cons.prems by (simp add: loadManifestFiles_skip)
    then show ?thesis
      using Cons.IH [OF Cons.prems(1)] False by (simp add: manifestPaths_def)
  next
    case True
    let ?p = "filepath_Join dir (de_Name entry)"
    obtain b1 e where l: "loadManifestFile env b ?p = (b1, e)"
      by (cases "loadManifestFile env b ?p") auto
    have e: "e = None"
      using Cons.prems True l by (cases e) (simp_all add: loadManifestFiles_step)
    have rest: "loadManifestFiles env b1 files = (b', None)"
      using Cons.prems True l e by (simp add: loadManifestFiles_step)
    have fr: "Path b1 = Path b" "ManifestsPath b1 = dir" "MetadataPath b1 = MetadataPath b"
      "Annotations b1 = Annotations b"
      using loadManifestFile_frame [OF l] Cons.prems by simp_all
    note step = loadManifestFile_ok [OF l [unfolded e]]
    show ?thesis
      using Cons.IH [OF fr(2) rest] fr step True
      by (simp add: manifestPaths_def)
  qed
qed

lemma loadAnnotations_error:
  "(snd (loadAnnotations env b) \<noteq> None) = annotationsError env (MetadataPath b)"
  by (auto simp: loadAnnotations_def annotationsError_def Let_def split: sum.splits)

lemma loadAnnotations_frame:
  "loadAnnotations env b = (b1, e) \<Longrightarrow>
     Path b1 = Path b \<and> ManifestsPath b1 = ManifestsPath b \<and> MetadataPath b1 = MetadataPath b
     \<and> CSV b1 = CSV b \<and> CRDs b1 = CRDs b \<and> OtherResources b1 = OtherResources b"
  by (auto simp: loadAnnotations_def Let_def split: sum.splits if_splits)

lemma loadManifests_error:
  "(snd (loadManifests env b) \<noteq> None) =
     (IsNotExist (Stat env (ManifestsPath b)) \<or>
      (case ReadDir env (ManifestsPath b) of
         Inl err \<Rightarrow> True
       | Inr files \<Rightarrow> \<exists>f \<in> set files. isManifest f \<and>
           manifestError env (filepath_Join (ManifestsPath b) (de_Name f))))"
  using loadManifestFiles_error [of b "ManifestsPath b" env]
  by (auto simp: loadManifests_def split: sum.splits)

lemma LoadBundle_unfold:
  "LoadBundle env p =
     (case Abs env p of
        Inl err \<Rightarrow> (None, Some (wrap ''failed to resolve bundle path: '' err))
      | Inr absPath \<Rightarrow>
          if IsNotExist (Stat env absPath)
          then (None, Some (Err (''bundle path does not exist: '' @ absPath)))
          else (case loadAnnotations env (initialBundle absPath) of
               (b0, Some err) \<Rightarrow> (None, Some (wrap ''failed to load annotations: '' err))
             | (b1, None) \<Rightarrow>
                 (case loadManifests env b1 of
                    (b0, Some err) \<Rightarrow> (None, Some (wrap ''failed to load manifests: '' err))
                  | (b2, None) \<Rightarrow> (Some b2, None))))"
  unfolding LoadBundle_def initialBundle_def Let_def ..

lemma LoadBundle_shape:
  "(\<exists>e. LoadBundle env p = (None, Some e)) \<or> (\<exists>b. LoadBundle env p = (Some b, None))"
  by (auto simp: LoadBundle_unfold split: sum.splits prod.splits option.splits)

lemma LoadBundle_fails_iff:
  "(snd (LoadBundle env p) \<noteq> None) =
     (case Abs env p of
        Inl err \<Rightarrow> True
      | Inr a \<Rightarrow>
          IsNotExist (Stat env a) \<or>
          annotationsError env (filepath_Join a ''metadata'') \<or>
          IsNotExist (Stat env (filepath_Join a ''manifests'')) \<or>
          (case ReadDir env (filepath_Join a ''manifests'') of
             Inl err \<Rightarrow> True
           | Inr files \<Rightarrow> \<exists>f \<in> set files. isManifest f \<and>
               manifestError env (filepath_Join (filepath_Join a ''manifests'') (de_Name f))))"
proof (cases "Abs env p")
  case (Inl err)
  then show ?thesis by (simp add: LoadBundle_unfold)
next
  case (Inr a)
  obtain b1 e1 where la: "loadAnnotations env (initialBundle a) = (b1, e1)"
    by (cases "loadAnnotations env (initialBundle a)") auto
  have e1: "(e1 \<noteq> None) = annotationsError env (filepath_Join a ''metadata'')"
    using loadAnnotations_error [of env "initialBundle a"] la by (simp add: initialBundle_def)
  have m1: "ManifestsPath b1 = filepath_Join a ''manifests''"
    using loadAnnotations_frame [OF la] by (simp add: initialBundle_def)
  obtain b2 e2 where lm: "loadManifests env b1 = (b2, e2)"
    by (cases "loadManifests env b1") auto
  have e2: "(e2 \<noteq> None) =
     (IsNotExist (Stat env (filepath_Join a ''manifests'')) \<or>
      (case ReadDir env (filepath_Join a ''manifests'') of
         Inl err \<Rightarrow> True
       | Inr files \<Rightarrow> \<exists>f \<in> set files. isManifest f \<and>
           manifestError env (filepath_Join (filepath_Join a ''manifests'') (de_Name f))))"
    using loadManifests_error [of env b1] lm unfolding m1 by simp
  show ?thesis
  proof (cases "IsNotExist (Stat env a)")
    case True
    then show ?thesis using Inr by (simp add: LoadBundle_unfold)
  next
    case False
    show ?thesis
    proof (cases e1)
      case (Some err)
      then show ?thesis using Inr False la e1 by (simp add: LoadBundle_unfold)
    next
      case None
      then have na: "\<not> annotationsError env (filepath_Join a ''metadata'')"
        using e1 by simp
      show ?thesis
      proof (cases e2)
        case (Some err)
        then show ?thesis
          using Inr False la None lm e2 by (simp add: LoadBundle_unfold)
      next
        case n2: None
        then show ?thesis
          using Inr False la None lm e2 na by (simp add: LoadBundle_unfold)
      qed
    qed
  qed
qed

lemma LoadBundle_complete:
  assumes "LoadBundle env p = (Some b, None)"
  shows "\<exists>a files. Abs env p = Inr a
     \<and> ReadDir env (filepath_Join a ''manifests'') = Inr files
     \<and> Path b = a \<and> ManifestsPath b = filepath_Join a ''manifests''
     \<and> MetadataPath b = filepath_Join a ''metadata''
     \<and> map crd_FilePath (CRDs b) =
          filter (\<lambda>p. kindOf env p = Some ''CustomResourceDefinition'')
            (manifestPaths (filepath_Join a ''manifests'') files)
     \<and> map res_FilePath (OtherResources b) =
          filter (\<lambda>p. kindOf env p \<notin> {Some ''ClusterServiceVersion'', Some ''CustomResourceDefinition''})
            (manifestPaths (filepath_Join a ''manifests'') files)
     \<and> map_option csv_FilePath (CSV b) =
          lastCSV env None (manifestPaths (filepath_Join a ''manifests'') files)"
proof -
  obtain a where a: "Abs env p = Inr a"
    using assms by (cases "Abs env p") (auto simp: LoadBundle_unfold)
  have ne: "\<not> IsNotExist (Stat env a)"
    using assms a by (auto simp: LoadBundle_unfold split: if_splits)
  obtain b1 where la: "loadAnnotations env (initialBundle a) = (b1, None)"
    using assms a ne by (auto simp: LoadBundle_unfold split: prod.splits option.splits)
  have lm: "loadManifests env b1 = (b, None)"
    using assms a ne la by (auto simp: LoadBundle_unfold split: prod.splits option.splits)
  have fr: "Path b1 = a" "ManifestsPath b1 = filepath_Join a ''manifests''"
    "MetadataPath b1 = filepath_Join a ''metadata''" "CSV b1 = None" "CRDs b1 = []"
    "OtherResources b1 = []"
    using loadAnnotations_frame [OF la] by (simp_all add: initialBundle_def)
  obtain files where rd: "ReadDir env (filepath_Join a ''manifests'') = Inr files"
    and lf: "loadManifestFiles env b1 files = (b, None)"
    using lm fr(2) by (auto simp: loadManifests_def split: if_splits sum.splits)
  show ?thesis
    using loadManifestFiles_ok [OF fr(2) lf] a rd fr by simp
qed

lemma loadManifestFile_decoded:
  assumes "loadManifestFile env b path = (b1, None)"
  shows "map Some (CRDs b1) =
           map Some (CRDs b) @
           (if kindOf env path = Some ''CustomResourceDefinition'' then [decodedCRD env path] else [])"
    and "map Some (OtherResources b1) =
           map Some (OtherResources b) @
           (if kindOf env path \<notin> {Some ''ClusterServiceVersion'', Some ''CustomResourceDefinition''}
            then [decodedResource env path] else [])"
    and "CSV b1 = (if kindOf env path = Some ''ClusterServiceVersion'' then decodedCSV env path else CSV b)"
    and "kindOf env path = Some ''ClusterServiceVersion'' \<Longrightarrow> decodedCSV env path \<noteq> None"
  using assms
  by (auto simp: loadManifestFile_def kindOf_def parseCSV_def parseCRD_def parseResource_def
      decodedCRD_def decodedCSV_def decodedResource_def
      split: sum.splits prod.splits option.splits if_splits)

lemma lastCSV_cur:
  "lastCSV env cur ps = (case lastCSV env None ps of None \<Rightarrow> cur | Some q \<Rightarrow> Some q)"
proof (induction ps arbitrary: cur)
  case Nil
  show ?case by simp
next
  case (Cons p ps)
  show ?case
    using Cons.IH [of "if kindOf env p = Some ''ClusterServiceVersion'' then Some p else cur"]
      Cons.IH [of "if kindOf env p = Some ''ClusterServiceVersion'' then Some p else None"]
    by (simp split: option.splits)
qed

lemma loadManifestFiles_decoded:
  "ManifestsPath b = dir \<Longrightarrow> loadManifestFiles env b files = (b', None) \<Longrightarrow>
   map Some (CRDs b') = map Some (CRDs b) @
        map (decodedCRD env)
          (filter (\<lambda>p. kindOf env p = Some ''CustomResourceDefinition'') (manifestPaths dir files))
   \<and> map Some (OtherResources b') = map Some (OtherResources b) @
        map (decodedResource env)
          (filter (\<lambda>p. kindOf env p \<notin> {Some ''ClusterServiceVersion'', Some ''CustomResourceDefinition''})
            (manifestPaths dir files))
   \<and> CSV b' =
        (case lastCSV env None (manifestPaths dir files) of
           None \<Rightarrow> CSV b
         | Some p \<Rightarrow> decodedCSV env p)
   \<and> (\<forall>p. lastCSV env None (manifestPaths dir files) = Some p \<longrightarrow> decodedCSV env p \<noteq> None)"
proof (induction files arbitrary: b)
  case Nil
  then show ?case by (simp add: manifestPaths_def)
next
  case (Cons entry files)
  show ?case
  proof (cases "isManifest entry")
    case False
    then have "loadManifestFiles env b files = (b', None)"
      using Cons.prems by (simp add: loadManifestFiles_skip)
    then show ?thesis
      using Cons.IH [OF Cons.prems(1)] False by (simp add: manifestPaths_def)
  next
    case True
    let ?p = "filepath_Join dir (de_Name entry)"
    obtain b1 e where l: "loadManifestFile env b ?p = (b1, e)"
      by (cases "loadManifestFile env b ?p") auto
    have e: "e = None"
      using Cons.prems True l by (cases e) (simp_all add: loadManifestFiles_step)
    have rest: "loadManifestFiles env b1 files = (b', None)"
      using Cons.prems True l e by (simp add: loadManifestFiles_step)
    have fr: "ManifestsPath b1 = dir"
      using loadManifestFile_frame [OF l] Cons.prems by simp
    note step = loadManifestFile_decoded [OF l [unfolded e]]
    have mp: "manifestPaths dir (entry # files) = ?p # manifestPaths dir files"
      using True by (simp add: manifestPaths_def)
    note ih = Cons.IH [OF fr rest]
    have crd: "map Some (CRDs b') = map Some (CRDs b) @
        map (decodedCRD env)
          (filter (\<lambda>p. kindOf env p = Some ''CustomResourceDefinition'') (manifestPaths dir (entry # files)))"
      using ih step(1) by (simp add: mp)
    have res: "map Some (OtherResources b') = map Some (OtherResources b) @
        map (decodedResource env)
          (filter (\<lambda>p. kindOf env p \<notin> {Some ''ClusterServiceVersion'', Some ''CustomResourceDefinition''})
            (manifestPaths dir (entry # files)))"
      using ih step(2) by (simp add: mp)
    have lc: "lastCSV env None (manifestPaths dir (entry # files)) =
        (case lastCSV env None (manifestPaths dir files) of
           None \<Rightarrow> (if kindOf env ?p = Some ''ClusterServiceVersion'' then Some ?p else None)
         | Some q \<Rightarrow> Some q)"
      unfolding mp lastCSV.simps
      by (rule lastCSV_cur)
    have csv: "CSV b' =
        (case lastCSV env None (manifestPaths dir (entry # files)) of
           None \<Rightarrow> CSV b
         | Some p \<Rightarrow> decodedCSV env p)"
      using ih step(3) unfolding lc by (simp split: option.splits)
    have ne: "\<forall>p. lastCSV env None (manifestPaths dir (entry # files)) = Some p \<longrightarrow> decodedCSV env p \<noteq> None"
      using ih step(4) unfolding lc by (auto split: option.splits if_splits)
    show ?thesis
      using crd res csv ne by simp
  qed
qed

lemma loadAnnotations_decoded:
  "loadAnnotations env b = (b1, None) \<Longrightarrow> Annotations b = None \<Longrightarrow>
   Annotations b1 = decodedAnnotations env (MetadataPath b)"
  by (auto simp: loadAnnotations_def decodedAnnotations_def Let_def split: sum.splits if_splits)

lemma LoadBundle_decoded:
  assumes "LoadBundle env p = (Some b, None)"
  shows "\<exists>a files. Abs env p = Inr a
     \<and> ReadDir env (filepath_Join a ''manifests'') = Inr files
     \<and> Annotations b = decodedAnnotations env (filepath_Join a ''metadata'')
     \<and> map Some (CRDs b) =
          map (decodedCRD env)
            (filter (\<lambda>p. kindOf env p = Some ''CustomResourceDefinition'')
              (manifestPaths (filepath_Join a ''manifests'') files))
     \<and> map Some (OtherResources b) =
          map (decodedResource env)
            (filter (\<lambda>p. kindOf env p \<notin> {Some ''ClusterServiceVersion'', Some ''CustomResourceDefinition''})
              (manifestPaths (filepath_Join a ''manifests'') files))
     \<and> CSV b =
          (case lastCSV env None (manifestPaths (filepath_Join a ''manifests'') files) of
             None \<Rightarrow> None
           | Some p \<Rightarrow> decodedCSV env p)
     \<and> (\<forall>p. lastCSV env None (manifestPaths (filepath_Join a ''manifests'') files) = Some p \<longrightarrow>
           decodedCSV env p \<noteq> None)"
proof -
  obtain a where a: "Abs env p = Inr a"
    using assms by (cases "Abs env p") (auto simp: LoadBundle_unfold)
  have ne: "\<not> IsNotExist (Stat env a)"
    using assms a by (auto simp: LoadBundle_unfold split: if_splits)
  obtain b1 where la: "loadAnnotations env (initialBundle a) = (b1, None)"
    using assms a ne by (auto simp: LoadBundle_unfold split: prod.splits option.splits)
  have lm: "loadManifests env b1 = (b, None)"
    using assms a ne la by (auto simp: LoadBundle_unfold split: prod.splits option.splits)
  have fr: "ManifestsPath b1 = filepath_Join a ''manifests''" "CSV b1 = None" "CRDs b1 = []"
    "OtherResources b1 = []"
    using loadAnnotations_frame [OF la] by (simp_all add: initialBundle_def)
  have an: "Annotations b1 = decodedAnnotations env (filepath_Join a ''metadata'')"
    using loadAnnotations_decoded [OF la] by (simp add: initialBundle_def)
  obtain files where rd: "ReadDir env (filepath_Join a ''manifests'') = Inr files"
    and lf: "loadManifestFiles env b1 files = (b, None)"
    using lm fr(1) by (auto simp: loadManifests_def split: if_splits sum.splits)
  have an2: "Annotations b = Annotations b1"
    using loadManifestFiles_ok [OF fr(1) lf] by simp
  note d = loadManifestFiles_decoded [OF fr(1) lf, unfolded fr(2,3,4)]
  show ?thesis
    using d a rd an an2 by simp
qed

text \<open>
  Claim C7. \<open>LoadBundle\<close> returns either an error and no bundle, or a bundle and no error.
  It returns the error exactly when the path cannot be resolved, the root does not exist,
  the annotations file exists and cannot be read or decoded, the manifests directory does
  not exist or cannot be listed, or some manifest cannot be read or decoded. A bundle it
  returns is complete: its three paths are set; its annotations are those decoded from
  the annotations file, or absent when there is no such file; and every manifest of the
  directory is in it as decoded from its file, the manifests of kind
  CustomResourceDefinition in \<open>CRDs\<close>, the last one of kind ClusterServiceVersion as the
  CSV, all others in \<open>OtherResources\<close>, in the order of the directory. When the load
  fails, \<open>main\<close> exits with status 1 and has run no rule: standard output holds the first
  line only.
\<close>

theorem load_bundle_all_or_nothing:
  "((\<exists>e. LoadBundle env p = (None, Some e)) \<or> (\<exists>b. LoadBundle env p = (Some b, None)))
   \<and> (fst (LoadBundle env p) = None) =
       (case Abs env p of
          Inl err \<Rightarrow> True
        | Inr a \<Rightarrow>
            IsNotExist (Stat env a) \<or>
            annotationsError env (filepath_Join a ''metadata'') \<or>
            IsNotExist (Stat env (filepath_Join a ''manifests'')) \<or>
            (case ReadDir env (filepath_Join a ''manifests'') of
               Inl err \<Rightarrow> True
             | Inr files \<Rightarrow> \<exists>f \<in> set files. isManifest f \<and>
                 manifestError env (filepath_Join (filepath_Join a ''manifests'') (de_Name f))))
   \<and> (LoadBundle env p = (Some b, None) \<longrightarrow>
       (\<exists>a files. Abs env p = Inr a
         \<and> ReadDir env (filepath_Join a ''manifests'') = Inr files
         \<and> Path b = a \<and> ManifestsPath b = filepath_Join a ''manifests''
         \<and> MetadataPath b = filepath_Join a ''metadata''
         \<and> Annotations b = decodedAnnotations env (filepath_Join a ''metadata'')
         \<and> map Some (CRDs b) =
              map (decodedCRD env)
                (filter (\<lambda>p. kindOf env p = Some ''CustomResourceDefinition'')
                  (manifestPaths (filepath_Join a ''manifests'') files))
         \<and> map Some (OtherResources b) =
              map (decodedResource env)
                (filter (\<lambda>p. kindOf env p \<notin> {Some ''ClusterServiceVersion'', Some ''CustomResourceDefinition''})
                  (manifestPaths (filepath_Join a ''manifests'') files))
         \<and> CSV b =
              (case lastCSV env None (manifestPaths (filepath_Join a ''manifests'') files) of
                 None \<Rightarrow> None
               | Some p \<Rightarrow> decodedCSV env p)
         \<and> (\<forall>p. lastCSV env None (manifestPaths (filepath_Join a ''manifests'') files) = Some p \<longrightarrow>
               decodedCSV env p \<noteq> None)
         \<and> map crd_FilePath (CRDs b) =
              filter (\<lambda>p. kindOf env p = Some ''CustomResourceDefinition'')
                (manifestPaths (filepath_Join a ''manifests'') files)
         \<and> map res_FilePath (OtherResources b) =
              filter (\<lambda>p. kindOf env p \<notin> {Some ''ClusterServiceVersion'', Some ''CustomResourceDefinition''})
                (manifestPaths (filepath_Join a ''manifests'') files)
         \<and> map_option csv_FilePath (CSV b) =
              lastCSV env None (manifestPaths (filepath_Join a ''manifests'') files)))
   \<and> (fst (LoadBundle env p) = None \<longrightarrow>
        main env pdq stdout enable disable noWarnings p =
          Inr (1, fst (Fprint stdout (''Loading bundle from: '' @ p @ nl))))"
proof -
  have s: "(fst (LoadBundle env p) = None) = (snd (LoadBundle env p) \<noteq> None)"
    using LoadBundle_shape [of env p] by auto
  have c: "\<exists>a files. Abs env p = Inr a
         \<and> ReadDir env (filepath_Join a ''manifests'') = Inr files
         \<and> Path b = a \<and> ManifestsPath b = filepath_Join a ''manifests''
         \<and> MetadataPath b = filepath_Join a ''metadata''
         \<and> Annotations b = decodedAnnotations env (filepath_Join a ''metadata'')
         \<and> map Some (CRDs b) =
              map (decodedCRD env)
                (filter (\<lambda>p. kindOf env p = Some ''CustomResourceDefinition'')
                  (manifestPaths (filepath_Join a ''manifests'') files))
         \<and> map Some (OtherResources b) =
              map (decodedResource env)
                (filter (\<lambda>p. kindOf env p \<notin> {Some ''ClusterServiceVersion'', Some ''CustomResourceDefinition''})
                  (manifestPaths (filepath_Join a ''manifests'') files))
         \<and> CSV b =
              (case lastCSV env None (manifestPaths (filepath_Join a ''manifests'') files) of
                 None \<Rightarrow> None
               | Some p \<Rightarrow> decodedCSV env p)
         \<and> (\<forall>p. lastCSV env None (manifestPaths (filepath_Join a ''manifests'') files) = Some p \<longrightarrow>
               decodedCSV env p \<noteq> None)
         \<and> map crd_FilePath (CRDs b) =
              filter (\<lambda>p. kindOf env p = Some ''CustomResourceDefinition'')
                (manifestPaths (filepath_Join a ''manifests'') files)
         \<and> map res_FilePath (OtherResources b) =
              filter (\<lambda>p. kindOf env p \<notin> {Some ''ClusterServiceVersion'', Some ''CustomResourceDefinition''})
                (manifestPaths (filepath_Join a ''manifests'') files)
         \<and> map_option csv_FilePath (CSV b) =
              lastCSV env None (manifestPaths (filepath_Join a ''manifests'') files)"
    if ok: "LoadBundle env p = (Some b, None)"
  proof -
    obtain a files where 1: "Abs env p = Inr a"
      "ReadDir env (filepath_Join a ''manifests'') = Inr files"
      "Path b = a \<and> ManifestsPath b = filepath_Join a ''manifests''
        \<and> MetadataPath b = filepath_Join a ''metadata''
        \<and> map crd_FilePath (CRDs b) =
              filter (\<lambda>p. kindOf env p = Some ''CustomResourceDefinition'')
                (manifestPaths (filepath_Join a ''manifests'') files)
         \<and> map res_FilePath (OtherResources b) =
              filter (\<lambda>p. kindOf env p \<notin> {Some ''ClusterServiceVersion'', Some ''CustomResourceDefinition''})
                (manifestPaths (filepath_Join a ''manifests'') files)
         \<and> map_option csv_FilePath (CSV b) =
              lastCSV env None (manifestPaths (filepath_Join a ''manifests'') files)"
      using LoadBundle_complete [OF ok] by blast
    obtain a' files' where 2: "Abs env p = Inr a'"
      "ReadDir env (filepath_Join a' ''manifests'') = Inr files'"
      "Annotations b = decodedAnnotations env (filepath_Join a' ''metadata'')
         \<and> map Some (CRDs b) =
              map (decodedCRD env)
                (filter (\<lambda>p. kindOf env p = Some ''CustomResourceDefinition'')
                  (manifestPaths (filepath_Join a' ''manifests'') files'))
         \<and> map Some (OtherResources b) =
              map (decodedResource env)
                (filter (\<lambda>p. kindOf env p \<notin> {Some ''ClusterServiceVersion'', Some ''CustomResourceDefinition''})
                  (manifestPaths (filepath_Join a' ''manifests'') files'))
         \<and> CSV b =
              (case lastCSV env None (manifestPaths (filepath_Join a' ''manifests'') files') of
                 None \<Rightarrow> None
               | Some p \<Rightarrow> decodedCSV env p)
         \<and> (\<forall>p. lastCSV env None (manifestPaths (filepath_Join a' ''manifests'') files') = Some p \<longrightarrow>
               decodedCSV env p \<noteq> None)"
      using LoadBundle_decoded [OF ok] by blast
    have e: "a' = a" using 1(1) 2(1) by simp
    have f: "files' = files" using 1(2) 2(2) e by simp
    show ?thesis
      using 1 2(3) unfolding e f by blast
  qed
  have m: "main env pdq stdout enable disable noWarnings p =
      Inr (1, fst (Fprint stdout (''Loading bundle from: '' @ p @ nl)))"
    if h: "snd (LoadBundle env p) \<noteq> None"
  proof -
    obtain e where "LoadBundle env p = (None, Some e)"
      using LoadBundle_shape [of env p] h by auto
    then show ?thesis by (simp add: main_def Let_def)
  qed
  show ?thesis
    using LoadBundle_shape [of env p] LoadBundle_fails_iff [of env p] c m
    unfolding s by blast
qed

lemma LoadBundle_noManifests:
  "LoadBundle noManifestsEnv ''/b'' =
     (None, Some (Err ''failed to load manifests: manifests directory not found: /b/manifests''))"
  by (simp add: LoadBundle_def noManifestsEnv_def exampleEnv_def Let_def example_paths
      loadAnnotations_def loadManifests_def)

lemma LoadBundle_badManifest:
  "LoadBundle badManifestEnv ''/b'' =
     (None, Some (Err ''failed to load manifests: failed to load manifest pdb.yaml: failed to parse YAML: yaml: cannot decode''))"
  by (simp add: LoadBundle_def badManifestEnv_def exampleEnv_def Let_def example_paths
      loadAnnotations_def loadManifests_def example_suffixes loadManifestFile_def
      loadManifestFiles.simps)

lemma LoadBundle_full: "LoadBundle fullEnv ''/b'' = (Some fullBundle, None)"
  by (simp add: LoadBundle_def fullEnv_def Let_def example_paths full_paths loadAnnotations_def
      loadManifests_def example_suffixes full_suffixes loadManifestFile_def loadManifestFiles.simps
      parseCSV_def parseCRD_def parseResource_def fullBundle_def getString_def channels_example
      webhookCSV_def exampleCRD_def pdbResource_def)


lemma decoded_full:
  "decodedAnnotations fullEnv ''/b/metadata'' = Annotations fullBundle"
  "decodedCRD fullEnv ''/b/manifests/crd.yaml'' = Some exampleCRD"
  "decodedCSV fullEnv ''/b/manifests/op.clusterserviceversion.yaml'' = Some webhookCSV"
  "decodedResource fullEnv ''/b/manifests/pdb.yaml'' =
     Some (pdbResource ''PodDisruptionBudget'' (VString ''0%''))"
  by (simp_all add: decodedAnnotations_def decodedCRD_def decodedCSV_def decodedResource_def
      fullEnv_def fullBundle_def example_paths getString_def channels_example Let_def
      webhookCSV_def exampleCRD_def pdbResource_def)

theorem load_bundle_examples:
  "LoadBundle fullEnv ''/b'' = (Some fullBundle, None)
   \<and> Annotations fullBundle = decodedAnnotations fullEnv ''/b/metadata''
   \<and> map_option Channels (Annotations fullBundle) = Some [''alpha'', ''stable'']
   \<and> CSV fullBundle = decodedCSV fullEnv ''/b/manifests/op.clusterserviceversion.yaml''
   \<and> CRDs fullBundle = [exampleCRD]
   \<and> decodedCRD fullEnv ''/b/manifests/crd.yaml'' = Some exampleCRD
   \<and> OtherResources fullBundle = [pdbResource ''PodDisruptionBudget'' (VString ''0%'')]
   \<and> decodedResource fullEnv ''/b/manifests/pdb.yaml'' =
       Some (pdbResource ''PodDisruptionBudget'' (VString ''0%''))
   \<and> LoadBundle exampleEnv ''/b'' =
       (Some (bundleOf [pdbResource ''PodDisruptionBudget'' (VString ''0%'')]), None)
   \<and> IsNotExist (Stat noManifestsEnv (filepath_Join ''/b'' ''manifests''))
   \<and> LoadBundle noManifestsEnv ''/b'' =
     (None, Some (Err ''failed to load manifests: manifests directory not found: /b/manifests''))
   \<and> manifestError badManifestEnv ''/b/manifests/pdb.yaml''
   \<and> LoadBundle badManifestEnv ''/b'' =
     (None, Some (Err ''failed to load manifests: failed to load manifest pdb.yaml: failed to parse YAML: yaml: cannot decode''))
   \<and> main noManifestsEnv insertionSort stdout0 [] [] False ''/b'' =
       Inr (1, \<lparr>written = ''Loading bundle from: /b'' @ nl, broken = False\<rparr>)"
proof -
  have "\<exists>a files. Abs fullEnv ''/b'' = Inr a
      \<and> Annotations fullBundle = decodedAnnotations fullEnv (filepath_Join a ''metadata'')"
    using load_bundle_all_or_nothing [of fullEnv "''/b''" fullBundle] LoadBundle_full by blast
  then have a: "Annotations fullBundle = decodedAnnotations fullEnv ''/b/metadata''"
    by (auto simp: fullEnv_def example_paths)
  have n: "fst (LoadBundle noManifestsEnv ''/b'') = None"
    using load_bundle_all_or_nothing [of noManifestsEnv "''/b''"]
    by (simp add: noManifestsEnv_def exampleEnv_def example_paths)
  have x: "main noManifestsEnv insertionSort stdout0 [] [] False ''/b'' =
       Inr (1, \<lparr>written = ''Loading bundle from: /b'' @ nl, broken = False\<rparr>)"
    using load_bundle_all_or_nothing [of noManifestsEnv "''/b''" _ insertionSort stdout0 "[]" "[]" False] n
    by (simp add: Fprint_def stdout0_def)
  have m: "manifestError badManifestEnv ''/b/manifests/pdb.yaml''"
    by (simp add: manifestError_def badManifestEnv_def exampleEnv_def)
  have s: "IsNotExist (Stat noManifestsEnv (filepath_Join ''/b'' ''manifests''))"
    by (simp add: noManifestsEnv_def exampleEnv_def example_paths)
  have f: "map_option Channels (Annotations fullBundle) = Some [''alpha'', ''stable'']"
    "CRDs fullBundle = [exampleCRD]"
    "OtherResources fullBundle = [pdbResource ''PodDisruptionBudget'' (VString ''0%'')]"
    "CSV fullBundle = Some webhookCSV"
    by (simp_all add: fullBundle_def)
  show ?thesis
    using a n m s f x LoadBundle_full LoadBundle_example LoadBundle_noManifests LoadBundle_badManifest
      decoded_full(2,3,4)
    by simp
qed

subsection \<open>The order of the report\<close>

text \<open>The rules return violations of their own severity, one of the three constants.\<close>

lemma foldl_all:
  assumes "\<And>acc x. \<forall>v \<in> set acc. P v \<Longrightarrow> \<forall>v \<in> set (step acc x). P v"
    and "\<forall>v \<in> set acc. P v"
  shows "\<forall>v \<in> set (foldl step acc xs). P v"
  using assms(2)
proof (induction xs arbitrary: acc)
  case Nil
  then show ?case by simp
next
  case (Cons x xs)
  have "\<forall>v \<in> set (step acc x). P v"
    using assms(1) Cons.prems by blast
  then show ?case
    using Cons.IH [of "step acc x"] by simp
qed

lemma olm002Violation_severity: "Severity (olm002Violation m f d) = SeverityError"
  by (simp add: olm002Violation_def)

lemma olm002Rule_all:
  "\<forall>v \<in> set acc. Severity v = SeverityError \<Longrightarrow>
   \<forall>v \<in> set (olm002Rule csv webhook acc rule). Severity v = SeverityError"
  by (simp add: olm002Rule_def Let_def olm002Violation_severity)

lemma olm002Webhook_all:
  assumes "\<forall>v \<in> set acc. Severity v = SeverityError"
  shows "\<forall>v \<in> set (olm002Webhook csv acc webhook). Severity v = SeverityError"
proof (cases "wd_Type webhook = ''ConversionWebhook''")
  case True
  then show ?thesis using assms by (simp add: olm002Webhook_def)
next
  case False
  have "\<forall>v \<in> set (foldl (olm002Rule csv webhook) acc (Rules webhook)). Severity v = SeverityError"
    using olm002Rule_all assms by (rule foldl_all)
  then show ?thesis using False by (simp add: olm002Webhook_def)
qed

lemma olm002_all:
  "\<forall>v \<in> set (foldl (olm002Webhook csv) [] ws). Severity v = SeverityError"
  by (rule foldl_all [OF olm002Webhook_all]) simp_all

lemma olm010_all:
  "olm010CRDs c acc crds = Inr vs \<Longrightarrow> \<forall>v \<in> set acc. Severity v = SeverityError \<Longrightarrow>
   \<forall>v \<in> set vs. Severity v = SeverityError"
proof (induction crds arbitrary: acc)
  case Nil
  then show ?case by simp
next
  case (Cons crd crds)
  show ?case
  proof (cases "Plural (Names (crd_Spec crd)) @ ''.'' @ Group (crd_Spec crd) \<in> set c
      \<and> PreserveUnknownFields (crd_Spec crd) = Some True")
    case True
    define v where "v = olm010Violation (Plural (Names (crd_Spec crd)) @ ''.'' @ Group (crd_Spec crd)) crd"
    have v: "Severity v = SeverityError"
      by (simp add: v_def olm010Violation_def)
    have s: "olm010CRDs c acc (crd # crds) = olm010CRDs c (acc @ [v]) crds"
      using True by (simp add: Let_def v_def)
    have "\<forall>x \<in> set (acc @ [v]). Severity x = SeverityError"
      using Cons.prems(2) v by simp
    then show ?thesis
      using Cons.IH [of "acc @ [v]"] Cons.prems(1) s by simp
  next
    case False
    then have "olm010CRDs c acc (crd # crds) = olm010CRDs c acc crds"
      by (cases "PreserveUnknownFields (crd_Spec crd)") (auto simp: Let_def)
    then show ?thesis
      using Cons.IH [of acc] Cons.prems by simp
  qed
qed

lemma Rule_Validate_severity:
  assumes "Rule_Validate r b = Inr vs"
  shows "\<forall>v \<in> set vs. Severity v = Rule_Severity r"
proof (cases r)
  case MinKubeVersionRule
  then show ?thesis using assms
    by (cases "CSV b") (auto simp: MinKubeVersionRule_Validate_def split: if_splits)
next
  case WebhookOperatorResourcesRule
  then show ?thesis using assms olm002_all
    by (cases "CSV b") (auto simp: WebhookOperatorResourcesRule_Validate_def)
next
  case ConversionWebhookAllNamespacesRule
  then show ?thesis using assms
    by (cases "CSV b") (auto simp: ConversionWebhookAllNamespacesRule_Validate_def split: if_splits)
next
  case PDBMaxUnavailableRule
  have "\<forall>v \<in> set (foldl olm004Resource [] (OtherResources b)). Severity v = SeverityError"
    by (rule foldl_all) (auto simp: olm004Resource_def olm004Violation_def split: option.splits)
  then show ?thesis using assms PDBMaxUnavailableRule
    by (auto simp: PDBMaxUnavailableRule_Validate_def)
next
  case PDBMinAvailableRule
  have "\<forall>v \<in> set (foldl olm005Resource [] (OtherResources b)). Severity v = SeverityError"
    by (rule foldl_all) (auto simp: olm005Resource_def olm005Violation_def split: option.splits)
  then show ?thesis using assms PDBMinAvailableRule
    by (auto simp: PDBMinAvailableRule_Validate_def)
next
  case PriorityClassGlobalDefaultRule
  have "\<forall>v \<in> set (foldl olm006Resource [] (OtherResources b)). Severity v = SeverityError"
    by (rule foldl_all) (auto simp: olm006Resource_def olm006Violation_def split: option.splits)
  then show ?thesis using assms PriorityClassGlobalDefaultRule
    by (auto simp: PriorityClassGlobalDefaultRule_Validate_def)
next
  case ChannelNamingRule
  have "\<And>ann. \<forall>v \<in> set (foldl (olm007Channel ann) [] (Channels ann)). Severity v = SeverityWarning"
    by (rule foldl_all) (auto simp: olm007Channel_def)
  then show ?thesis using assms ChannelNamingRule
    by (cases "Annotations b") (auto simp: ChannelNamingRule_Validate_def)
next
  case ConversionPreserveUnknownFieldsRule
  then show ?thesis using assms olm010_all [of _ "[]" "CRDs b" vs]
    by (cases "CSV b") (auto simp: ConversionPreserveUnknownFieldsRule_Validate_def Let_def split: if_splits)
qed

lemma Rule_Severity_known: "knownSeverity (Rule_Severity r)"
  by (cases r) (simp_all add: knownSeverity_def)

lemma ValidateBundleFrom_known:
  "ValidateBundleFrom acc b rs = Inr vs \<Longrightarrow> \<forall>v \<in> set acc. knownSeverity (Severity v) \<Longrightarrow>
   \<forall>v \<in> set vs. knownSeverity (Severity v)"
proof (induction rs arbitrary: acc)
  case Nil
  then show ?case by simp
next
  case (Cons r rs)
  obtain ws where w: "Rule_Validate r b = Inr ws"
    using Cons.prems(1) by (cases "Rule_Validate r b") auto
  have "\<forall>v \<in> set (acc @ ws). knownSeverity (Severity v)"
    using Cons.prems(2) Rule_Validate_severity [OF w] Rule_Severity_known [of r] by auto
  then show ?case
    using Cons.IH [of "acc @ ws"] Cons.prems(1) w by simp
qed

lemma ValidateBundle_known:
  "ValidateBundle b rs = Inr vs \<Longrightarrow> \<forall>v \<in> set vs. knownSeverity (Severity v)"
  using ValidateBundleFrom_known [of "[]" b rs vs] by (simp add: ValidateBundle_def)

lemma insertionInner_insr:
  "length pre = j \<Longrightarrow>
   insertionInner lt (pre @ x # post) j = rev (insr lt x (rev pre)) @ post"
proof (induction j arbitrary: pre post)
  case 0
  then show ?case by simp
next
  case (Suc j)
  then obtain pre' y where p: "pre = pre' @ [y]" "length pre' = j"
    by (metis length_Suc_conv_rev)
  have n1: "(pre' @ y # x # post) ! Suc j = x"
    using p(2) by (simp add: nth_append)
  have n2: "(pre' @ y # x # post) ! j = y"
    using p(2) by (simp add: nth_append)
  have sw: "Swap (pre' @ y # x # post) (Suc j) j = pre' @ x # y # post"
    using p(2) by (simp add: Swap_def n1 n2 list_update_append)
  show ?case
    using Suc.IH [OF p(2), of "y # post"] p n1 n2 sw by simp
qed

lemma insr_length: "length (insr lt x r) = Suc (length r)"
  by (induction r) auto

lemma insertion_fold_insr:
  "length pre = i \<Longrightarrow>
   foldl (insertionInner lt) (pre @ post) [i..<i + length post] =
     rev (foldl (\<lambda>r x. insr lt x r) (rev pre) post)"
proof (induction post arbitrary: pre i)
  case Nil
  then show ?case by simp
next
  case (Cons x post)
  have "[i..<Suc (i + length post)] = i # [Suc i..<Suc (i + length post)]"
    by (rule upt_conv_Cons) simp
  then have u: "[i..<i + length (x # post)] = i # [Suc i..<Suc i + length post]"
    by simp
  have l: "length (rev (insr lt x (rev pre))) = Suc i"
    using Cons.prems by (simp add: insr_length)
  have "foldl (insertionInner lt) (pre @ x # post) [i..<i + length (x # post)] =
      foldl (insertionInner lt) (insertionInner lt (pre @ x # post) i) [Suc i..<Suc i + length post]"
    by (simp only: u foldl_Cons)
  also have "\<dots> = foldl (insertionInner lt) (rev (insr lt x (rev pre)) @ post) [Suc i..<Suc i + length post]"
    using Cons.prems by (simp only: insertionInner_insr)
  also have "\<dots> = rev (foldl (\<lambda>r x. insr lt x r) (rev (rev (insr lt x (rev pre)))) post)"
    by (rule Cons.IH [OF l])
  finally show ?case
    by (simp only: rev_rev_ident foldl_Cons)
qed

lemma insertionSort_insr: "insertionSort lt xs = rev (foldl (\<lambda>r x. insr lt x r) [] xs)"
proof (cases xs)
  case Nil
  then show ?thesis by (simp add: insertionSort_def)
next
  case (Cons x rest)
  have "foldl (insertionInner lt) ([x] @ rest) [1..<1 + length rest] =
      rev (foldl (\<lambda>r x. insr lt x r) (rev [x]) rest)"
    by (rule insertion_fold_insr) simp
  then show ?thesis using Cons by (simp add: insertionSort_def)
qed

lemma set_insr: "set (insr lt x r) = insert x (set r)"
  by (induction r) auto

lemma insr_sorted:
  fixes k :: "'a \<Rightarrow> 'k::linorder"
  assumes "\<forall>y \<in> set r. lt x y = (k x < k y)" and "sorted (rev (map k r))"
  shows "sorted (rev (map k (insr lt x r)))"
  using assms
proof (induction r)
  case Nil
  then show ?case by simp
next
  case (Cons y r)
  then show ?case
    by (auto simp: sorted_append set_insr)
qed

lemma fold_insr_sorted:
  fixes k :: "'a \<Rightarrow> 'k::linorder"
  assumes "\<forall>x \<in> set r \<union> set xs. \<forall>y \<in> set r \<union> set xs. lt x y = (k x < k y)"
    and "sorted (rev (map k r))"
  shows "sorted (rev (map k (foldl (\<lambda>r x. insr lt x r) r xs)))"
  using assms
proof (induction xs arbitrary: r)
  case Nil
  then show ?case by simp
next
  case (Cons x xs)
  have s: "sorted (rev (map k (insr lt x r)))"
    using Cons.prems by (intro insr_sorted) auto
  have a: "\<forall>a \<in> set (insr lt x r) \<union> set xs. \<forall>b \<in> set (insr lt x r) \<union> set xs. lt a b = (k a < k b)"
    using Cons.prems(1) by (auto simp: set_insr)
  show ?case
    using Cons.IH [OF a s] by simp
qed

lemma insertionSort_sorted:
  fixes k :: "'a \<Rightarrow> 'k::linorder"
  assumes "\<forall>x \<in> set xs. \<forall>y \<in> set xs. lt x y = (k x < k y)"
  shows "sorted (map k (insertionSort lt xs))"
  using fold_insr_sorted [of "[]" xs lt k] assms
  by (simp add: insertionSort_insr rev_map)


lemma Report_fst:
  "fst (Report pdq w vs) = (if vs = [] then vs else sort_Slice pdq violationLess vs)"
  by (simp add: Report_def Let_def split: prod.splits)

lemma severityWeight_known:
  "knownSeverity a \<Longrightarrow> knownSeverity b \<Longrightarrow> (severityWeight a = severityWeight b) = (a = b)"
  by (auto simp: knownSeverity_def SeverityError_def SeverityWarning_def SeverityInfo_def)

lemma violationLess_sortKey:
  "knownSeverity (Severity a) \<Longrightarrow> knownSeverity (Severity b) \<Longrightarrow>
   violationLess a b = (sortKey a < sortKey b)"
  using severityWeight_known [of "Severity a" "Severity b"]
  by (auto simp: violationLess_def sortKey_def less_prod_def less_eq_prod_def)

lemma orderedBefore_sortKey: "orderedBefore a b = (sortKey a \<le> sortKey b)"
  by (auto simp: orderedBefore_def sortKey_def less_eq_prod_def)

lemma sorted_wrt_orderedBefore: "sorted_wrt orderedBefore xs = sorted (map sortKey xs)"
  by (simp add: sorted_map orderedBefore_sortKey [abs_def])

lemma sortKey_eq:
  "knownSeverity (Severity a) \<Longrightarrow> knownSeverity (Severity b) \<Longrightarrow> sortKey a = sortKey b \<Longrightarrow>
   (Severity a, File a, RuleID a) = (Severity b, File b, RuleID b)"
  using severityWeight_known [of "Severity a" "Severity b"] by (simp add: sortKey_def)

lemma sort_Slice_sorted:
  assumes "sortsViolations pdq" and "\<forall>v \<in> set vs. knownSeverity (Severity v)"
  shows "sorted (map sortKey (sort_Slice pdq violationLess vs))"
proof (cases "length vs \<le> 12")
  case True
  have "sorted (map sortKey (insertionSort violationLess vs))"
    using assms(2) by (intro insertionSort_sorted) (simp add: violationLess_sortKey)
  then show ?thesis using True by (simp add: sort_Slice_def)
next
  case False
  then show ?thesis
    using assms by (simp add: sort_Slice_def sortsViolations_def sorted_wrt_orderedBefore)
qed

lemma sorted_same_mset:
  fixes xs ys :: "'k::linorder list"
  assumes "sorted xs" "sorted ys" "mset xs = mset ys"
  shows "xs = ys"
proof -
  have "sort ys = xs"
    using assms by (intro properties_for_sort) simp_all
  moreover have "sort ys = ys"
    using assms by (intro properties_for_sort) simp_all
  ultimately show ?thesis by simp
qed

lemma map_eq_transfer:
  "map f xs = map f ys \<Longrightarrow>
   (\<And>a b. a \<in> set xs \<Longrightarrow> b \<in> set ys \<Longrightarrow> f a = f b \<Longrightarrow> g a = g b) \<Longrightarrow>
   map g xs = map g ys"
proof (induction xs arbitrary: ys)
  case Nil
  then show ?case by simp
next
  case (Cons x xs)
  obtain y ys' where y: "ys = y # ys'"
    using Cons.prems(1) by (cases ys) auto
  have h: "f x = f y" and t: "map f xs = map f ys'"
    using Cons.prems(1) y by simp_all
  have "g x = g y"
    using Cons.prems(2) [of x y] h y by simp
  moreover have "map g xs = map g ys'"
    using Cons.prems(2) y by (intro Cons.IH [OF t]) simp_all
  ultimately show ?case using y by simp
qed


lemma sortsViolations_insertionSort: "sortsViolations insertionSort"
  unfolding sortsViolations_def sorted_wrt_orderedBefore
  by (intro allI impI insertionSort_sorted) (simp add: violationLess_sortKey)

lemma Report_sorted_key:
  assumes "sortsViolations pdq" and "\<forall>v \<in> set vs. knownSeverity (Severity v)"
  shows "sorted (map sortKey (fst (Report pdq w vs)))"
  using sort_Slice_sorted [OF assms] by (simp add: Report_fst)

text \<open>
  Claim C6, as amended. For violations with known severities (the rules return no
  others: \<open>ValidateBundle_known\<close>), the list that \<open>Report\<close> leaves is in the order severity descending, file path
  ascending, rule identifier ascending, and holds the violations it was given. For any
  permutation of the input the severities, files and rule identifiers of the output are
  the same, position by position; the outputs are the same lists when no two violations
  share severity, file and rule identifier. (Violations that share all three keep an
  order that depends on the input: see \<open>report_depends_on_input_order\<close>.)
\<close>

theorem report_sorted_up_to_ties:
  assumes "permutes pdq violationLess" and "sortsViolations pdq"
    and "\<forall>v \<in> set vs. knownSeverity (Severity v)" and "mset ys = mset vs"
  shows "sorted_wrt orderedBefore (fst (Report pdq w vs))
     \<and> mset (fst (Report pdq w vs)) = mset vs
     \<and> map (\<lambda>v. (Severity v, File v, RuleID v)) (fst (Report pdq w' ys)) =
       map (\<lambda>v. (Severity v, File v, RuleID v)) (fst (Report pdq w vs))
     \<and> (inj_on (\<lambda>v. (Severity v, File v, RuleID v)) (set vs) \<longrightarrow>
         fst (Report pdq w' ys) = fst (Report pdq w vs))"
proof -
  let ?a = "fst (Report pdq w vs)" and ?b = "fst (Report pdq w' ys)"
  have ma: "mset ?a = mset vs"
    using Report_mset [OF assms(1)] .
  have mb: "mset ?b = mset vs"
    using Report_mset [OF assms(1), of w' ys] assms(4) by simp
  have sa: "set ?a = set vs" and sb: "set ?b = set vs"
    using ma mb by (auto dest: mset_eq_setD)
  have ky: "\<forall>v \<in> set ys. knownSeverity (Severity v)"
    using assms(3,4) by (auto dest: mset_eq_setD)
  have a: "sorted (map sortKey ?a)"
    using Report_sorted_key [OF assms(2,3)] .
  have b: "sorted (map sortKey ?b)"
    using Report_sorted_key [OF assms(2) ky] .
  have "mset (map sortKey ?b) = mset (map sortKey ?a)"
    using ma mb by simp
  then have k: "map sortKey ?b = map sortKey ?a"
    using a b by (intro sorted_same_mset)
  have t: "map (\<lambda>v. (Severity v, File v, RuleID v)) ?b = map (\<lambda>v. (Severity v, File v, RuleID v)) ?a"
    using k
  proof (rule map_eq_transfer)
    fix x y
    assume "x \<in> set ?b" "y \<in> set ?a" "sortKey x = sortKey y"
    then show "(Severity x, File x, RuleID x) = (Severity y, File y, RuleID y)"
      using sa sb assms(3) by (intro sortKey_eq) auto
  qed
  have i: "?b = ?a" if inj: "inj_on (\<lambda>v. (Severity v, File v, RuleID v)) (set vs)"
  proof -
    have "map id ?b = map id ?a"
      using t
    proof (rule map_eq_transfer)
      fix x y
      assume "x \<in> set ?b" "y \<in> set ?a"
        "(Severity x, File x, RuleID x) = (Severity y, File y, RuleID y)"
      then show "id x = id y"
        using sa sb inj by (auto dest: inj_onD)
    qed
    then show ?thesis by simp
  qed
  show ?thesis
    using a ma t i by (simp add: sorted_wrt_orderedBefore)
qed

lemma olm002_example:
  "WebhookOperatorResourcesRule_Validate webhookBundle = Inr [wildcardViolation, groupViolation]"
  by (simp add: WebhookOperatorResourcesRule_Validate_def webhookBundle_def bundleOf_def
      webhookCSV_def olm002Webhook_def olm002Rule_def olm002Violation_def wildcardViolation_def
      groupViolation_def CategoryOLMRequirement_def SeverityError_def ToLower_def
      toLowerByte_def lowerTable_def byte_def Let_def)

lemma violationLess_ties:
  "\<not> violationLess wildcardViolation groupViolation"
  "\<not> violationLess groupViolation wildcardViolation"
  by (simp_all add: violationLess_def wildcardViolation_def groupViolation_def)

lemma insertionSort_two:
  "insertionSort lt [a, b] = (if lt b a then [b, a] else [a, b])"
  by (simp add: insertionSort_def Swap_def)

text \<open>
  The claim C6 as it was stated fails: the two violations that ODH-OLM-002 returns for one
  webhook rule share severity, file and rule identifier, the comparator calls neither
  smaller, and the report keeps them in the order it was given them.
\<close>

theorem report_depends_on_input_order:
  "WebhookOperatorResourcesRule_Validate webhookBundle = Inr [wildcardViolation, groupViolation]
   \<and> mset [groupViolation, wildcardViolation] = mset [wildcardViolation, groupViolation]
   \<and> fst (Report insertionSort stdout0 [wildcardViolation, groupViolation]) =
       [wildcardViolation, groupViolation]
   \<and> fst (Report insertionSort stdout0 [groupViolation, wildcardViolation]) =
       [groupViolation, wildcardViolation]
   \<and> fst (Report insertionSort stdout0 [groupViolation, wildcardViolation]) \<noteq>
       fst (Report insertionSort stdout0 [wildcardViolation, groupViolation])"
proof -
  have d: "wildcardViolation \<noteq> groupViolation"
    by (simp add: wildcardViolation_def groupViolation_def sq_def)
  show ?thesis
    using d by (simp add: olm002_example Report_fst sort_Slice_def insertionSort_two violationLess_ties)
qed

lemma violationLess_error_warning:
  "violationLess (olm004Violation r) warningViolation"
  "\<not> violationLess warningViolation (olm004Violation r)"
  by (simp_all add: violationLess_def olm004Violation_def warningViolation_def SeverityError_def
      SeverityWarning_def SeverityInfo_def)

theorem report_sorted_example:
  "permutes insertionSort violationLess \<and> sortsViolations insertionSort
   \<and> knownSeverity (Severity warningViolation)
   \<and> knownSeverity (Severity (olm004Violation (pdbResource ''PodDisruptionBudget'' (VInt 0))))
   \<and> fst (Report insertionSort stdout0
        [warningViolation, olm004Violation (pdbResource ''PodDisruptionBudget'' (VInt 0))]) =
       [olm004Violation (pdbResource ''PodDisruptionBudget'' (VInt 0)), warningViolation]
   \<and> fst (Report insertionSort stdout0
        [olm004Violation (pdbResource ''PodDisruptionBudget'' (VInt 0)), warningViolation]) =
       [olm004Violation (pdbResource ''PodDisruptionBudget'' (VInt 0)), warningViolation]
   \<and> sorted_wrt orderedBefore
        [olm004Violation (pdbResource ''PodDisruptionBudget'' (VInt 0)), warningViolation]"
proof -
  let ?e = "olm004Violation (pdbResource ''PodDisruptionBudget'' (VInt 0))"
  have p: "permutes insertionSort violationLess"
    by (simp add: permutes_def insertionSort_mset)
  have k: "\<forall>v \<in> set [warningViolation, ?e]. knownSeverity (Severity v)"
    by (simp add: knownSeverity_def warningViolation_def olm004Violation_def SeverityError_def
        SeverityWarning_def)
  have m: "mset [?e, warningViolation] = mset [warningViolation, ?e]"
    by simp
  have r: "fst (Report insertionSort stdout0 [warningViolation, ?e]) = [?e, warningViolation]"
    by (simp add: Report_fst sort_Slice_def insertionSort_two violationLess_error_warning)
  show ?thesis
    using report_sorted_up_to_ties [OF p sortsViolations_insertionSort k m, of stdout0 stdout0]
      p sortsViolations_insertionSort k r
    by (simp add: Report_fst sort_Slice_def insertionSort_two violationLess_error_warning)
qed

text \<open>
  Claim C10. \<open>Report\<close> sorts the slice it is given and changes no violation: the slice
  holds the same violations afterwards, each as often as before.
\<close>

theorem report_keeps_the_violations:
  "permutes pdq violationLess \<Longrightarrow> mset (fst (Report pdq w vs)) = mset vs"
  by (simp add: Report_fst sort_Slice_mset)

theorem report_keeps_the_violations_example:
  "permutes insertionSort violationLess
   \<and> mset (fst (Report insertionSort stdout0 [warningViolation, wildcardViolation])) =
       mset [warningViolation, wildcardViolation]
   \<and> fst (Report insertionSort stdout0 [warningViolation, wildcardViolation]) =
       [wildcardViolation, warningViolation]"
proof -
  have p: "permutes insertionSort violationLess"
    by (simp add: permutes_def insertionSort_mset)
  have l: "violationLess wildcardViolation warningViolation"
    by (simp add: violationLess_def wildcardViolation_def warningViolation_def SeverityError_def
        SeverityWarning_def SeverityInfo_def)
  show ?thesis
    using report_keeps_the_violations [OF p, of stdout0 "[warningViolation, wildcardViolation]"] p l
    by (simp add: Report_fst sort_Slice_def insertionSort_two)
qed

subsection \<open>The error-demotion pattern and its suppression\<close>











lemma demotingIf_pattern: "isErrorDemotionPattern (demotingIf p)"
  by (simp add: demotingIf_def exInit_def exCond_def exLog_def containsLogCall_def
      containsErrorReturn_def Inspect.simps logMethods_def)


lemma ifStmts_example: "filter isIfStmt (nodes (funcWith (demotingIf p))) = [demotingIf p]"
  by (simp add: funcWith_def demotingIf_def exInit_def exCond_def exBody_def exLog_def nodes.simps)

lemma nodes_other: "filter isIfStmt (nodes (FuncDecl ''other'' (Some (BlockStmt [])))) = []"
  by (simp add: nodes.simps)

lemma nolintInGroup_iff:
  "nolintInGroup fset fl line cs =
     (\<exists>c \<in> set cs. File_Line fset fl (Slash c) \<in> {line - 1, line} \<and> isDirective (Text c))"
  by (induction cs) (auto simp: Let_def isDirective_def)

lemma nolintInGroups_iff:
  "nolintInGroups fset fl line gs =
     (\<exists>c \<in> set (concat gs). File_Line fset fl (Slash c) \<in> {line - 1, line} \<and> isDirective (Text c))"
  by (induction gs) (auto simp: nolintInGroup_iff)

lemma anyKeyword_iff: "anyKeyword t ks = (\<exists>k \<in> set ks. Contains t k)"
  by (induction ks) auto

lemma resilienceInGroup_iff:
  "resilienceInGroup fset fl line cs =
     (\<exists>c \<in> set cs. File_Line fset fl (Slash c) \<in> {line - 3..line - 1} \<and> isJustification (Text c))"
  by (induction cs) (auto simp: Let_def isJustification_def anyKeyword_iff)

lemma resilienceInGroups_iff:
  "resilienceInGroups fset fl line gs =
     (\<exists>c \<in> set (concat gs). File_Line fset fl (Slash c) \<in> {line - 3..line - 1} \<and> isJustification (Text c))"
  by (induction gs) (auto simp: resilienceInGroup_iff)

lemma hasNolintComment_iff:
  "Files pass \<noteq> [] \<Longrightarrow>
   hasNolintComment pass (At f l) =
     Inr (\<exists>c \<in> set (scannedComments pass). commentLine pass f c \<in> {l - 1, l} \<and> isDirective (Text c))"
  by (cases "Files pass")
    (simp_all add: hasNolintComment_def scannedComments_def commentLine_def nolintInGroups_iff)

lemma hasResilienceDoc_iff:
  "Files pass \<noteq> [] \<Longrightarrow>
   hasResilienceDoc pass (At f l) =
     Inr (\<exists>c \<in> set (scannedComments pass). commentLine pass f c \<in> {l - 3..l - 1} \<and> isJustification (Text c))"
  by (cases "Files pass")
    (simp_all add: hasResilienceDoc_def scannedComments_def commentLine_def resilienceInGroups_iff)

lemma visitIf_iff:
  assumes "Files pass \<noteq> []"
  shows "visitIf pass (IfStmt (At f l) init cond body els) =
       Inr (if isErrorDemotionPattern (IfStmt (At f l) init cond body els)
               \<and> \<not> (\<exists>c \<in> set (scannedComments pass). commentLine pass f c \<in> {l - 1, l} \<and>
                      isDirective (Text c))
               \<and> \<not> (\<exists>c \<in> set (scannedComments pass). commentLine pass f c \<in> {l - 3..l - 1} \<and>
                      isJustification (Text c))
            then [(At f l, message)] else [])"
proof -
  define N where "N = (\<exists>c \<in> set (scannedComments pass). commentLine pass f c \<in> {l - 1, l} \<and>
      isDirective (Text c))"
  define R where "R = (\<exists>c \<in> set (scannedComments pass). commentLine pass f c \<in> {l - 3..l - 1} \<and>
      isJustification (Text c))"
  have n: "hasNolintComment pass (At f l) = Inr N"
    using hasNolintComment_iff [OF assms, of f l] by (simp add: N_def)
  have r: "hasResilienceDoc pass (At f l) = Inr R"
    using hasResilienceDoc_iff [OF assms, of f l] by (simp add: R_def)
  have "visitIf pass (IfStmt (At f l) init cond body els) =
      Inr (if isErrorDemotionPattern (IfStmt (At f l) init cond body els) \<and> \<not> N \<and> \<not> R
           then [(At f l, message)] else [])"
    by (cases N; cases R) (simp_all add: visitIf_def n r del: isErrorDemotionPattern.simps)
  then show ?thesis
    unfolding N_def R_def .
qed

text \<open>
  The two windows, over the comments that the scan reads, those of the first file of the
  package, and with the line it computes for each (the comment's own line when it lies
  in the candidate's file). For a candidate on line \<open>l\<close>, the directive scan answers true
  exactly when a comment on line \<open>l - 1\<close> or \<open>l\<close> holds \<open>nolint:errordemote\<close>, or holds
  \<open>nolint\<close> and no \<open>nolint:\<close>; the justification scan answers true exactly when a
  comment on a line from \<open>l - 3\<close> to \<open>l - 1\<close> holds a keyword once lower-cased. A
  candidate that either scan suppresses is not reported; any other candidate is.
\<close>

lemma suppression_windows:
  assumes "Files pass \<noteq> []"
  shows "hasNolintComment pass (At f l) =
       Inr (\<exists>c \<in> set (scannedComments pass). commentLine pass f c \<in> {l - 1, l} \<and>
              (Contains (Text c) ''nolint:errordemote'' \<or>
               (Contains (Text c) ''nolint'' \<and> \<not> Contains (Text c) ''nolint:'')))
     \<and> hasResilienceDoc pass (At f l) =
       Inr (\<exists>c \<in> set (scannedComments pass). commentLine pass f c \<in> {l - 3..l - 1} \<and>
              (\<exists>k \<in> set keywordList. Contains (ToLower (Text c)) k))
     \<and> commentLine pass f \<lparr>Slash = At f k, Text = t\<rparr> = k
     \<and> visitIf pass (IfStmt (At f l) init cond body els) =
       Inr (if isErrorDemotionPattern (IfStmt (At f l) init cond body els)
               \<and> \<not> (\<exists>c \<in> set (scannedComments pass). commentLine pass f c \<in> {l - 1, l} \<and>
                      isDirective (Text c))
               \<and> \<not> (\<exists>c \<in> set (scannedComments pass). commentLine pass f c \<in> {l - 3..l - 1} \<and>
                      isJustification (Text c))
            then [(At f l, message)] else [])"
proof -
  have c: "commentLine pass f \<lparr>Slash = At f k, Text = t\<rparr> = k"
    by (simp add: commentLine_def)
  show ?thesis
    using hasNolintComment_iff [OF assms, of f l] hasResilienceDoc_iff [OF assms, of f l]
      visitIf_iff [OF assms, of f l init cond body els] c
    unfolding isDirective_def isJustification_def by simp
qed

lemma run_commentPass:
  "run (commentPass k t) = visitIf (commentPass k t) (demotingIf (At 0 10))"
  by (simp add: run_def ifStmts_def commentPass_def ifStmts_example split: sum.splits)

lemma run_plainPass:
  "filter isIfStmt (nodes (funcWith stmt)) = [stmt] \<Longrightarrow> run (plainPass stmt) = visitIf (plainPass stmt) stmt"
  by (simp add: run_def ifStmts_def plainPass_def split: sum.splits)




lemma directive_examples:
  "isDirective ''//nolint:errordemote // ConfigMap may not exist''"
  "isDirective ''//nolint''"
  "\<not> isDirective ''//nolint:doublewrap''"
  "\<not> isDirective ''// RESILIENCE: config is optional''"
  "\<not> isDirective ''// the cache is optional''"
  by (simp_all add: isDirective_def)

lemma justification_examples:
  "isJustification ''// RESILIENCE: config is optional''"
  "isJustification ''// the cache is optional''"
  "\<not> isJustification ''//nolint''"
  "\<not> isJustification ''//nolint:doublewrap''"
  by (simp_all add: isJustification_def keywordList_def ToLower_def toLowerByte_def lowerTable_def
      byte_def Let_def)

lemma suppression_examples:
  "Files (commentPass 9 ''//nolint:errordemote // ConfigMap may not exist'') \<noteq> []
   \<and> run (commentPass 9 ''//nolint:errordemote // ConfigMap may not exist'') = Inr []
   \<and> run (commentPass 10 ''//nolint'') = Inr []
   \<and> run (commentPass 8 ''//nolint'') = Inr [(At 0 10, message)]
   \<and> run (commentPass 11 ''//nolint'') = Inr [(At 0 10, message)]
   \<and> run (commentPass 9 ''//nolint:doublewrap'') = Inr [(At 0 10, message)]
   \<and> run (commentPass 7 ''// RESILIENCE: config is optional'') = Inr []
   \<and> run (commentPass 9 ''// the cache is optional'') = Inr []
   \<and> run (commentPass 6 ''// the cache is optional'') = Inr [(At 0 10, message)]
   \<and> run (commentPass 10 ''// the cache is optional'') = Inr [(At 0 10, message)]"
proof -
  have f: "Files (commentPass k t) \<noteq> []" for k t
    by (simp add: commentPass_def)
  have s: "scannedComments (commentPass k t) = [\<lparr>Slash = At 0 k, Text = t\<rparr>]" for k t
    by (simp add: scannedComments_def commentPass_def)
  have v: "run (commentPass k t) =
     Inr (if \<not> (k \<in> {9, 10} \<and> isDirective t) \<and> \<not> (k \<in> {7..9} \<and> isJustification t)
          then [(At 0 10, message)] else [])" for k t
    using suppression_windows [OF f, where f = 0 and l = 10 and init = "Some exInit"
          and cond = exCond and body = exBody and els = "Some (BlockStmt [exLog])",
        folded demotingIf_def] demotingIf_pattern [of "At 0 10"]
    by (simp add: run_commentPass s commentLine_def del: isErrorDemotionPattern.simps)
  show ?thesis
    by (simp add: f v directive_examples justification_examples)
qed

lemma run_single:
  "ifStmts pass = [stmt] \<Longrightarrow> run pass = visitIf pass stmt"
  by (simp add: run_def split: sum.splits)

lemma justification_upper:
  "isJustification ''// RESILIENCE: Safe To Continue''"
  "isJustification (''// OPT'' @ [CHR 0xC4, CHR 0xB0] @ ''ONAL'')"
  "\<not> isDirective ''// RESILIENCE: Safe To Continue''"
  "\<not> isJustification ''//nolint''"
  by (simp_all add: isJustification_def isDirective_def keywordList_def ToLower_def toLowerByte_def
      lowerTable_def byte_def Let_def Map_def runes.simps unicode_ToLower_def lowerRanges_def
      EncodeRune_def char_of_def bit_Suc_0_iff)

lemma run_secondFilePass: "run (secondFilePass k t) = Inr [(At 1 10, message)]"
proof -
  have i: "ifStmts (secondFilePass k t) = [demotingIf (At 1 10)]"
    by (simp add: ifStmts_def secondFilePass_def ifStmts_example nodes_other)
  have f: "Files (secondFilePass k t) \<noteq> []" and s: "scannedComments (secondFilePass k t) = []"
    by (simp_all add: secondFilePass_def scannedComments_def)
  show ?thesis
    using visitIf_iff [OF f, of 1 10 "Some exInit" exCond exBody "Some (BlockStmt [exLog])",
        folded demotingIf_def] demotingIf_pattern [of "At 1 10"]
    by (simp add: run_single [OF i] s del: isErrorDemotionPattern.simps)
qed

lemma run_commentPass_iff:
  "run (commentPass k t) =
     Inr (if \<not> (k \<in> {9, 10} \<and> isDirective t) \<and> \<not> (k \<in> {7..9} \<and> isJustification t)
          then [(At 0 10, message)] else [])"
proof -
  have f: "Files (commentPass k t) \<noteq> []"
    by (simp add: commentPass_def)
  have s: "scannedComments (commentPass k t) = [\<lparr>Slash = At 0 k, Text = t\<rparr>]"
    by (simp add: scannedComments_def commentPass_def)
  show ?thesis
    using visitIf_iff [OF f, of 0 10 "Some exInit" exCond exBody "Some (BlockStmt [exLog])",
        folded demotingIf_def] demotingIf_pattern [of "At 0 10"]
    by (simp add: run_commentPass s commentLine_def del: isErrorDemotionPattern.simps)
qed

text \<open>
  Claim C4 fails on the code, by the defect of claim C5: the windows are applied to the
  comments of the first file of the package. In a package of one file a justification
  two lines above the candidate, or a bare \<open>nolint\<close> on its line, suppresses it. In a
  package of two files, with the same statement on line 10 of the second file and the
  same comment on the same line of that file, the candidate is reported.
\<close>

theorem window_comment_in_second_file_ignored:
  "run (commentPass 8 ''// RESILIENCE: Safe To Continue'') = Inr []
   \<and> run (secondFilePass 8 ''// RESILIENCE: Safe To Continue'') = Inr [(At 1 10, message)]
   \<and> run (commentPass 10 ''//nolint'') = Inr []
   \<and> run (secondFilePass 10 ''//nolint'') = Inr [(At 1 10, message)]"
  by (simp add: run_secondFilePass run_commentPass_iff justification_upper directive_examples)

lemma run_twoFile: "run twoFilePass = Inr [(At 1 10, message)]"
proof -
  have i: "ifStmts twoFilePass = [demotingIf (At 1 10)]"
    by (simp add: ifStmts_def twoFilePass_def ifStmts_example nodes_other)
  have f: "Files twoFilePass \<noteq> []" and s: "scannedComments twoFilePass = []"
    by (simp_all add: twoFilePass_def scannedComments_def)
  show ?thesis
    using visitIf_iff [OF f, of 1 10 "Some exInit" exCond exBody "Some (BlockStmt [exLog])",
        folded demotingIf_def] demotingIf_pattern [of "At 1 10"]
    by (simp add: run_single [OF i] s del: isErrorDemotionPattern.simps)
qed

lemma run_crossFile: "run crossFilePass = Inr []"
proof -
  have i: "ifStmts crossFilePass = [demotingIf (At 1 4)]"
    by (simp add: ifStmts_def crossFilePass_def ifStmts_example nodes_other)
  have f: "Files crossFilePass \<noteq> []"
    and s: "scannedComments crossFilePass = [\<lparr>Slash = At 0 50, Text = ''// the cache is optional''\<rparr>]"
    by (simp_all add: crossFilePass_def scannedComments_def)
  have l: "commentLine crossFilePass (Suc 0) \<lparr>Slash = At 0 50, Text = ''// the cache is optional''\<rparr> = 1"
    by (simp add: commentLine_def)
  show ?thesis
    using visitIf_iff [OF f, of 1 4 "Some exInit" exCond exBody "Some (BlockStmt [exLog])",
        folded demotingIf_def]
    by (simp add: run_single [OF i] s l justification_examples del: isErrorDemotionPattern.simps)
qed

lemma run_oneFilePass: "run oneFilePass = Inr []"
proof -
  have i: "ifStmts oneFilePass = [demotingIf (At 0 10)]"
    by (simp add: ifStmts_def oneFilePass_def ifStmts_example)
  have f: "Files oneFilePass \<noteq> []"
    and s: "scannedComments oneFilePass =
      [\<lparr>Slash = At 0 9, Text = ''//nolint:errordemote // ConfigMap may not exist''\<rparr>]"
    by (simp_all add: oneFilePass_def scannedComments_def)
  show ?thesis
    using visitIf_iff [OF f, of 0 10 "Some exInit" exCond exBody "Some (BlockStmt [exLog])",
        folded demotingIf_def]
    by (simp add: run_single [OF i] s commentLine_def directive_examples
        del: isErrorDemotionPattern.simps)
qed

text \<open>
  Claim C5 fails on the code. Both scans read the comments of the first file of the
  package, whatever file the candidate is in. In a package of one file a directive on
  the line above suppresses the candidate. In a package of two files, with the same
  statement and the same directive above it in the second file, the candidate is
  reported. And a justification anywhere in the first file suppresses a candidate on
  line 4 of the second file: its line is computed in the candidate's file, where a
  position of an earlier file counts as line 1.
\<close>

theorem suppression_reads_the_first_file_only:
  "run oneFilePass = Inr []
   \<and> run twoFilePass = Inr [(At 1 10, message)]
   \<and> run crossFilePass = Inr []"
  by (simp add: run_oneFilePass run_twoFile run_crossFile)

end
